theory Spec2Isabelle
  imports Main
begin

section \<open>Strings and paths\<close>

text \<open>
  Go strings and byte slices are byte sequences; both are modelled as \<open>string\<close>.
  The helpers below are the functions of Go's \<open>strings\<close>, \<open>strconv\<close> and
  \<open>path/filepath\<close> packages that the installer calls (Unix path separator).
\<close>

type_synonym path = string
type_synonym bytes = string

definition TAB :: string where
  "TAB = [CHR 0x09]"

definition NL :: string where
  "NL = ''\<newline>''"

definition DQ :: string where
  "DQ = [CHR 0x22]"

definition HasSuffix :: "string \<Rightarrow> string \<Rightarrow> bool" where
  "HasSuffix s suffix =
     (length suffix \<le> length s \<and> drop (length s - length suffix) s = suffix)"

fun strings_Join :: "string list \<Rightarrow> string \<Rightarrow> string" where
  "strings_Join [] sep = []"
| "strings_Join [a] sep = a"
| "strings_Join (a # b # bs) sep = a @ sep @ strings_Join (b # bs) sep"

fun Itoa :: "nat \<Rightarrow> string" where
  "Itoa n = (if n < 10 then [''0123456789'' ! n]
             else Itoa (n div 10) @ [''0123456789'' ! (n mod 10)])"

fun split_sep :: "char \<Rightarrow> string \<Rightarrow> string list" where
  "split_sep c [] = [[]]"
| "split_sep c (x # xs) =
     (case split_sep c xs of
        [] \<Rightarrow> [[x]]
      | w # ws \<Rightarrow> if x = c then [] # w # ws else (x # w) # ws)"

text \<open>
  \<open>filepath.Clean\<close>: the element stack is kept reversed; an empty element and \<open>.\<close>
  are dropped, \<open>..\<close> removes the element before it, is dropped at the root, and is
  kept at the start of a relative path.
\<close>

definition clean_elem :: "bool \<Rightarrow> string list \<Rightarrow> string \<Rightarrow> string list" where
  "clean_elem rooted out c =
     (if c = [] \<or> c = ''.'' then out
      else if c = ''..'' then
        (case out of
           [] \<Rightarrow> if rooted then [] else [c]
         | d # ds \<Rightarrow> if d = ''..'' then c # out else ds)
      else c # out)"

definition Clean :: "path \<Rightarrow> path" where
  "Clean p =
     (let rooted = (take 1 p = ''/'');
          body = strings_Join (rev (foldl (clean_elem rooted) [] (split_sep CHR ''/'' p))) ''/'';
          r = (if rooted then ''/'' @ body else body)
      in if r = [] then ''.'' else r)"

definition Join :: "path list \<Rightarrow> path" where
  "Join elems =
     (case filter (\<lambda>e. e \<noteq> []) elems of
        [] \<Rightarrow> []
      | e # es \<Rightarrow> Clean (strings_Join (e # es) ''/''))"

definition IsAbs :: "path \<Rightarrow> bool" where
  "IsAbs p = (take 1 p = ''/'')"

text \<open>\<open>filepath.Dir\<close>: everything up to and including the last separator, cleaned.\<close>

definition Dir_of :: "path \<Rightarrow> path" where
  "Dir_of p = Clean (rev (dropWhile (\<lambda>c. c \<noteq> CHR ''/'') (rev p)))"

section \<open>The environment\<close>

text \<open>
  The installer works through the operating system: a file tree, a listener, external
  programs. The world records what the code can observe of them. The file tree is a
  flat map from path names to nodes (parent directories and permissions are not
  modelled). Every fallible call consults \<open>fault\<close>, the set of calls the environment
  lets fail, so that a failure can be injected at each step; calls that fail for a
  reason visible in the tree (\<open>EEXIST\<close>, \<open>ENOENT\<close>, \<open>EISDIR\<close>, \<open>ELOOP\<close>) fail there too.
\<close>

datatype node = Dir | File bytes | Link path

datatype syscall =
    Sys_TempDir string
  | Sys_Mkdir path
  | Sys_WriteFile path
  | Sys_Symlink path path
  | Sys_Getwd
  | Sys_Open path
  | Sys_OpenFile path
  | Sys_Run "string list"
  | Sys_Listen
  | Sys_StdinPipe "string list"
  | Sys_QemuExec
  | Sys_IgnParse bytes

datatype error =
    Errorf string
  | Wrapf error string
  | OsError syscall

text \<open>
  A Go call returns normally with a value, returns an error, or panics. Deferred calls
  run in all three cases.
\<close>

datatype 'a outcome = Ok 'a | Fail error | Panic string

text \<open>
  First-boot configuration documents are handled by external libraries (Ignition's
  parser and merge, the data-URL encoder, the JSON encoder). They are kept as terms:
  what was parsed, what was generated, and the order of the merges.
\<close>

datatype ignconfig =
    IgnParsed bytes
  | IgnPointer string
  | IgnInstaller "(string \<times> string) list" "(path \<times> ignconfig) list"
  | IgnAutologin
  | IgnMerge ignconfig ignconfig

record process =
  argv :: "string list"
  stdin :: "ignconfig option"

text \<open>
  The virtual machine builder of the platform package, with the fields the installer
  sets. \<open>Argv\<close> collects what \<open>Append\<close> was given.
\<close>

record QemuBuilder =
  Firmware_b :: string
  Memory :: int
  InheritConsole :: bool
  Disks :: "string list"
  Argv :: "string list"
  InstallIso :: "path option"

record QemuInstance =
  launched :: QemuBuilder

record world =
  fs :: "path \<rightharpoonup> node"
  fault :: "syscall \<Rightarrow> bool"
  RpmArch :: string
  cwd :: path
  TMPDIR :: path
  tmprand :: string
  freeport :: nat
  gzip1 :: "bytes \<Rightarrow> bytes"
  served :: "(nat \<times> path) list"
  procs :: "process list"
  vms :: "QemuBuilder list"
  ignition_accepts :: "bytes \<Rightarrow> bool"

text \<open>
  \<open>under p q\<close>: \<open>q\<close> is \<open>p\<close> or lies below it. \<open>os.RemoveAll\<close> deletes the tree at
  \<open>p\<close>; the installer discards its result, and the model takes it to succeed (the
  process created everything below its own temporary directory).
\<close>

definition under :: "path \<Rightarrow> path \<Rightarrow> bool" where
  "under p q = (q = p \<or> take (Suc (length p)) q = p @ ''/'')"

definition os_RemoveAll :: "path \<Rightarrow> world \<Rightarrow> world" where
  "os_RemoveAll p w = w\<lparr>fs := (\<lambda>q. if under p q then None else fs w q)\<rparr>"

text \<open>
  Opening a path follows symbolic links in its last component, at most 40 of them
  (then \<open>ELOOP\<close>). Link targets are absolute (the installer creates no others).
\<close>

fun follow :: "nat \<Rightarrow> (path \<rightharpoonup> node) \<Rightarrow> path \<Rightarrow> path option" where
  "follow n f p =
     (case f p of
        Some (Link q) \<Rightarrow> (case n of 0 \<Rightarrow> None | Suc m \<Rightarrow> follow m f q)
      | _ \<Rightarrow> Some p)"

text \<open>
  \<open>ioutil.TempDir("", prefix)\<close> makes a new directory under \<open>$TMPDIR\<close> named by the
  prefix and a random suffix. The real call redraws the suffix when the name is taken;
  the model draws once and fails on a taken name.
\<close>

definition ioutil_TempDir :: "string \<Rightarrow> world \<Rightarrow> path outcome \<times> world" where
  "ioutil_TempDir prefix w =
     (let name = Join [TMPDIR w, prefix @ tmprand w]
      in if fault w (Sys_TempDir prefix) then (Fail (OsError (Sys_TempDir prefix)), w)
         else if fs w name = None then (Ok name, w\<lparr>fs := (fs w)(name \<mapsto> Dir)\<rparr>)
         else (Fail (OsError (Sys_TempDir prefix)), w))"

definition os_Mkdir :: "path \<Rightarrow> world \<Rightarrow> unit outcome \<times> world" where
  "os_Mkdir p w =
     (if fault w (Sys_Mkdir p) then (Fail (OsError (Sys_Mkdir p)), w)
      else if fs w p = None then (Ok (), w\<lparr>fs := (fs w)(p \<mapsto> Dir)\<rparr>)
      else (Fail (OsError (Sys_Mkdir p)), w))"

text \<open>\<open>ioutil.WriteFile\<close> creates the file or truncates it, through links.\<close>

definition ioutil_WriteFile :: "path \<Rightarrow> bytes \<Rightarrow> world \<Rightarrow> unit outcome \<times> world" where
  "ioutil_WriteFile p d w =
     (if fault w (Sys_WriteFile p) then (Fail (OsError (Sys_WriteFile p)), w)
      else case follow 40 (fs w) p of
          None \<Rightarrow> (Fail (OsError (Sys_WriteFile p)), w)
        | Some q \<Rightarrow>
            if fs w q = Some Dir then (Fail (OsError (Sys_WriteFile p)), w)
            else (Ok (), w\<lparr>fs := (fs w)(q \<mapsto> File d)\<rparr>))"

definition os_Symlink :: "path \<Rightarrow> path \<Rightarrow> world \<Rightarrow> unit outcome \<times> world" where
  "os_Symlink target p w =
     (if fault w (Sys_Symlink target p) then (Fail (OsError (Sys_Symlink target p)), w)
      else if fs w p = None then (Ok (), w\<lparr>fs := (fs w)(p \<mapsto> Link target)\<rparr>)
      else (Fail (OsError (Sys_Symlink target p)), w))"

definition filepath_Abs :: "path \<Rightarrow> world \<Rightarrow> path outcome \<times> world" where
  "filepath_Abs p w =
     (if IsAbs p then (Ok (Clean p), w)
      else if fault w Sys_Getwd then (Fail (OsError Sys_Getwd), w)
      else (Ok (Join [cwd w, p]), w))"

text \<open>\<open>os.Open\<close>: the content read through the handle, when the path leads to a file.\<close>

definition os_Open :: "path \<Rightarrow> world \<Rightarrow> bytes outcome \<times> world" where
  "os_Open p w =
     (if fault w (Sys_Open p) then (Fail (OsError (Sys_Open p)), w)
      else case follow 40 (fs w) p of
          None \<Rightarrow> (Fail (OsError (Sys_Open p)), w)
        | Some q \<Rightarrow>
            (case fs w q of
               Some (File d) \<Rightarrow> (Ok d, w)
             | _ \<Rightarrow> (Fail (OsError (Sys_Open p)), w)))"

text \<open>
  \<open>os.OpenFile(p, O_RDWR|O_CREATE, 0755)\<close>: creates an empty file where there is
  none and opens an existing file as it is (no \<open>O_TRUNC\<close>). The result is the path the
  handle writes to.
\<close>

definition os_OpenFile :: "path \<Rightarrow> world \<Rightarrow> path outcome \<times> world" where
  "os_OpenFile p w =
     (if fault w (Sys_OpenFile p) then (Fail (OsError (Sys_OpenFile p)), w)
      else case follow 40 (fs w) p of
          None \<Rightarrow> (Fail (OsError (Sys_OpenFile p)), w)
        | Some q \<Rightarrow>
            (case fs w q of
               None \<Rightarrow> (Ok q, w\<lparr>fs := (fs w)(q \<mapsto> File [])\<rparr>)
             | Some (File d) \<Rightarrow> (Ok q, w)
             | Some _ \<Rightarrow> (Fail (OsError (Sys_OpenFile p)), w)))"

text \<open>Writing \<open>d\<close> from offset 0 into a file that holds \<open>old\<close>, without truncation.\<close>

definition overwrite :: "bytes \<Rightarrow> bytes \<Rightarrow> bytes" where
  "overwrite d old = d @ drop (length d) old"

subsection \<open>Sequencing\<close>

text \<open>
  \<open>andThen r k\<close> is Go's \<open>x, err := f(); if err != nil { return nil, err }\<close>
  followed by \<open>k\<close>; a panic passes through as well. \<open>Wrapf_on msg r\<close> is the
  same return with \<open>errors.Wrapf(err, msg)\<close>.
\<close>

definition andThen ::
  "'a outcome \<times> world \<Rightarrow> ('a \<Rightarrow> world \<Rightarrow> 'b outcome \<times> world) \<Rightarrow> 'b outcome \<times> world" where
  "andThen r k =
     (case r of
        (Ok x, w) \<Rightarrow> k x w
      | (Fail e, w) \<Rightarrow> (Fail e, w)
      | (Panic m, w) \<Rightarrow> (Panic m, w))"

definition Wrapf_on :: "string \<Rightarrow> 'a outcome \<times> world \<Rightarrow> 'a outcome \<times> world" where
  "Wrapf_on msg r =
     (case r of
        (Fail e, w) \<Rightarrow> (Fail (Wrapf e msg), w)
      | (Ok x, w) \<Rightarrow> (Ok x, w)
      | (Panic m, w) \<Rightarrow> (Panic m, w))"

text \<open>
  Running an external program: it fails when the environment says so; a run that
  succeeds is appended to the log of processes. What the program itself does to the
  file tree is outside the model.
\<close>

definition exec_Run :: "string list \<Rightarrow> ignconfig option \<Rightarrow> world \<Rightarrow> unit outcome \<times> world" where
  "exec_Run args input w =
     (if fault w (Sys_Run args) then (Fail (OsError (Sys_Run args)), w)
      else (Ok (), w\<lparr>procs := procs w @ [\<lparr>argv = args, stdin = input\<rparr>]\<rparr>))"

text \<open>
  \<open>gzip -1\<close> with the source handle as standard input and the destination handle as
  standard output: the compressed bytes land in the destination file from offset 0.
\<close>

definition run_gzip :: "bytes \<Rightarrow> path \<Rightarrow> world \<Rightarrow> unit outcome \<times> world" where
  "run_gzip src dest w =
     andThen (exec_Run [''gzip'', ''-1''] None w) (\<lambda>u w1.
       (Ok (), w1\<lparr>fs := (fs w1)(dest \<mapsto>
          File (overwrite (gzip1 w1 src)
                  (case fs w1 dest of Some (File old) \<Rightarrow> old | _ \<Rightarrow> [])))\<rparr>))"

text \<open>
  \<open>net.Listen("tcp", ":0")\<close> and the file server started on it: the listener gets the
  port the system assigns and serves the given directory from then on.
\<close>

definition net_Listen :: "path \<Rightarrow> world \<Rightarrow> nat outcome \<times> world" where
  "net_Listen root w =
     (if fault w Sys_Listen then (Fail (OsError Sys_Listen), w)
      else (Ok (freeport w), w\<lparr>served := served w @ [(freeport w, root)]\<rparr>))"

section \<open>The installer\<close>

subsection \<open>Constants and types\<close>

definition defaultQemuHostIPv4 :: string where
  "defaultQemuHostIPv4 = ''10.0.2.2''"

definition targetDevice :: string where
  "targetDevice = ''/dev/vda''"

definition baseKargs :: "string list" where
  "baseKargs = [''rd.neednet=1'', ''ip=dhcp'']"

definition liveKargs :: "string list" where
  "liveKargs = [''ignition.firstboot'', ''ignition.platform.id=metal'']"

definition consoleKernelArgument :: "string \<rightharpoonup> string" where
  "consoleKernelArgument =
     [''x86_64'' \<mapsto> ''ttyS0'', ''ppc64le'' \<mapsto> ''hvc0'',
      ''aarch64'' \<mapsto> ''ttyAMA0'', ''s390x'' \<mapsto> ''ttysclp0'']"

text \<open>
  The build metadata of the \<open>cosa\<close> package, with the fields the installer reads. An
  artifact pointer that is nil is \<open>None\<close>.
\<close>

record Artifact =
  Path :: path

record BuildArtifacts_t =
  Metal :: "Artifact option"
  Kernel :: "Artifact option"
  Initramfs :: "Artifact option"
  LiveKernel :: "Artifact option"
  LiveInitramfs :: "Artifact option"
  LiveIso :: "Artifact option"

record Build =
  Name :: string
  OstreeVersion :: string
  BuildArtifacts :: BuildArtifacts_t

record Install =
  CosaBuildDir :: path
  CosaBuild :: Build
  Firmware :: string
  Console :: bool
  Insecure :: bool
  QemuArgs :: "string list"
  LegacyInstaller :: bool
  kargs :: "string list"
  ignition :: string
  liveIgnition :: string

record InstalledMachine =
  tempdir_m :: path
  QemuInst :: QemuInstance

record kernelSetup =
  kernel :: string
  initramfs :: string

record pxeSetup =
  tftpipaddr :: string
  boottype :: string
  networkdevice :: string
  bootindex :: string
  pxeimagepath :: string
  bootfile :: string

record installerRun =
  inst :: Install
  builder :: QemuBuilder
  builddir :: path
  tempdir :: path
  tftpdir :: path
  metalimg :: string
  metalname :: string
  baseurl :: string
  kern :: kernelSetup
  pxe :: pxeSetup

subsection \<open>Staging the metal image\<close>

definition absSymlink :: "path \<Rightarrow> path \<Rightarrow> world \<Rightarrow> unit outcome \<times> world" where
  "absSymlink src dest w =
     andThen (filepath_Abs src w) (\<lambda>src' w1. os_Symlink src' dest w1)"

definition setupMetalImage :: "path \<Rightarrow> string \<Rightarrow> path \<Rightarrow> world \<Rightarrow> string outcome \<times> world" where
  "setupMetalImage builddir' metalimg' destdir w =
     (let metalIsCompressed = \<not> HasSuffix metalimg' ''.raw'' in
      if \<not> metalIsCompressed then
        (let metalimgpath = Join [builddir', metalimg'] in
         andThen (os_Open metalimgpath w) (\<lambda>srcf w0.
         let metalname' = metalimg' @ ''.gz'' in
         andThen (os_OpenFile (Join [destdir, metalname']) w0) (\<lambda>destf w1.
         andThen (Wrapf_on ''running gzip'' (run_gzip srcf destf w1)) (\<lambda>u w2.
         (Ok metalname', w2)))))
      else
        andThen (absSymlink (Join [builddir', metalimg']) (Join [destdir, metalimg']) w)
          (\<lambda>u w1. (Ok metalimg', w1)))"

text \<open>The message of the panic Go raises when a nil pointer is dereferenced.\<close>

definition nil_dereference :: string where
  "nil_dereference = ''runtime error: invalid memory address or nil pointer dereference''"

subsection \<open>The virtual machine builder\<close>

definition QemuBuilder_Append :: "string list \<Rightarrow> QemuBuilder \<Rightarrow> QemuBuilder" where
  "QemuBuilder_Append args b = b\<lparr>Argv := Argv b @ args\<rparr>"

definition QemuBuilder_Exec :: "QemuBuilder \<Rightarrow> world \<Rightarrow> QemuInstance outcome \<times> world" where
  "QemuBuilder_Exec b w =
     (if fault w Sys_QemuExec then (Fail (OsError Sys_QemuExec), w)
      else (Ok \<lparr>launched = b\<rparr>, w\<lparr>vms := vms w @ [b]\<rparr>))"

definition newQemuBuilder :: "string \<Rightarrow> bool \<Rightarrow> world \<Rightarrow> QemuBuilder" where
  "newQemuBuilder firmware console w =
     (let b = \<lparr>Firmware_b = firmware, Memory = 1536, InheritConsole = False,
                Disks = [''12G''], Argv = [], InstallIso = None\<rparr>;
          b = (if RpmArch w = ''s390x'' then b\<lparr>Memory := max (Memory b) 16384\<rparr> else b)
      in b\<lparr>InheritConsole := console\<rparr>)"

definition setBuilderLiveMemory :: "QemuBuilder \<Rightarrow> QemuBuilder" where
  "setBuilderLiveMemory b = b\<lparr>Memory := max (Memory b) 4096\<rparr>"

subsection \<open>Setting up a network install\<close>

text \<open>The loop of \<open>setup\<close> over the kernel and the initramfs.\<close>

fun symlink_names :: "path \<Rightarrow> path \<Rightarrow> string list \<Rightarrow> world \<Rightarrow> unit outcome \<times> world" where
  "symlink_names bd td [] w = (Ok (), w)"
| "symlink_names bd td (name # names) w =
     andThen (absSymlink (Join [bd, name]) (Join [td, name]) w)
       (\<lambda>u w1. symlink_names bd td names w1)"

text \<open>
  The architecture switch of \<open>setup\<close>. The default branch calls \<open>fmt.Errorf\<close> with
  the architecture appended to the format string and no operand, so the verb prints as
  \<open>%!s(MISSING)\<close> (architecture names hold no \<open>%\<close>).
\<close>

definition setup_pxe :: "world \<Rightarrow> pxeSetup outcome \<times> world" where
  "setup_pxe w =
     (let pxe0 = \<lparr>tftpipaddr = ''192.168.76.2'', boottype = [], networkdevice = [],
                   bootindex = [], pxeimagepath = [], bootfile = []\<rparr>
      in if RpmArch w = ''x86_64'' then
           (Ok (pxe0\<lparr>boottype := ''pxe'', networkdevice := ''e1000'',
                      pxeimagepath := ''/usr/share/syslinux/''\<rparr>), w)
         else if RpmArch w = ''ppc64le'' then
           (Ok (pxe0\<lparr>boottype := ''grub'', networkdevice := ''virtio-net-pci''\<rparr>), w)
         else if RpmArch w = ''s390x'' then
           (Ok (pxe0\<lparr>boottype := ''pxe'', networkdevice := ''virtio-net-ccw'',
                      tftpipaddr := ''10.0.2.2'', bootindex := ''1''\<rparr>), w)
         else (Fail (Errorf (''Unsupported arch %!s(MISSING)'' @ RpmArch w)), w))"

text \<open>The body of \<open>setup\<close> after the deferred cleanup is registered.\<close>

definition setup_staged ::
  "kernelSetup \<Rightarrow> Install \<Rightarrow> QemuBuilder \<Rightarrow> path \<Rightarrow> world \<Rightarrow> installerRun outcome \<times> world" where
  "setup_staged kern' inst' builder' tempdir' w =
     (let tftpdir' = Join [tempdir', ''tftp''] in
      andThen (os_Mkdir tftpdir' w) (\<lambda>u w1.
      let builddir' = Dir_of (CosaBuildDir inst') in
      andThen (ioutil_WriteFile (Join [tftpdir', ''config.ign'']) (ignition inst') w1) (\<lambda>u w2.
      andThen (symlink_names builddir' tftpdir' [kernel kern', initramfs kern'] w2) (\<lambda>u w3.
      case Metal (BuildArtifacts (CosaBuild inst')) of
        None \<Rightarrow> (Panic nil_dereference, w3)
      | Some metal \<Rightarrow>
      let metalimg' = Path metal in
      andThen (Wrapf_on ''setting up metal image''
                (setupMetalImage builddir' metalimg' tftpdir' w3)) (\<lambda>metalname' w4.
      andThen (setup_pxe w4) (\<lambda>pxe' w4.
      andThen (net_Listen tftpdir' w4) (\<lambda>port w5.
      let baseurl' = ''http://'' @ tftpipaddr pxe' @ '':'' @ Itoa port in
      (Ok \<lparr>inst = inst', builder = builder', builddir = builddir', tempdir = tempdir',
            tftpdir = tftpdir', metalimg = metalimg', metalname = metalname',
            baseurl = baseurl', kern = kern', pxe = pxe'\<rparr>, w5))))))))"

text \<open>
  \<open>setup\<close>: the deferred function removes the temporary directory unless
  \<open>cleanupTempdir\<close> was cleared, which happens only on the last line before the
  successful return.
\<close>

definition Install_setup :: "kernelSetup \<Rightarrow> Install \<Rightarrow> world \<Rightarrow> installerRun outcome \<times> world" where
  "Install_setup kern' inst' w =
     (if kernel kern' = [] then (Fail (Errorf ''Missing kernel artifact''), w)
      else if initramfs kern' = [] then (Fail (Errorf ''Missing initramfs artifact''), w)
      else
        let builder' = newQemuBuilder (Firmware inst') (Console inst') w in
        andThen (ioutil_TempDir ''kola-testiso'' w) (\<lambda>tempdir' w1.
          case setup_staged kern' inst' builder' tempdir' w1 of
            (Ok t, w2) \<Rightarrow> (Ok t, w2)
          | (Fail e, w2) \<Rightarrow> (Fail e, os_RemoveAll tempdir' w2)
          | (Panic m, w2) \<Rightarrow> (Panic m, os_RemoveAll tempdir' w2)))"

subsection \<open>Kernel arguments\<close>

text \<open>
  A Go map read of a missing key yields the zero value, here the empty string.
\<close>

definition renderBaseKargs :: "world \<Rightarrow> string list" where
  "renderBaseKargs w =
     baseKargs @ [''console='' @ (case consoleKernelArgument (RpmArch w) of
                                     Some tty \<Rightarrow> tty | None \<Rightarrow> [])]"

definition renderInstallKargs :: "installerRun \<Rightarrow> string list" where
  "renderInstallKargs t =
     (let args = [''coreos.inst=yes'', ''coreos.inst.install_dev=vda'',
                  ''coreos.inst.image_url='' @ baseurl t @ ''/'' @ metalname t,
                  ''coreos.inst.ignition_url='' @ baseurl t @ ''/config.ign'']
      in if Insecure (inst t) then args @ [''coreos.inst.insecure=1''] else args)"

text \<open>\<open>destroy\<close>: closing the builder leaves the world as it is.\<close>

definition destroy :: "installerRun \<Rightarrow> world \<Rightarrow> world" where
  "destroy t w = (if tempdir t \<noteq> [] then os_RemoveAll (tempdir t) w else w)"

subsection \<open>The boot chain\<close>

definition pxelinux_config :: "kernelSetup \<Rightarrow> string \<Rightarrow> string" where
  "pxelinux_config kern' kargsStr =
     NL @ TAB @ TAB @ ''DEFAULT pxeboot'' @
     NL @ TAB @ TAB @ ''TIMEOUT 20'' @
     NL @ TAB @ TAB @ ''PROMPT 0'' @
     NL @ TAB @ TAB @ ''LABEL pxeboot'' @
     NL @ TAB @ TAB @ TAB @ ''KERNEL '' @ kernel kern' @
     NL @ TAB @ TAB @ TAB @ ''APPEND initrd='' @ initramfs kern' @ '' '' @ kargsStr @
     NL @ TAB @ TAB"

definition grub_config :: "kernelSetup \<Rightarrow> string \<Rightarrow> string" where
  "grub_config kern' kargsStr =
     NL @ TAB @ TAB @ TAB @ ''default=0'' @
     NL @ TAB @ TAB @ TAB @ ''timeout=1'' @
     NL @ TAB @ TAB @ TAB @ ''menuentry '' @ DQ @ ''CoreOS (BIOS)'' @ DQ @ '' {'' @
     NL @ TAB @ TAB @ TAB @ TAB @ ''echo '' @ DQ @ ''Loading kernel'' @ DQ @
     NL @ TAB @ TAB @ TAB @ TAB @ ''linux /'' @ kernel kern' @ '' '' @ kargsStr @
     NL @ TAB @ TAB @ TAB @ TAB @ ''echo '' @ DQ @ ''Loading initrd'' @ DQ @
     NL @ TAB @ TAB @ TAB @ TAB @ ''initrd '' @ initramfs kern' @
     NL @ TAB @ TAB @ TAB @ ''}'' @
     NL @ TAB @ TAB"

text \<open>The bytes \<open>completePxeSetup\<close> hands to \<open>WriteFile\<close> in the \<open>pxe\<close> case.\<close>

definition pxeconfig :: "kernelSetup \<Rightarrow> string \<Rightarrow> string \<Rightarrow> string" where
  "pxeconfig kern' kargsStr arch =
     (let c = pxelinux_config kern' kargsStr
      in if arch = ''s390x'' then kargsStr else c)"

text \<open>The loop over the prebuilt PXELINUX images.\<close>

fun cp_images :: "path \<Rightarrow> string list \<Rightarrow> world \<Rightarrow> unit outcome \<times> world" where
  "cp_images td [] w = (Ok (), w)"
| "cp_images td (img # imgs) w =
     (let srcpath = Join [''/usr/share/syslinux'', img] in
      andThen (exec_Run [''/usr/lib/coreos-assembler/cp-reflink'', srcpath, td] None w)
        (\<lambda>u w1. cp_images td imgs w1))"

text \<open>
  \<open>completePxeSetup\<close>: the results of both \<open>WriteFile\<close> calls are discarded. The run
  comes back with the boot file recorded when the call returns nil.
\<close>

definition completePxeSetup ::
  "string list \<Rightarrow> installerRun \<Rightarrow> world \<Rightarrow> installerRun outcome \<times> world" where
  "completePxeSetup kargs' t w =
     (let kargsStr = strings_Join kargs' '' '' in
      if boottype (pxe t) = ''pxe'' then
        (let pxeconfigdir = Join [tftpdir t, ''pxelinux.cfg''] in
         andThen (os_Mkdir pxeconfigdir w) (\<lambda>u w1.
         let pxeimages = [''pxelinux.0'', ''ldlinux.c32''];
             w2 = snd (ioutil_WriteFile (Join [pxeconfigdir, ''default''])
                        (pxeconfig (kern t) kargsStr (RpmArch w1)) w1)
         in andThen
              (if pxeimagepath (pxe t) = [] then
                 (let kernelpath = Join [builddir t, kernel (kern t)];
                      initrdpath = Join [builddir t, initramfs (kern t)]
                  in exec_Run [''/usr/share/s390-tools/netboot/mk-s390image'', kernelpath,
                               ''-r'', initrdpath, ''-p'', Join [pxeconfigdir, ''default''],
                               Join [tftpdir t, ''pxelinux.0'']] None w2)
               else cp_images (tftpdir t) pxeimages w2)
              (\<lambda>u w3. (Ok (t\<lparr>pxe := (pxe t)\<lparr>bootfile := ''/'' @ ''pxelinux.0''\<rparr>\<rparr>), w3))))
      else if boottype (pxe t) = ''grub'' then
        andThen (exec_Run [''grub2-mknetdir'', ''--net-directory='' @ tftpdir t] None w) (\<lambda>u w1.
          let w2 = snd (ioutil_WriteFile (Join [tftpdir t, ''boot/grub2/grub.cfg''])
                         (grub_config (kern t) kargsStr) w1)
          in (Ok (t\<lparr>pxe := (pxe t)\<lparr>bootfile := ''/boot/grub2/powerpc-ieee1275/core.elf''\<rparr>\<rparr>),
              w2))
      else (Panic (''Unhandled boottype '' @ boottype (pxe t)), w))"

subsection \<open>Launching and the network install\<close>

definition run :: "installerRun \<Rightarrow> world \<Rightarrow> QemuInstance outcome \<times> world" where
  "run t w =
     (let b = builder t;
          netdev = networkdevice (pxe t) @ '',netdev=mynet0,mac=52:54:00:12:34:56'';
          b = (if bootindex (pxe t) = [] then
                 QemuBuilder_Append [''-boot'', ''once=n'', ''-option-rom'',
                                     ''/usr/share/qemu/pxe-rtl8139.rom''] b
               else b);
          netdev = (if bootindex (pxe t) = [] then netdev
                    else netdev @ '',bootindex='' @ bootindex (pxe t));
          b = QemuBuilder_Append [''-device'', netdev] b;
          usernetdev = ''user,id=mynet0,tftp='' @ tftpdir t @ '',bootfile='' @ bootfile (pxe t);
          usernetdev = (if tftpipaddr (pxe t) \<noteq> ''10.0.2.2''
                        then usernetdev @ '',net=192.168.76.0/24,dhcpstart=192.168.76.9''
                        else usernetdev);
          b = QemuBuilder_Append [''-netdev'', usernetdev] b;
          b = QemuBuilder_Append (QemuArgs (inst t)) b
      in QemuBuilder_Exec b w)"

text \<open>The kernel arguments \<open>runPXE\<close> hands to \<open>completePxeSetup\<close>.\<close>

definition runPXE_kargs :: "installerRun \<Rightarrow> bool \<Rightarrow> world \<Rightarrow> string list" where
  "runPXE_kargs t legacy w =
     (let kargs' = renderBaseKargs w;
          kargs' = (if \<not> legacy then kargs' @ liveKargs else kargs')
      in kargs' @ renderInstallKargs t)"

text \<open>
  \<open>runPXE\<close>: \<open>destroy\<close> is deferred once \<open>setup\<close> has returned a run, so it ends
  every path below, the successful one too. On success the run's \<open>tempdir\<close> field is
  cleared first and the machine is built from the field afterwards.
\<close>

definition runPXE ::
  "kernelSetup \<Rightarrow> bool \<Rightarrow> Install \<Rightarrow> world \<Rightarrow> InstalledMachine outcome \<times> world" where
  "runPXE kern' legacy inst' w =
     (case Install_setup kern' inst' w of
        (Fail e, w1) \<Rightarrow> (Fail e, w1)
      | (Panic m, w1) \<Rightarrow> (Panic m, w1)
      | (Ok t0, w1) \<Rightarrow>
         (let t1 = (if \<not> legacy then t0\<lparr>builder := setBuilderLiveMemory (builder t0)\<rparr> else t0);
              kargs' = runPXE_kargs t1 legacy w1
          in case completePxeSetup kargs' t1 w1 of
               (Fail e, w2) \<Rightarrow> (Fail e, destroy t1 w2)
             | (Panic m, w2) \<Rightarrow> (Panic m, destroy t1 w2)
             | (Ok t2, w2) \<Rightarrow>
                (case run t2 w2 of
                   (Fail e, w3) \<Rightarrow> (Fail e, destroy t2 w3)
                 | (Panic m, w3) \<Rightarrow> (Panic m, destroy t2 w3)
                 | (Ok qinst, w3) \<Rightarrow>
                    (let t3 = t2\<lparr>tempdir := []\<rparr>
                     in (Ok \<lparr>tempdir_m = tempdir t3, QemuInst = qinst\<rparr>, destroy t3 w3)))))"

definition PXE ::
  "string list \<Rightarrow> string \<Rightarrow> Install \<Rightarrow> world
   \<Rightarrow> InstalledMachine outcome \<times> Install \<times> world" where
  "PXE kargs' ignition' inst0 w =
     (let arts = BuildArtifacts (CosaBuild inst0) in
      if Metal arts = None then
        (Fail (Errorf (''Build '' @ OstreeVersion (CosaBuild inst0)
                        @ '' must have a `metal` artifact'')), inst0, w)
      else
        let inst1 = inst0\<lparr>kargs := kargs', ignition := ignition'\<rparr> in
        if LegacyInstaller inst1 then
          (case Kernel arts of
             None \<Rightarrow> (Fail (Errorf (''build '' @ OstreeVersion (CosaBuild inst1)
                                     @ '' has no legacy installer kernel'')), inst1, w)
           | Some k \<Rightarrow>
              (case Initramfs arts of
                 None \<Rightarrow> (Panic nil_dereference, inst1, w)
               | Some i \<Rightarrow>
                  (case Wrapf_on ''legacy installer''
                          (runPXE \<lparr>kernel = Path k, initramfs = Path i\<rparr> True inst1 w) of
                     (r, w1) \<Rightarrow> (r, inst1, w1))))
        else
          (case LiveKernel arts of
             None \<Rightarrow> (Fail (Errorf (''build '' @ Name (CosaBuild inst1)
                                     @ '' has no live installer kernel'')), inst1, w)
           | Some k \<Rightarrow>
              (case LiveInitramfs arts of
                 None \<Rightarrow> (Panic nil_dereference, inst1, w)
               | Some i \<Rightarrow>
                  (case Wrapf_on ''testing live installer''
                          (runPXE \<lparr>kernel = Path k, initramfs = Path i\<rparr> False inst1 w) of
                     (r, w1) \<Rightarrow> (r, inst1, w1)))))"

definition Destroy :: "InstalledMachine \<Rightarrow> world \<Rightarrow> world" where
  "Destroy m w = (if tempdir_m m \<noteq> [] then os_RemoveAll (tempdir_m m) w else w)"

subsection \<open>Installing through an ISO with an embedded configuration\<close>

definition rebootUnit :: string where
  "rebootUnit =
     ''[Unit]'' @ NL @
     TAB @ ''Description=Reboot after CoreOS Installer'' @ NL @
     TAB @ ''After=coreos-installer.service'' @ NL @
     TAB @ ''Requires=coreos-installer.service'' @ NL @
     TAB @ ''OnFailure=emergency.target'' @ NL @
     TAB @ ''OnFailureJobMode=replace-irreversibly'' @ NL @
     TAB @ NL @
     TAB @ ''[Service]'' @ NL @
     TAB @ ''Type=simple'' @ NL @
     TAB @ ''ExecStart=/usr/bin/systemctl --no-block reboot'' @ NL @
     TAB @ ''StandardOutput=kmsg+console'' @ NL @
     TAB @ ''StandardError=kmsg+console'' @ NL @
     TAB @ ''[Install]'' @ NL @
     TAB @ ''WantedBy=multi-user.target'' @ NL"

definition installerUnit_text :: "string \<Rightarrow> string \<Rightarrow> string \<Rightarrow> string \<Rightarrow> string" where
  "installerUnit_text baseurl' metalname' pointerIgnitionPath insecureOpt =
     NL @ ''[Unit]'' @
     NL @ ''After=network-online.target'' @
     NL @ ''Wants=network-online.target'' @
     NL @ ''[Service]'' @
     NL @ ''RemainAfterExit=yes'' @
     NL @ ''Type=oneshot'' @
     NL @ ''ExecStart=/usr/bin/coreos-installer install --image-url '' @ baseurl' @ ''/''
        @ metalname' @ '' --ignition '' @ pointerIgnitionPath @ '' '' @ insecureOpt @ '' ''
        @ targetDevice @
     NL @ ''StandardOutput=kmsg+console'' @
     NL @ ''StandardError=kmsg+console'' @
     NL @ ''[Install]'' @
     NL @ ''WantedBy=multi-user.target'' @ NL"

text \<open>
  The pointer configuration (version 3.0.0, one merge reference to the target); the
  installer embeds its JSON text as a data URL.
\<close>

definition generatePointerIgnitionString :: "string \<Rightarrow> ignconfig" where
  "generatePointerIgnitionString target = IgnPointer target"

text \<open>
  \<open>v3.Parse\<close> is Ignition's parser, an external library: whether it accepts a
  document is a fact of the world. It rejects, for one, a document without the
  configuration version 3.0.0, such as \<open>{}\<close>.
\<close>

definition v3_Parse :: "bytes \<Rightarrow> world \<Rightarrow> ignconfig outcome \<times> world" where
  "v3_Parse doc w =
     (if ignition_accepts w doc then (Ok (IgnParsed doc), w)
      else (Fail (OsError (Sys_IgnParse doc)), w))"

definition StdinPipe :: "string list \<Rightarrow> world \<Rightarrow> unit outcome \<times> world" where
  "StdinPipe args w =
     (if fault w (Sys_StdinPipe args) then (Fail (OsError (Sys_StdinPipe args)), w)
      else (Ok (), w))"

text \<open>
  The body of \<open>InstallViaISOEmbed\<close> after the deferred cleanup is registered. The
  merged configuration reaches the embedding tool on its standard input.
\<close>

definition InstallViaISOEmbed_staged ::
  "Install \<Rightarrow> Artifact \<Rightarrow> Artifact \<Rightarrow> path \<Rightarrow> world \<Rightarrow> InstalledMachine outcome \<times> world" where
  "InstallViaISOEmbed_staged inst1 metal liveiso tempdir' w =
     andThen (ioutil_WriteFile (Join [tempdir', ''target.ign'']) (ignition inst1) w) (\<lambda>u w1.
     let builddir' = Dir_of (CosaBuildDir inst1);
         srcisopath = Join [builddir', Path liveiso];
         metalimg' = Path metal in
     andThen (Wrapf_on ''setting up metal image''
               (setupMetalImage builddir' metalimg' tempdir' w1)) (\<lambda>metalname' w2.
     andThen (Wrapf_on ''parsing provided live config''
               (v3_Parse (liveIgnition inst1) w2)) (\<lambda>providedLiveConfig w3.
     andThen (net_Listen tempdir' w3) (\<lambda>port w4.
     let baseurl' = ''http://'' @ defaultQemuHostIPv4 @ '':'' @ Itoa port;
         insecureOpt = (if Insecure inst1 then ''--insecure'' else []);
         pointerIgnitionPath = ''/var/opt/pointer.ign'';
         installerUnit = installerUnit_text baseurl' metalname' pointerIgnitionPath insecureOpt;
         pointerIgnition = generatePointerIgnitionString (baseurl' @ ''/target.ign'');
         installerConfig =
           IgnInstaller [(''coreos-installer.service'', installerUnit),
                         (''coreos-installer-reboot.service'', rebootUnit)]
                        [(pointerIgnitionPath, pointerIgnition)];
         mergedConfig = IgnMerge providedLiveConfig installerConfig;
         mergedConfig = IgnMerge mergedConfig IgnAutologin;
         isoEmbeddedPath = Join [tempdir', ''test.iso''];
         instCmd = [''coreos-installer'', ''iso'', ''embed'', isoEmbeddedPath] in
     andThen (Wrapf_on ''copying iso''
               (exec_Run [''cp'', ''--reflink=auto'', srcisopath, isoEmbeddedPath] None w4))
       (\<lambda>u w5.
     andThen (StdinPipe instCmd w5) (\<lambda>u w6.
     andThen (Wrapf_on ''running coreos-installer iso embed''
               (exec_Run instCmd (Some mergedConfig) w6)) (\<lambda>u w7.
     let qemubuilder = newQemuBuilder (Firmware inst1) (Console inst1) w7;
         qemubuilder = setBuilderLiveMemory qemubuilder;
         qemubuilder = qemubuilder\<lparr>InstallIso := Some isoEmbeddedPath\<rparr>;
         qemubuilder = QemuBuilder_Append (QemuArgs inst1) qemubuilder in
     andThen (QemuBuilder_Exec qemubuilder w7) (\<lambda>qinst w8.
     (Ok \<lparr>tempdir_m = tempdir', QemuInst = qinst\<rparr>, w8)))))))))"

text \<open>
  \<open>InstallViaISOEmbed\<close>: the guard on injected kernel arguments reads the field
  \<open>inst.kargs\<close> as it is on entry; the parameter is stored into the field after it.
\<close>

definition InstallViaISOEmbed ::
  "string list \<Rightarrow> string \<Rightarrow> string \<Rightarrow> Install \<Rightarrow> world
   \<Rightarrow> InstalledMachine outcome \<times> Install \<times> world" where
  "InstallViaISOEmbed kargs' liveIgniton targetIgnition inst0 w =
     (let arts = BuildArtifacts (CosaBuild inst0) in
      case Metal arts of
        None \<Rightarrow> (Fail (Errorf (''Build '' @ OstreeVersion (CosaBuild inst0)
                                @ '' must have a `metal` artifact'')), inst0, w)
      | Some metal \<Rightarrow>
      (case LiveIso arts of
        None \<Rightarrow> (Fail (Errorf (''Build '' @ Name (CosaBuild inst0)
                                @ '' must have a live ISO'')), inst0, w)
      | Some liveiso \<Rightarrow>
      if length (kargs inst0) > 0 then
        (Fail (Errorf (''injecting kargs is not supported yet, see ''
                       @ ''https://github.com/coreos/coreos-installer/issues/164'')), inst0, w)
      else
        (let inst1 = inst0\<lparr>kargs := kargs', ignition := targetIgnition,
                           liveIgnition := liveIgniton\<rparr> in
         (case ioutil_TempDir ''mantle-metal'' w of
            (Fail e, w1) \<Rightarrow> (Fail e, inst1, w1)
          | (Panic m, w1) \<Rightarrow> (Panic m, inst1, w1)
          | (Ok tempdir', w1) \<Rightarrow>
             (case InstallViaISOEmbed_staged inst1 metal liveiso tempdir' w1 of
                (Ok m, w2) \<Rightarrow> (Ok m, inst1, w2)
              | (Fail e, w2) \<Rightarrow> (Fail e, inst1, os_RemoveAll tempdir' w2)
              | (Panic m, w2) \<Rightarrow> (Panic m, inst1, os_RemoveAll tempdir' w2))))))"

section \<open>A sample build and host\<close>

text \<open>
  A build with every artifact and a raw metal image, an install request for it, and a
  host on which no call fails: an x86_64 machine whose build directory holds the metal
  image. Of the documents used below, Ignition's parser accepts the minimal
  configuration on it and nothing else. They are the concrete inputs of the closed theorems below.
\<close>

definition sample_artifacts :: BuildArtifacts_t where
  "sample_artifacts =
     \<lparr>Metal = Some \<lparr>Path = ''m.raw''\<rparr>, Kernel = Some \<lparr>Path = ''k''\<rparr>,
      Initramfs = Some \<lparr>Path = ''i''\<rparr>, LiveKernel = Some \<lparr>Path = ''lk''\<rparr>,
      LiveInitramfs = Some \<lparr>Path = ''li''\<rparr>, LiveIso = Some \<lparr>Path = ''l.iso''\<rparr>\<rparr>"

definition sample_install :: Install where
  "sample_install =
     \<lparr>CosaBuildDir = ''/b/x'',
      CosaBuild = \<lparr>Name = ''fcos'', OstreeVersion = ''31'', BuildArtifacts = sample_artifacts\<rparr>,
      Firmware = ''bios'', Console = False, Insecure = False, QemuArgs = [],
      LegacyInstaller = False, kargs = [], ignition = ''{}'', liveIgnition = ''{}''\<rparr>"

text \<open>The smallest configuration Ignition accepts: \<open>{"ignition":{"version":"3.0.0"}}\<close>.\<close>

definition minimal_config :: string where
  "minimal_config =
     ''{'' @ DQ @ ''ignition'' @ DQ @ '':{'' @ DQ @ ''version'' @ DQ @ '':'' @ DQ @ ''3.0.0'' @ DQ
       @ ''}}''"

definition sample_host :: world where
  "sample_host =
     \<lparr>fs = [''/b/m.raw'' \<mapsto> File ''DATA'', ''/b/m.xz'' \<mapsto> File ''XZ''],
      fault = (\<lambda>c. False), RpmArch = ''x86_64'', cwd = ''/'', TMPDIR = ''/tmp'',
      tmprand = ''1'', freeport = 8080, gzip1 = (\<lambda>d. CHR ''z'' # d),
      served = [], procs = [], vms = [],
      ignition_accepts = (\<lambda>d. d = minimal_config)\<rparr>"

text \<open>The same request for a build with other artifacts.\<close>

definition sample_install_with :: "BuildArtifacts_t \<Rightarrow> Install" where
  "sample_install_with arts =
     sample_install\<lparr>CosaBuild := \<lparr>Name = ''fcos'', OstreeVersion = ''31'',
                                   BuildArtifacts = arts\<rparr>\<rparr>"

text \<open>
  The live kernel and initramfs of the sample build, the run that \<open>setup\<close> returns for
  them on the sample host, and the host as \<open>setup\<close> leaves it.
\<close>

definition sample_kern :: kernelSetup where
  "sample_kern = \<lparr>kernel = ''lk'', initramfs = ''li''\<rparr>"

definition sample_run :: installerRun where
  "sample_run =
     \<lparr>inst = sample_install,
      builder = \<lparr>Firmware_b = ''bios'', Memory = 1536, InheritConsole = False,
                 Disks = [''12G''], Argv = [], InstallIso = None\<rparr>,
      builddir = ''/b'', tempdir = ''/tmp/kola-testiso1'',
      tftpdir = ''/tmp/kola-testiso1/tftp'', metalimg = ''m.raw'',
      metalname = ''m.raw.gz'', baseurl = ''http://192.168.76.2:8080'',
      kern = sample_kern,
      pxe = \<lparr>tftpipaddr = ''192.168.76.2'', boottype = ''pxe'', networkdevice = ''e1000'',
             bootindex = [], pxeimagepath = ''/usr/share/syslinux/'', bootfile = []\<rparr>\<rparr>"

definition sample_staged :: world where
  "sample_staged =
     sample_host
       \<lparr>fs := (fs sample_host)
                (''/tmp/kola-testiso1'' \<mapsto> Dir,
                 ''/tmp/kola-testiso1/tftp'' \<mapsto> Dir,
                 ''/tmp/kola-testiso1/tftp/config.ign'' \<mapsto> File ''{}'',
                 ''/tmp/kola-testiso1/tftp/lk'' \<mapsto> Link ''/b/lk'',
                 ''/tmp/kola-testiso1/tftp/li'' \<mapsto> Link ''/b/li'',
                 ''/tmp/kola-testiso1/tftp/m.raw.gz'' \<mapsto> File ''zDATA''),
        served := [(8080, ''/tmp/kola-testiso1/tftp'')],
        procs := [\<lparr>argv = [''gzip'', ''-1''], stdin = None\<rparr>]\<rparr>"

text \<open>
  The rest of the live network install on the sample host: the run with the memory of
  the live installer, the kernel arguments, the run and the host once the boot chain is
  in place, the builder as it is launched, the machine returned and the host at the end.
\<close>

definition sample_live_run :: installerRun where
  "sample_live_run = sample_run\<lparr>builder := (builder sample_run)\<lparr>Memory := 4096\<rparr>\<rparr>"

definition sample_kargs :: "string list" where
  "sample_kargs =
     [''rd.neednet=1'', ''ip=dhcp'', ''console=ttyS0'',
      ''ignition.firstboot'', ''ignition.platform.id=metal'',
      ''coreos.inst=yes'', ''coreos.inst.install_dev=vda'',
      ''coreos.inst.image_url=http://192.168.76.2:8080/m.raw.gz'',
      ''coreos.inst.ignition_url=http://192.168.76.2:8080/config.ign'']"

definition sample_booted :: installerRun where
  "sample_booted = sample_live_run\<lparr>pxe := (pxe sample_run)\<lparr>bootfile := ''/pxelinux.0''\<rparr>\<rparr>"

definition sample_configured :: world where
  "sample_configured =
     sample_staged
       \<lparr>fs := (fs sample_staged)
                (''/tmp/kola-testiso1/tftp/pxelinux.cfg'' \<mapsto> Dir,
                 ''/tmp/kola-testiso1/tftp/pxelinux.cfg/default'' \<mapsto>
                    File (pxelinux_config sample_kern (strings_Join sample_kargs '' ''))),
        procs := procs sample_staged @
                 [\<lparr>argv = [''/usr/lib/coreos-assembler/cp-reflink'',
                            ''/usr/share/syslinux/pxelinux.0'', ''/tmp/kola-testiso1/tftp''],
                   stdin = None\<rparr>,
                  \<lparr>argv = [''/usr/lib/coreos-assembler/cp-reflink'',
                            ''/usr/share/syslinux/ldlinux.c32'', ''/tmp/kola-testiso1/tftp''],
                   stdin = None\<rparr>]\<rparr>"

definition sample_qemu :: QemuBuilder where
  "sample_qemu =
     \<lparr>Firmware_b = ''bios'', Memory = 4096, InheritConsole = False, Disks = [''12G''],
      Argv = [''-boot'', ''once=n'', ''-option-rom'', ''/usr/share/qemu/pxe-rtl8139.rom'',
              ''-device'', ''e1000,netdev=mynet0,mac=52:54:00:12:34:56'',
              ''-netdev'',
              ''user,id=mynet0,tftp=/tmp/kola-testiso1/tftp,bootfile=/pxelinux.0''
                @ '',net=192.168.76.0/24,dhcpstart=192.168.76.9''],
      InstallIso = None\<rparr>"

definition sample_machine :: InstalledMachine where
  "sample_machine = \<lparr>tempdir_m = [], QemuInst = \<lparr>launched = sample_qemu\<rparr>\<rparr>"

definition sample_final :: world where
  "sample_final = sample_configured\<lparr>vms := [sample_qemu]\<rparr>"

text \<open>
  The runs \<open>setup\<close> returns for the same request on a ppc64le and on an s390x host
  (the host is left as on x86_64, but for its architecture).
\<close>

definition sample_run_ppc64le :: installerRun where
  "sample_run_ppc64le =
     sample_run\<lparr>pxe := \<lparr>tftpipaddr = ''192.168.76.2'', boottype = ''grub'',
                          networkdevice = ''virtio-net-pci'', bootindex = [],
                          pxeimagepath = [], bootfile = []\<rparr>\<rparr>"

definition sample_run_s390x :: installerRun where
  "sample_run_s390x =
     sample_run\<lparr>builder := (builder sample_run)\<lparr>Memory := 16384\<rparr>,
                 baseurl := ''http://10.0.2.2:8080'',
                 pxe := \<lparr>tftpipaddr = ''10.0.2.2'', boottype = ''pxe'',
                          networkdevice = ''virtio-net-ccw'', bootindex = ''1'',
                          pxeimagepath = [], bootfile = []\<rparr>\<rparr>"

text \<open>
  The legacy network install with \<open>Insecure\<close> set, on the sample host: the request, the
  legacy kernel and initramfs, the run and the host after \<open>setup\<close>, the kernel
  arguments, and the host once the boot chain is in place.
\<close>

definition sample_legacy_install :: Install where
  "sample_legacy_install = sample_install\<lparr>LegacyInstaller := True, Insecure := True\<rparr>"

definition sample_legacy_kern :: kernelSetup where
  "sample_legacy_kern = \<lparr>kernel = ''k'', initramfs = ''i''\<rparr>"

definition sample_legacy_run :: installerRun where
  "sample_legacy_run = sample_run\<lparr>inst := sample_legacy_install, kern := sample_legacy_kern\<rparr>"

definition sample_legacy_staged :: world where
  "sample_legacy_staged =
     sample_host
       \<lparr>fs := (fs sample_host)
                (''/tmp/kola-testiso1'' \<mapsto> Dir,
                 ''/tmp/kola-testiso1/tftp'' \<mapsto> Dir,
                 ''/tmp/kola-testiso1/tftp/config.ign'' \<mapsto> File ''{}'',
                 ''/tmp/kola-testiso1/tftp/k'' \<mapsto> Link ''/b/k'',
                 ''/tmp/kola-testiso1/tftp/i'' \<mapsto> Link ''/b/i'',
                 ''/tmp/kola-testiso1/tftp/m.raw.gz'' \<mapsto> File ''zDATA''),
        served := [(8080, ''/tmp/kola-testiso1/tftp'')],
        procs := [\<lparr>argv = [''gzip'', ''-1''], stdin = None\<rparr>]\<rparr>"

definition sample_legacy_kargs :: "string list" where
  "sample_legacy_kargs =
     [''rd.neednet=1'', ''ip=dhcp'', ''console=ttyS0'',
      ''coreos.inst=yes'', ''coreos.inst.install_dev=vda'',
      ''coreos.inst.image_url=http://192.168.76.2:8080/m.raw.gz'',
      ''coreos.inst.ignition_url=http://192.168.76.2:8080/config.ign'',
      ''coreos.inst.insecure=1'']"

definition sample_legacy_configured :: world where
  "sample_legacy_configured =
     sample_legacy_staged
       \<lparr>fs := (fs sample_legacy_staged)
                (''/tmp/kola-testiso1/tftp/pxelinux.cfg'' \<mapsto> Dir,
                 ''/tmp/kola-testiso1/tftp/pxelinux.cfg/default'' \<mapsto>
                    File (pxelinux_config sample_legacy_kern
                            (strings_Join sample_legacy_kargs '' ''))),
        procs := procs sample_legacy_staged @
                 [\<lparr>argv = [''/usr/lib/coreos-assembler/cp-reflink'',
                            ''/usr/share/syslinux/pxelinux.0'', ''/tmp/kola-testiso1/tftp''],
                   stdin = None\<rparr>,
                  \<lparr>argv = [''/usr/lib/coreos-assembler/cp-reflink'',
                            ''/usr/share/syslinux/ldlinux.c32'', ''/tmp/kola-testiso1/tftp''],
                   stdin = None\<rparr>]\<rparr>"

text \<open>Whether a call returned normally.\<close>

definition is_Ok :: "'a outcome \<Rightarrow> bool" where
  "is_Ok r = (case r of Ok x \<Rightarrow> True | Fail e \<Rightarrow> False | Panic m \<Rightarrow> False)"

section \<open>Properties\<close>

declare Itoa.simps [simp del]

declare follow.simps [simp del]

subsection \<open>Sequencing\<close>

lemma andThen_Ok_iff:
  "andThen r k = (Ok y, w') \<longleftrightarrow> (\<exists>x w1. r = (Ok x, w1) \<and> k x w1 = (Ok y, w'))"
  by (cases r; cases "fst r") (auto simp: andThen_def)

lemma andThen_OkE:
  assumes "andThen r k = (Ok y, w')"
  obtains x w1 where "r = (Ok x, w1)" and "k x w1 = (Ok y, w')"
  using assms by (cases r; cases "fst r") (auto simp: andThen_def)

lemma andThen_Ok_simp [simp]: "andThen (Ok x, w) k = k x w"
  by (simp add: andThen_def)

lemma andThen_Fail_simp [simp]: "andThen (Fail e, w) k = (Fail e, w)"
  by (simp add: andThen_def)

lemma andThen_Panic_simp [simp]: "andThen (Panic m, w) k = (Panic m, w)"
  by (simp add: andThen_def)

lemma Wrapf_on_Ok_iff [simp]: "Wrapf_on msg r = (Ok x, w') \<longleftrightarrow> r = (Ok x, w')"
  by (cases r; cases "fst r") (auto simp: Wrapf_on_def)

lemma Wrapf_on_Panic_iff [simp]: "Wrapf_on msg r = (Panic m, w') \<longleftrightarrow> r = (Panic m, w')"
  by (cases r; cases "fst r") (auto simp: Wrapf_on_def)

lemma snd_Wrapf_on [simp]: "snd (Wrapf_on msg r) = snd r"
  by (cases r; cases "fst r") (auto simp: Wrapf_on_def)

subsection \<open>The architecture is a constant of the host\<close>

lemma arch_andThen:
  assumes "RpmArch (snd r) = a"
    and "\<And>x w. RpmArch w = a \<Longrightarrow> RpmArch (snd (k x w)) = a"
  shows "RpmArch (snd (andThen r k)) = a"
  using assms by (cases r; cases "fst r") (auto simp: andThen_def)

lemma arch_TempDir [simp]: "RpmArch (snd (ioutil_TempDir p w)) = RpmArch w"
  by (simp add: ioutil_TempDir_def Let_def)

lemma arch_Mkdir [simp]: "RpmArch (snd (os_Mkdir p w)) = RpmArch w"
  by (simp add: os_Mkdir_def)

lemma arch_WriteFile [simp]: "RpmArch (snd (ioutil_WriteFile p d w)) = RpmArch w"
  by (simp add: ioutil_WriteFile_def split: option.splits)

lemma arch_Symlink [simp]: "RpmArch (snd (os_Symlink target p w)) = RpmArch w"
  by (simp add: os_Symlink_def)


lemma arch_OpenFile [simp]: "RpmArch (snd (os_OpenFile p w)) = RpmArch w"
  by (simp add: os_OpenFile_def split: option.splits node.splits)

lemma arch_exec_Run [simp]: "RpmArch (snd (exec_Run args input w)) = RpmArch w"
  by (simp add: exec_Run_def)

lemma arch_run_gzip [simp]: "RpmArch (snd (run_gzip src dest w)) = RpmArch w"
  unfolding run_gzip_def by (auto intro!: arch_andThen)

lemma arch_net_Listen [simp]: "RpmArch (snd (net_Listen root w)) = RpmArch w"
  by (simp add: net_Listen_def)

lemma arch_RemoveAll [simp]: "RpmArch (os_RemoveAll p w) = RpmArch w"
  by (simp add: os_RemoveAll_def)

lemma arch_filepath_Abs [simp]: "RpmArch (snd (filepath_Abs p w)) = RpmArch w"
  by (simp add: filepath_Abs_def)

lemma arch_absSymlink [simp]: "RpmArch (snd (absSymlink src dest w)) = RpmArch w"
  unfolding absSymlink_def by (auto intro!: arch_andThen)

lemma arch_symlink_names [simp]: "RpmArch (snd (symlink_names bd td names w)) = RpmArch w"
  by (induction names arbitrary: w) (auto intro!: arch_andThen)

lemma arch_os_Open [simp]: "RpmArch (snd (os_Open p w)) = RpmArch w"
  by (simp add: os_Open_def split: option.splits node.splits)

lemma arch_setupMetalImage [simp]:
  "RpmArch (snd (setupMetalImage bd img dd w)) = RpmArch w"
  unfolding setupMetalImage_def Let_def
  by (auto intro!: arch_andThen)

lemma arch_setup_pxe [simp]: "RpmArch (snd (setup_pxe w)) = RpmArch w"
  by (simp add: setup_pxe_def Let_def)

lemma arch_setup_staged [simp]:
  "RpmArch (snd (setup_staged k i b td w)) = RpmArch w"
  unfolding setup_staged_def Let_def
  by (auto intro!: arch_andThen split: option.splits)

lemma arch_Install_setup [simp]: "RpmArch (snd (Install_setup k i w)) = RpmArch w"
  unfolding Install_setup_def Let_def
  by (auto intro!: arch_andThen split: prod.splits outcome.splits)
    (metis arch_setup_staged arch_RemoveAll snd_conv)+

lemma arch_Install_setup_Ok: "Install_setup k i w = (r, w') \<Longrightarrow> RpmArch w' = RpmArch w"
  using arch_Install_setup [of k i w] by simp

subsection \<open>What a successful setup went through\<close>

lemma setup_pxe_world [simp]: "snd (setup_pxe w) = w"
  by (simp add: setup_pxe_def Let_def)

lemma setup_pxe_Ok:
  assumes "setup_pxe w = (Ok p, w')"
  shows "RpmArch w \<in> {''x86_64'', ''ppc64le'', ''s390x''}"
    and "boottype p \<in> {''pxe'', ''grub''}"
  using assms by (auto simp: setup_pxe_def Let_def split: if_splits)

lemma setup_pxe_unsupported:
  assumes "RpmArch w \<notin> {''x86_64'', ''ppc64le'', ''s390x''}"
  shows "setup_pxe w = (Fail (Errorf (''Unsupported arch %!s(MISSING)'' @ RpmArch w)), w)"
  using assms by (simp add: setup_pxe_def Let_def)

lemma setup_pxe_worldD: "setup_pxe w = (r, w') \<Longrightarrow> w' = w"
  using setup_pxe_world [of w] by simp

lemma setup_staged_steps:
  assumes "setup_staged k i b td w = (Ok t, w')"
  shows "\<exists>w3 w4 metal port.
           Metal (BuildArtifacts (CosaBuild i)) = Some metal \<and>
           setupMetalImage (Dir_of (CosaBuildDir i)) (Path metal) (Join [td, ''tftp'']) w3
             = (Ok (metalname t), w4) \<and>
           setup_pxe w4 = (Ok (pxe t), w4) \<and>
           net_Listen (Join [td, ''tftp'']) w4 = (Ok port, w') \<and>
           baseurl t = ''http://'' @ tftpipaddr (pxe t) @ '':'' @ Itoa port \<and>
           inst t = i \<and> tempdir t = td \<and> tftpdir t = Join [td, ''tftp''] \<and>
           kern t = k \<and> builder t = b"
  using assms unfolding setup_staged_def Let_def
  apply (elim andThen_OkE)
  apply (cases "Metal (BuildArtifacts (CosaBuild i))")
   apply simp
  apply (simp only: option.case)
  apply (elim andThen_OkE)
  apply (frule setup_pxe_worldD)
  apply (simp only: Wrapf_on_Ok_iff)
  apply (simp only: prod.inject outcome.inject)
  apply (elim conjE)
  apply hypsubst
  apply (simp only: installerRun.simps)
  apply blast
  done

lemma setup_staged_OkD:
  assumes "setup_staged k i b td w = (Ok t, w')"
  shows "\<exists>w3 w4 metal port.
           Metal (BuildArtifacts (CosaBuild i)) = Some metal \<and>
           setupMetalImage (Dir_of (CosaBuildDir i)) (Path metal) (Join [td, ''tftp'']) w3
             = (Ok (metalname t), w4) \<and>
           RpmArch w4 = RpmArch w \<and>
           setup_pxe w4 = (Ok (pxe t), w4) \<and>
           net_Listen (Join [td, ''tftp'']) w4 = (Ok port, w') \<and>
           baseurl t = ''http://'' @ tftpipaddr (pxe t) @ '':'' @ Itoa port \<and>
           inst t = i \<and> tempdir t = td \<and> tftpdir t = Join [td, ''tftp''] \<and>
           kern t = k \<and> builder t = b"
proof -
  from setup_staged_steps [OF assms] obtain w3 w4 metal port where
    f: "Metal (BuildArtifacts (CosaBuild i)) = Some metal"
       "setupMetalImage (Dir_of (CosaBuildDir i)) (Path metal) (Join [td, ''tftp'']) w3
          = (Ok (metalname t), w4)"
       "setup_pxe w4 = (Ok (pxe t), w4)"
       "net_Listen (Join [td, ''tftp'']) w4 = (Ok port, w')"
       "baseurl t = ''http://'' @ tftpipaddr (pxe t) @ '':'' @ Itoa port"
       "inst t = i" "tempdir t = td" "tftpdir t = Join [td, ''tftp'']"
       "kern t = k" "builder t = b"
    by blast
  have "RpmArch w' = RpmArch w"
    using arch_setup_staged [of k i b td w] assms by simp
  moreover have "RpmArch w' = RpmArch w4"
    using arch_net_Listen [of "Join [td, ''tftp'']" w4] f(4) by simp
  ultimately have "RpmArch w4 = RpmArch w" by simp
  with f show ?thesis by blast
qed

lemma Install_setup_staged:
  assumes "Install_setup k i w = (Ok t, w')"
  shows "\<exists>td w1. ioutil_TempDir ''kola-testiso'' w = (Ok td, w1) \<and>
           setup_staged k i (newQemuBuilder (Firmware i) (Console i) w) td w1 = (Ok t, w')"
proof -
  let ?b = "newQemuBuilder (Firmware i) (Console i) w"
  from assms have
    "andThen (ioutil_TempDir ''kola-testiso'' w)
       (\<lambda>td w1. case setup_staged k i ?b td w1 of
                   (Ok t, w2) \<Rightarrow> (Ok t, w2)
                 | (Fail e, w2) \<Rightarrow> (Fail e, os_RemoveAll td w2)
                 | (Panic m, w2) \<Rightarrow> (Panic m, os_RemoveAll td w2)) = (Ok t, w')"
    unfolding Install_setup_def Let_def by (simp split: if_splits)
  then obtain td w1 where a: "ioutil_TempDir ''kola-testiso'' w = (Ok td, w1)"
    and b: "(case setup_staged k i ?b td w1 of
               (Ok t, w2) \<Rightarrow> (Ok t, w2)
             | (Fail e, w2) \<Rightarrow> (Fail e, os_RemoveAll td w2)
             | (Panic m, w2) \<Rightarrow> (Panic m, os_RemoveAll td w2)) = (Ok t, w')"
    by (rule andThen_OkE)
  from b have "setup_staged k i ?b td w1 = (Ok t, w')"
    by (auto split: prod.splits outcome.splits)
  with a show ?thesis by blast
qed

lemma Install_setup_OkD:
  assumes "Install_setup k i w = (Ok t, w')"
  shows "\<exists>w3 w4 metal port.
           Metal (BuildArtifacts (CosaBuild i)) = Some metal \<and>
           setupMetalImage (Dir_of (CosaBuildDir i)) (Path metal) (tftpdir t) w3
             = (Ok (metalname t), w4) \<and>
           RpmArch w4 = RpmArch w \<and>
           setup_pxe w4 = (Ok (pxe t), w4) \<and>
           net_Listen (tftpdir t) w4 = (Ok port, w') \<and>
           baseurl t = ''http://'' @ tftpipaddr (pxe t) @ '':'' @ Itoa port \<and>
           inst t = i \<and> kern t = k"
proof -
  from Install_setup_staged [OF assms] obtain td w1 where
    a: "ioutil_TempDir ''kola-testiso'' w = (Ok td, w1)" and
    s: "setup_staged k i (newQemuBuilder (Firmware i) (Console i) w) td w1 = (Ok t, w')"
    by blast
  have e: "RpmArch w1 = RpmArch w"
    using arch_TempDir [of "''kola-testiso''" w] a by simp
  from setup_staged_OkD [OF s] obtain w3 w4 metal port where
    f: "Metal (BuildArtifacts (CosaBuild i)) = Some metal"
       "setupMetalImage (Dir_of (CosaBuildDir i)) (Path metal) (Join [td, ''tftp'']) w3
          = (Ok (metalname t), w4)"
       "RpmArch w4 = RpmArch w1"
       "setup_pxe w4 = (Ok (pxe t), w4)"
       "net_Listen (Join [td, ''tftp'']) w4 = (Ok port, w')"
       "baseurl t = ''http://'' @ tftpipaddr (pxe t) @ '':'' @ Itoa port"
       "inst t = i" "tftpdir t = Join [td, ''tftp'']" "kern t = k"
    by blast
  from f(2,5) have
    "setupMetalImage (Dir_of (CosaBuildDir i)) (Path metal) (tftpdir t) w3
       = (Ok (metalname t), w4)"
    "net_Listen (tftpdir t) w4 = (Ok port, w')"
    by (simp_all only: f(8))
  with f e show ?thesis by (intro exI [of _ w3] exI [of _ w4] exI [of _ metal] exI [of _ port]) simp
qed

lemma Install_setup_Ok_arch:
  assumes "Install_setup k i w = (Ok t, w')"
  shows "RpmArch w \<in> {''x86_64'', ''ppc64le'', ''s390x''}"
    and "boottype (pxe t) \<in> {''pxe'', ''grub''}"
proof -
  from Install_setup_OkD [OF assms] obtain w4 where
    "RpmArch w4 = RpmArch w" "setup_pxe w4 = (Ok (pxe t), w4)" by blast
  then show "RpmArch w \<in> {''x86_64'', ''ppc64le'', ''s390x''}"
    and "boottype (pxe t) \<in> {''pxe'', ''grub''}"
    using setup_pxe_Ok [of w4 "pxe t" w4] by simp_all
qed

lemma is_Ok_iff: "is_Ok r \<longleftrightarrow> (\<exists>x. r = Ok x)"
  by (cases r) (simp_all add: is_Ok_def)

lemma is_Ok_simps [simp]: "is_Ok (Ok x)" "\<not> is_Ok (Fail e)" "\<not> is_Ok (Panic m)"
  by (simp_all add: is_Ok_def)

lemma runPXE_Ok_setup:
  assumes "runPXE k l i w = (Ok m, w')"
  shows "\<exists>t w1. Install_setup k i w = (Ok t, w1)"
  using assms unfolding runPXE_def
  by (cases "Install_setup k i w"; cases "fst (Install_setup k i w)") auto

lemma PXE_Ok_runPXE:
  assumes "PXE ka ig i w = (Ok m, i', w')"
  shows "\<exists>k l i1. runPXE k l i1 w = (Ok m, w')"
  using assms unfolding PXE_def Let_def
  by (auto split: if_splits option.splits prod.splits)

subsection \<open>The architecture does not matter before the switch\<close>

lemma andThen_apsnd:
  assumes "\<And>x v. k x (f v) = apsnd f (k x v)"
  shows "andThen (apsnd f r) k = apsnd f (andThen r k)"
  by (cases r; cases "fst r") (auto simp: andThen_def assms)

lemma Wrapf_on_apsnd: "Wrapf_on msg (apsnd f r) = apsnd f (Wrapf_on msg r)"
  by (cases r; cases "fst r") (auto simp: Wrapf_on_def)

lemma TempDir_any_arch:
  "ioutil_TempDir p (w\<lparr>RpmArch := a\<rparr>) = apsnd (\<lambda>v. v\<lparr>RpmArch := a\<rparr>) (ioutil_TempDir p w)"
  by (simp add: ioutil_TempDir_def Let_def)

lemma Mkdir_any_arch:
  "os_Mkdir p (w\<lparr>RpmArch := a\<rparr>) = apsnd (\<lambda>v. v\<lparr>RpmArch := a\<rparr>) (os_Mkdir p w)"
  by (simp add: os_Mkdir_def)

lemma WriteFile_any_arch:
  "ioutil_WriteFile p d (w\<lparr>RpmArch := a\<rparr>)
     = apsnd (\<lambda>v. v\<lparr>RpmArch := a\<rparr>) (ioutil_WriteFile p d w)"
  by (simp add: ioutil_WriteFile_def split: option.splits)

lemma Symlink_any_arch:
  "os_Symlink t p (w\<lparr>RpmArch := a\<rparr>) = apsnd (\<lambda>v. v\<lparr>RpmArch := a\<rparr>) (os_Symlink t p w)"
  by (simp add: os_Symlink_def)

lemma Abs_any_arch:
  "filepath_Abs p (w\<lparr>RpmArch := a\<rparr>) = apsnd (\<lambda>v. v\<lparr>RpmArch := a\<rparr>) (filepath_Abs p w)"
  by (simp add: filepath_Abs_def)

lemma absSymlink_any_arch:
  "absSymlink s d (w\<lparr>RpmArch := a\<rparr>) = apsnd (\<lambda>v. v\<lparr>RpmArch := a\<rparr>) (absSymlink s d w)"
  unfolding absSymlink_def Abs_any_arch
  by (rule andThen_apsnd) (rule Symlink_any_arch)

lemma symlink_names_any_arch:
  "symlink_names bd td names (w\<lparr>RpmArch := a\<rparr>)
     = apsnd (\<lambda>v. v\<lparr>RpmArch := a\<rparr>) (symlink_names bd td names w)"
proof (induction names arbitrary: w)
  case Nil
  show ?case by simp
next
  case (Cons n names)
  show ?case
    unfolding symlink_names.simps absSymlink_any_arch
    by (rule andThen_apsnd) (rule Cons.IH)
qed

lemma Open_any_arch:
  "os_Open p (w\<lparr>RpmArch := a\<rparr>) = apsnd (\<lambda>v. v\<lparr>RpmArch := a\<rparr>) (os_Open p w)"
  by (simp add: os_Open_def split: option.splits node.splits)

lemma OpenFile_any_arch:
  "os_OpenFile p (w\<lparr>RpmArch := a\<rparr>) = apsnd (\<lambda>v. v\<lparr>RpmArch := a\<rparr>) (os_OpenFile p w)"
  by (simp add: os_OpenFile_def split: option.splits node.splits)

lemma exec_Run_any_arch:
  "exec_Run args input (w\<lparr>RpmArch := a\<rparr>)
     = apsnd (\<lambda>v. v\<lparr>RpmArch := a\<rparr>) (exec_Run args input w)"
  by (simp add: exec_Run_def)

lemma run_gzip_any_arch:
  "run_gzip s d (w\<lparr>RpmArch := a\<rparr>) = apsnd (\<lambda>v. v\<lparr>RpmArch := a\<rparr>) (run_gzip s d w)"
  unfolding run_gzip_def exec_Run_any_arch
  by (rule andThen_apsnd) simp

lemma setupMetalImage_any_arch:
  "setupMetalImage bd img dd (w\<lparr>RpmArch := a\<rparr>)
     = apsnd (\<lambda>v. v\<lparr>RpmArch := a\<rparr>) (setupMetalImage bd img dd w)"
proof (cases "HasSuffix img ''.raw''")
  case True
  then show ?thesis
    unfolding setupMetalImage_def Let_def Open_any_arch
    apply simp
    apply (rule andThen_apsnd)
    apply (simp only: OpenFile_any_arch)
    apply (rule andThen_apsnd)
    apply (simp only: run_gzip_any_arch Wrapf_on_apsnd)
    apply (rule andThen_apsnd)
    apply simp
    done
next
  case False
  then show ?thesis
    unfolding setupMetalImage_def Let_def absSymlink_any_arch
    by simp (rule andThen_apsnd, simp)
qed

lemma apsnd_eqD:
  assumes "P' = apsnd f P" and "P' = (r, wx)"
  shows "\<exists>w1. P = (r, w1) \<and> wx = f w1"
  using assms by (cases P) auto

lemma Wrapf_on_simps [simp]:
  "Wrapf_on msg (Ok x, w) = (Ok x, w)"
  "Wrapf_on msg (Fail e, w) = (Fail (Wrapf e msg), w)"
  "Wrapf_on msg (Panic m, w) = (Panic m, w)"
  by (simp_all add: Wrapf_on_def)

lemma andThen_is_OkE:
  assumes "is_Ok (fst (andThen (apsnd f r) k))"
  obtains x w1 where "r = (Ok x, w1)" and "is_Ok (fst (k x (f w1)))"
  using assms by (cases r; cases "fst r") (auto simp: andThen_def)

lemma arch_stepD:
  "os_Mkdir p w = (r1, w') \<Longrightarrow> RpmArch w' = RpmArch w"
  "ioutil_WriteFile p d w = (r2, w') \<Longrightarrow> RpmArch w' = RpmArch w"
  "symlink_names bd td ns w = (r3, w') \<Longrightarrow> RpmArch w' = RpmArch w"
  "Wrapf_on msg (setupMetalImage bd img dd w) = (r4, w') \<Longrightarrow> RpmArch w' = RpmArch w"
  "ioutil_TempDir pre w = (r5, w') \<Longrightarrow> RpmArch w' = RpmArch w"
  using arch_Mkdir [of p w] arch_WriteFile [of p d w] arch_symlink_names [of bd td ns w]
    arch_setupMetalImage [of bd img dd w] snd_Wrapf_on [of msg "setupMetalImage bd img dd w"]
    arch_TempDir [of pre w]
  by simp_all

lemma setup_staged_unsupported:
  assumes ok: "is_Ok (fst (setup_staged k i b td (w\<lparr>RpmArch := a\<rparr>)))"
    and un: "RpmArch w \<notin> {''x86_64'', ''ppc64le'', ''s390x''}"
  shows "fst (setup_staged k i b' td w)
           = Fail (Errorf (''Unsupported arch %!s(MISSING)'' @ RpmArch w))"
  using ok unfolding setup_staged_def Let_def
  apply (simp only: Mkdir_any_arch)
  apply (erule andThen_is_OkE)
  apply (frule arch_stepD(1))
  apply (simp only: WriteFile_any_arch)
  apply (erule andThen_is_OkE)
  apply (frule arch_stepD(2))
  apply (simp only: symlink_names_any_arch)
  apply (erule andThen_is_OkE)
  apply (frule arch_stepD(3))
  apply (cases "Metal (BuildArtifacts (CosaBuild i))")
   apply simp
  apply (simp only: option.case setupMetalImage_any_arch Wrapf_on_apsnd)
  apply (erule andThen_is_OkE)
  apply (frule arch_stepD(4))
  using un
  apply (simp add: setup_pxe_unsupported)
  done

lemma Install_setup_unsupported:
  assumes ok: "is_Ok (fst (Install_setup k i (w\<lparr>RpmArch := a\<rparr>)))"
    and un: "RpmArch w \<notin> {''x86_64'', ''ppc64le'', ''s390x''}"
  shows "fst (Install_setup k i w)
           = Fail (Errorf (''Unsupported arch %!s(MISSING)'' @ RpmArch w))"
proof -
  let ?f = "\<lambda>v. v\<lparr>RpmArch := a\<rparr>"
  let ?b = "newQemuBuilder (Firmware i) (Console i) w"
  let ?b' = "newQemuBuilder (Firmware i) (Console i) (w\<lparr>RpmArch := a\<rparr>)"
  from ok have ne: "kernel k \<noteq> []" "initramfs k \<noteq> []"
    unfolding Install_setup_def by (auto split: if_splits)
  with ok have
    "is_Ok (fst (andThen (apsnd ?f (ioutil_TempDir ''kola-testiso'' w))
       (\<lambda>td w1. case setup_staged k i ?b' td w1 of
                   (Ok t, w2) \<Rightarrow> (Ok t, w2)
                 | (Fail e, w2) \<Rightarrow> (Fail e, os_RemoveAll td w2)
                 | (Panic m, w2) \<Rightarrow> (Panic m, os_RemoveAll td w2))))"
    unfolding Install_setup_def Let_def TempDir_any_arch by simp
  then obtain td w1 where t: "ioutil_TempDir ''kola-testiso'' w = (Ok td, w1)"
    and c: "is_Ok (fst (case setup_staged k i ?b' td (?f w1) of
                   (Ok t, w2) \<Rightarrow> (Ok t, w2)
                 | (Fail e, w2) \<Rightarrow> (Fail e, os_RemoveAll td w2)
                 | (Panic m, w2) \<Rightarrow> (Panic m, os_RemoveAll td w2)))"
    by (rule andThen_is_OkE)
  from c have s: "is_Ok (fst (setup_staged k i ?b' td (w1\<lparr>RpmArch := a\<rparr>)))"
    by (auto split: prod.splits outcome.splits)
  have "RpmArch w1 = RpmArch w" using t by (rule arch_stepD(5))
  with un have "RpmArch w1 \<notin> {''x86_64'', ''ppc64le'', ''s390x''}" by simp
  from setup_staged_unsupported [OF s this, of ?b] \<open>RpmArch w1 = RpmArch w\<close>
  have "fst (setup_staged k i ?b td w1)
          = Fail (Errorf (''Unsupported arch %!s(MISSING)'' @ RpmArch w))" by simp
  then show ?thesis
    unfolding Install_setup_def Let_def using ne t
    by (cases "setup_staged k i ?b td w1") simp
qed

lemmas model_defs =
  TAB_def NL_def DQ_def HasSuffix_def Clean_def clean_elem_def Join_def IsAbs_def Dir_of_def
  under_def os_RemoveAll_def ioutil_TempDir_def os_Mkdir_def ioutil_WriteFile_def os_Symlink_def
  filepath_Abs_def os_Open_def os_OpenFile_def overwrite_def exec_Run_def run_gzip_def net_Listen_def
  defaultQemuHostIPv4_def targetDevice_def baseKargs_def liveKargs_def consoleKernelArgument_def
  absSymlink_def setupMetalImage_def nil_dereference_def
  QemuBuilder_Append_def QemuBuilder_Exec_def newQemuBuilder_def setBuilderLiveMemory_def
  setup_pxe_def setup_staged_def Install_setup_def renderBaseKargs_def renderInstallKargs_def
  destroy_def pxelinux_config_def grub_config_def pxeconfig_def completePxeSetup_def run_def
  runPXE_kargs_def runPXE_def PXE_def Destroy_def rebootUnit_def installerUnit_text_def
  generatePointerIgnitionString_def v3_Parse_def StdinPipe_def InstallViaISOEmbed_staged_def
  InstallViaISOEmbed_def sample_artifacts_def sample_install_def sample_host_def
  Let_def Itoa.simps follow.simps

lemma sample_setup_Ok:
  "a \<in> {''x86_64'', ''ppc64le'', ''s390x''} \<Longrightarrow>
   is_Ok (fst (Install_setup \<lparr>kernel = ''lk'', initramfs = ''li''\<rparr> sample_install
                 (sample_host\<lparr>RpmArch := a\<rparr>)))"
  by (auto simp: model_defs)

subsection \<open>The console argument (C3)\<close>

lemma consoleKernelArgument_table:
  "consoleKernelArgument a = Some tty \<longleftrightarrow>
     (a, tty) \<in> {(''x86_64'', ''ttyS0''), (''ppc64le'', ''hvc0''),
                 (''aarch64'', ''ttyAMA0''), (''s390x'', ''ttysclp0'')}"
  by (auto simp: consoleKernelArgument_def split: if_splits)

lemma consoleKernelArgument_None:
  "consoleKernelArgument a = None \<longleftrightarrow>
     a \<notin> {''x86_64'', ''ppc64le'', ''aarch64'', ''s390x''}"
  by (auto simp: consoleKernelArgument_def)

lemma setup_not_Ok_unsupported:
  assumes "RpmArch w \<notin> {''x86_64'', ''ppc64le'', ''s390x''}"
  shows "\<not> is_Ok (fst (Install_setup k i w))"
proof
  assume "is_Ok (fst (Install_setup k i w))"
  then obtain t w' where "Install_setup k i w = (Ok t, w')"
    by (cases "Install_setup k i w") (auto simp: is_Ok_iff)
  from Install_setup_Ok_arch(1) [OF this] assms show False by simp
qed

lemma runPXE_not_Ok_unsupported:
  assumes "RpmArch w \<notin> {''x86_64'', ''ppc64le'', ''s390x''}"
  shows "\<not> is_Ok (fst (runPXE k l i w))"
proof
  assume "is_Ok (fst (runPXE k l i w))"
  then obtain m w' where "runPXE k l i w = (Ok m, w')"
    by (cases "runPXE k l i w") (auto simp: is_Ok_iff)
  from runPXE_Ok_setup [OF this] setup_not_Ok_unsupported [OF assms, of k i]
  show False by auto
qed

lemma PXE_not_Ok_unsupported:
  assumes "RpmArch w \<notin> {''x86_64'', ''ppc64le'', ''s390x''}"
  shows "\<not> is_Ok (fst (PXE ka ig i w))"
proof
  assume "is_Ok (fst (PXE ka ig i w))"
  then obtain m i' w' where "PXE ka ig i w = (Ok m, i', w')"
    by (cases "PXE ka ig i w") (auto simp: is_Ok_iff)
  from PXE_Ok_runPXE [OF this] obtain k l i1 where "runPXE k l i1 w = (Ok m, w')" by blast
  with runPXE_not_Ok_unsupported [OF assms, of k l i1] show False by simp
qed

text \<open>
  C3, as amended. For an architecture of the console table, \<open>renderBaseKargs\<close> yields
  the two network arguments and \<open>console=\<close> with the tty of the table. The function has
  no error path: outside the table it yields \<open>console=\<close> with an empty device. The
  network install does not get that far there, because \<open>setup\<close> has already returned
  an error, so neither \<open>setup\<close> nor \<open>runPXE\<close> returns normally.
\<close>

theorem renderBaseKargs_console:
  "(consoleKernelArgument (RpmArch w) = Some tty \<longrightarrow>
      (RpmArch w, tty) \<in> {(''x86_64'', ''ttyS0''), (''ppc64le'', ''hvc0''),
                          (''aarch64'', ''ttyAMA0''), (''s390x'', ''ttysclp0'')} \<and>
      renderBaseKargs w = [''rd.neednet=1'', ''ip=dhcp'', ''console='' @ tty]) \<and>
   (consoleKernelArgument (RpmArch w) = None \<longrightarrow>
      renderBaseKargs w = [''rd.neednet=1'', ''ip=dhcp'', ''console='']  \<and>
      \<not> is_Ok (fst (Install_setup k i w)) \<and>
      \<not> is_Ok (fst (runPXE k legacy i w)))"
proof (intro conjI impI)
  assume s: "consoleKernelArgument (RpmArch w) = Some tty"
  then show "(RpmArch w, tty) \<in> {(''x86_64'', ''ttyS0''), (''ppc64le'', ''hvc0''),
                          (''aarch64'', ''ttyAMA0''), (''s390x'', ''ttysclp0'')}"
    by (simp only: consoleKernelArgument_table)
  from s show "renderBaseKargs w = [''rd.neednet=1'', ''ip=dhcp'', ''console='' @ tty]"
    by (simp add: renderBaseKargs_def baseKargs_def)
next
  assume n: "consoleKernelArgument (RpmArch w) = None"
  then show "renderBaseKargs w = [''rd.neednet=1'', ''ip=dhcp'', ''console='']"
    by (simp add: renderBaseKargs_def baseKargs_def)
  from n have u: "RpmArch w \<notin> {''x86_64'', ''ppc64le'', ''s390x''}"
    by (simp add: consoleKernelArgument_None)
  from u show "\<not> is_Ok (fst (Install_setup k i w))" by (rule setup_not_Ok_unsupported)
  from u show "\<not> is_Ok (fst (runPXE k legacy i w))" by (rule runPXE_not_Ok_unsupported)
qed

theorem renderBaseKargs_console_witness:
  "consoleKernelArgument (RpmArch sample_host) = Some ''ttyS0'' \<and>
   renderBaseKargs sample_host = [''rd.neednet=1'', ''ip=dhcp'', ''console=ttyS0''] \<and>
   consoleKernelArgument (RpmArch (sample_host\<lparr>RpmArch := ''riscv64''\<rparr>)) = None \<and>
   renderBaseKargs (sample_host\<lparr>RpmArch := ''riscv64''\<rparr>)
     = [''rd.neednet=1'', ''ip=dhcp'', ''console=''] \<and>
   \<not> is_Ok (fst (runPXE \<lparr>kernel = ''lk'', initramfs = ''li''\<rparr> False sample_install
                    (sample_host\<lparr>RpmArch := ''riscv64''\<rparr>)))"
proof -
  have a: "consoleKernelArgument (RpmArch sample_host) = Some ''ttyS0''"
    by (simp add: sample_host_def consoleKernelArgument_def)
  have b: "consoleKernelArgument (RpmArch (sample_host\<lparr>RpmArch := ''riscv64''\<rparr>)) = None"
    by (simp add: consoleKernelArgument_def)
  from a b
    renderBaseKargs_console [of sample_host "''ttyS0''"]
    renderBaseKargs_console [of "sample_host\<lparr>RpmArch := ''riscv64''\<rparr>" "''ttyS0''"
      "\<lparr>kernel = ''lk'', initramfs = ''li''\<rparr>" sample_install False]
  show ?thesis by simp
qed

theorem renderBaseKargs_unmapped_counterexample:
  "consoleKernelArgument ''riscv64'' = None \<and>
   renderBaseKargs (sample_host\<lparr>RpmArch := ''riscv64''\<rparr>)
     = [''rd.neednet=1'', ''ip=dhcp'', ''console='']"
  by (simp add: consoleKernelArgument_def renderBaseKargs_def baseKargs_def)

subsection \<open>The architectures of setup (C10)\<close>

text \<open>
  C10. \<open>setup\<close> returns a run only on x86_64, ppc64le and s390x, and on each of them
  some call does return one. On any other architecture it fails, and the error is the
  \<open>Unsupported arch\<close> one of the switch whenever no earlier step fails, that is,
  whenever the same call would succeed on some architecture. aarch64 has a console in
  the table and is among the rejected ones, so \<open>runPXE\<close> and \<open>PXE\<close> return no machine
  there.
\<close>

theorem Install_setup_architectures:
  "(is_Ok (fst (Install_setup k i w)) \<longrightarrow> RpmArch w \<in> {''x86_64'', ''ppc64le'', ''s390x''}) \<and>
   (a \<in> {''x86_64'', ''ppc64le'', ''s390x''} \<longrightarrow>
      (\<exists>k' i' w'. RpmArch w' = a \<and> is_Ok (fst (Install_setup k' i' w')))) \<and>
   (RpmArch w \<notin> {''x86_64'', ''ppc64le'', ''s390x''} \<longrightarrow>
      \<not> is_Ok (fst (Install_setup k i w)) \<and>
      (is_Ok (fst (Install_setup k i (w\<lparr>RpmArch := b\<rparr>))) \<longrightarrow>
         fst (Install_setup k i w)
           = Fail (Errorf (''Unsupported arch %!s(MISSING)'' @ RpmArch w)))) \<and>
   consoleKernelArgument ''aarch64'' = Some ''ttyAMA0'' \<and>
   (RpmArch w = ''aarch64'' \<longrightarrow>
      \<not> is_Ok (fst (Install_setup k i w)) \<and>
      \<not> is_Ok (fst (runPXE k legacy i w)) \<and>
      \<not> is_Ok (fst (PXE ka ig i w)))"
proof (intro conjI impI)
  assume "is_Ok (fst (Install_setup k i w))"
  then show "RpmArch w \<in> {''x86_64'', ''ppc64le'', ''s390x''}"
    using setup_not_Ok_unsupported [of w k i] by blast
next
  assume "a \<in> {''x86_64'', ''ppc64le'', ''s390x''}"
  from sample_setup_Ok [OF this]
  show "\<exists>k' i' w'. RpmArch w' = a \<and> is_Ok (fst (Install_setup k' i' w'))"
    by (intro exI [of _ "\<lparr>kernel = ''lk'', initramfs = ''li''\<rparr>"] exI [of _ sample_install]
              exI [of _ "sample_host\<lparr>RpmArch := a\<rparr>"]) simp
next
  assume u: "RpmArch w \<notin> {''x86_64'', ''ppc64le'', ''s390x''}"
  then show "\<not> is_Ok (fst (Install_setup k i w))" by (rule setup_not_Ok_unsupported)
  assume "is_Ok (fst (Install_setup k i (w\<lparr>RpmArch := b\<rparr>)))"
  from Install_setup_unsupported [OF this u]
  show "fst (Install_setup k i w)
          = Fail (Errorf (''Unsupported arch %!s(MISSING)'' @ RpmArch w))" .
next
  show "consoleKernelArgument ''aarch64'' = Some ''ttyAMA0''"
    by (simp add: consoleKernelArgument_def)
next
  assume "RpmArch w = ''aarch64''"
  then have u: "RpmArch w \<notin> {''x86_64'', ''ppc64le'', ''s390x''}" by simp
  from u show "\<not> is_Ok (fst (Install_setup k i w))" by (rule setup_not_Ok_unsupported)
  from u show "\<not> is_Ok (fst (runPXE k legacy i w))" by (rule runPXE_not_Ok_unsupported)
  from u show "\<not> is_Ok (fst (PXE ka ig i w))" by (rule PXE_not_Ok_unsupported)
qed

theorem Install_setup_architectures_witness:
  "is_Ok (fst (Install_setup \<lparr>kernel = ''lk'', initramfs = ''li''\<rparr> sample_install
                 (sample_host\<lparr>RpmArch := ''s390x''\<rparr>))) \<and>
   RpmArch (sample_host\<lparr>RpmArch := ''s390x''\<rparr>) \<in> {''x86_64'', ''ppc64le'', ''s390x''} \<and>
   fst (Install_setup \<lparr>kernel = ''lk'', initramfs = ''li''\<rparr> sample_install
          (sample_host\<lparr>RpmArch := ''aarch64''\<rparr>))
     = Fail (Errorf ''Unsupported arch %!s(MISSING)aarch64'') \<and>
   \<not> is_Ok (fst (PXE [] ''{}'' sample_install (sample_host\<lparr>RpmArch := ''aarch64''\<rparr>)))"
proof -
  let ?k = "\<lparr>kernel = ''lk'', initramfs = ''li''\<rparr>"
  have s: "is_Ok (fst (Install_setup ?k sample_install (sample_host\<lparr>RpmArch := ''s390x''\<rparr>)))"
    by (rule sample_setup_Ok) simp
  have x: "is_Ok (fst (Install_setup ?k sample_install
                        (sample_host\<lparr>RpmArch := ''aarch64'', RpmArch := ''x86_64''\<rparr>)))"
    using sample_setup_Ok [of "''x86_64''"] by simp
  from s x
    Install_setup_architectures [of ?k sample_install "sample_host\<lparr>RpmArch := ''s390x''\<rparr>"]
    Install_setup_architectures [of ?k sample_install "sample_host\<lparr>RpmArch := ''aarch64''\<rparr>"
      "''x86_64''" "''x86_64''" False "[]" "''{}''"]
  show ?thesis by simp
qed

subsection \<open>Missing artifacts (C8)\<close>

text \<open>
  C8. A missing metal artifact, a missing legacy or live installer kernel (for the mode
  selected) and a missing live ISO each make the call return an error whose message
  names what is missing. The world comes back as it was: no temporary directory, no
  listener, no process.
\<close>

theorem missing_artifact_errors:
  "(Metal (BuildArtifacts (CosaBuild i)) = None \<longrightarrow>
      PXE ka ig i w =
        (Fail (Errorf (''Build '' @ OstreeVersion (CosaBuild i)
                       @ '' must have a `metal` artifact'')), i, w) \<and>
      InstallViaISOEmbed ka lig tig i w =
        (Fail (Errorf (''Build '' @ OstreeVersion (CosaBuild i)
                       @ '' must have a `metal` artifact'')), i, w)) \<and>
   (Metal (BuildArtifacts (CosaBuild i)) = Some metal \<and> LegacyInstaller i \<and>
    Kernel (BuildArtifacts (CosaBuild i)) = None \<longrightarrow>
      PXE ka ig i w =
        (Fail (Errorf (''build '' @ OstreeVersion (CosaBuild i)
                       @ '' has no legacy installer kernel'')),
         i\<lparr>kargs := ka, ignition := ig\<rparr>, w)) \<and>
   (Metal (BuildArtifacts (CosaBuild i)) = Some metal \<and> \<not> LegacyInstaller i \<and>
    LiveKernel (BuildArtifacts (CosaBuild i)) = None \<longrightarrow>
      PXE ka ig i w =
        (Fail (Errorf (''build '' @ Name (CosaBuild i)
                       @ '' has no live installer kernel'')),
         i\<lparr>kargs := ka, ignition := ig\<rparr>, w)) \<and>
   (Metal (BuildArtifacts (CosaBuild i)) = Some metal \<and>
    LiveIso (BuildArtifacts (CosaBuild i)) = None \<longrightarrow>
      InstallViaISOEmbed ka lig tig i w =
        (Fail (Errorf (''Build '' @ Name (CosaBuild i) @ '' must have a live ISO'')), i, w))"
  by (simp add: PXE_def InstallViaISOEmbed_def Let_def)

subsection \<open>The boot protocol (C6)\<close>

lemma andThen_PanicE:
  assumes "fst (andThen r k) = Panic m"
  obtains "fst r = Panic m" | x v where "fst (k x v) = Panic m"
  using assms by (cases r; cases "fst r") (auto simp: andThen_def)

lemma Mkdir_no_Panic [simp]: "fst (os_Mkdir p w) \<noteq> Panic m"
  by (simp add: os_Mkdir_def)

lemma exec_Run_no_Panic [simp]: "fst (exec_Run args input w) \<noteq> Panic m"
  by (simp add: exec_Run_def)

lemma cp_images_no_Panic [simp]: "fst (cp_images td imgs w) \<noteq> Panic m"
  by (induction imgs arbitrary: w m) (auto simp: Let_def elim!: andThen_PanicE)

lemma completePxeSetup_no_Panic:
  assumes "boottype (pxe t) \<in> {''pxe'', ''grub''}"
  shows "fst (completePxeSetup ka t w) \<noteq> Panic m"
proof (cases "boottype (pxe t) = ''pxe''")
  case True
  then show ?thesis
    unfolding completePxeSetup_def Let_def
    by (auto elim!: andThen_PanicE split: if_splits)
next
  case False
  with assms have "boottype (pxe t) = ''grub''" by simp
  then show ?thesis
    unfolding completePxeSetup_def Let_def
    by (auto elim!: andThen_PanicE)
qed

lemma completePxeSetup_Panic:
  assumes "boottype (pxe t) \<notin> {''pxe'', ''grub''}"
  shows "completePxeSetup ka t w = (Panic (''Unhandled boottype '' @ boottype (pxe t)), w)"
  using assms by (simp add: completePxeSetup_def Let_def)

lemma completePxeSetup_Ok_bootfile:
  assumes "completePxeSetup ka t w = (Ok t', w')"
  shows "bootfile (pxe t') \<in> {''/pxelinux.0'', ''/boot/grub2/powerpc-ieee1275/core.elf''} \<and>
         t' = t\<lparr>pxe := (pxe t)\<lparr>bootfile := bootfile (pxe t')\<rparr>\<rparr>"
proof (cases "boottype (pxe t) = ''pxe''")
  case True
  with assms show ?thesis
    unfolding completePxeSetup_def Let_def
    by (auto elim!: andThen_OkE)
next
  case False
  with assms show ?thesis
    unfolding completePxeSetup_def Let_def
    by (auto elim!: andThen_OkE split: if_splits)
qed

subsection \<open>The order of the kernel arguments (C7)\<close>

text \<open>The list \<open>runPXE\<close> composes for a run that \<open>setup\<close> returned.\<close>

lemma runPXE_kargs_setup:
  assumes "Install_setup k i w0 = (Ok t, w)"
  shows "\<exists>tty port metal w3 w4.
           consoleKernelArgument (RpmArch w) = Some tty \<and>
           net_Listen (tftpdir t) w4 = (Ok port, w) \<and>
           baseurl t = ''http://'' @ tftpipaddr (pxe t) @ '':'' @ Itoa port \<and>
           Metal (BuildArtifacts (CosaBuild i)) = Some metal \<and>
           setupMetalImage (Dir_of (CosaBuildDir i)) (Path metal) (tftpdir t) w3
             = (Ok (metalname t), w4) \<and>
           runPXE_kargs (t\<lparr>builder := b\<rparr>) legacy w =
             [''rd.neednet=1'', ''ip=dhcp'', ''console='' @ tty]
             @ (if legacy then [] else [''ignition.firstboot'', ''ignition.platform.id=metal''])
             @ [''coreos.inst=yes'', ''coreos.inst.install_dev=vda'',
                ''coreos.inst.image_url='' @ baseurl t @ ''/'' @ metalname t,
                ''coreos.inst.ignition_url='' @ baseurl t @ ''/config.ign'']
             @ (if Insecure i then [''coreos.inst.insecure=1''] else [])"
proof -
  from Install_setup_OkD [OF assms] obtain w3 w4 metal port where
    f: "Metal (BuildArtifacts (CosaBuild i)) = Some metal"
       "setupMetalImage (Dir_of (CosaBuildDir i)) (Path metal) (tftpdir t) w3
          = (Ok (metalname t), w4)"
       "net_Listen (tftpdir t) w4 = (Ok port, w)"
       "baseurl t = ''http://'' @ tftpipaddr (pxe t) @ '':'' @ Itoa port"
       "inst t = i"
    by blast
  have a: "RpmArch w = RpmArch w0" using assms by (rule arch_Install_setup_Ok)
  from Install_setup_Ok_arch(1) [OF assms] a
  have "RpmArch w \<in> {''x86_64'', ''ppc64le'', ''s390x''}" by simp
  then obtain tty where c: "consoleKernelArgument (RpmArch w) = Some tty"
    by (auto simp: consoleKernelArgument_def)
  have "runPXE_kargs (t\<lparr>builder := b\<rparr>) legacy w =
             [''rd.neednet=1'', ''ip=dhcp'', ''console='' @ tty]
             @ (if legacy then [] else [''ignition.firstboot'', ''ignition.platform.id=metal''])
             @ [''coreos.inst=yes'', ''coreos.inst.install_dev=vda'',
                ''coreos.inst.image_url='' @ baseurl t @ ''/'' @ metalname t,
                ''coreos.inst.ignition_url='' @ baseurl t @ ''/config.ign'']
             @ (if Insecure i then [''coreos.inst.insecure=1''] else [])"
    using c f(5)
    by (simp add: runPXE_kargs_def renderBaseKargs_def renderInstallKargs_def baseKargs_def
                  liveKargs_def Let_def)
  with c f show ?thesis by blast
qed

subsection \<open>The sample run\<close>

lemma sample_paths:
  "Join [''/tmp'', ''kola-testiso1''] = ''/tmp/kola-testiso1''"
  "Join [''/tmp/kola-testiso1'', ''tftp''] = ''/tmp/kola-testiso1/tftp''"
  "Join [''/tmp/kola-testiso1/tftp'', ''config.ign''] = ''/tmp/kola-testiso1/tftp/config.ign''"
  "Join [''/tmp/kola-testiso1/tftp'', ''lk''] = ''/tmp/kola-testiso1/tftp/lk''"
  "Join [''/tmp/kola-testiso1/tftp'', ''li''] = ''/tmp/kola-testiso1/tftp/li''"
  "Join [''/tmp/kola-testiso1/tftp'', ''m.raw.gz''] = ''/tmp/kola-testiso1/tftp/m.raw.gz''"
  "Join [''/tmp/kola-testiso1/tftp'', ''pxelinux.cfg''] = ''/tmp/kola-testiso1/tftp/pxelinux.cfg''"
  "Join [''/tmp/kola-testiso1/tftp/pxelinux.cfg'', ''default'']
     = ''/tmp/kola-testiso1/tftp/pxelinux.cfg/default''"
  "Join [''/b'', ''lk''] = ''/b/lk''"
  "Join [''/b'', ''li''] = ''/b/li''"
  "Join [''/b'', ''m.raw''] = ''/b/m.raw''"
  "Join [''/b'', ''m.xz''] = ''/b/m.xz''"
  "Dir_of ''/b/x'' = ''/b''"
  "Clean ''/b/lk'' = ''/b/lk''"
  "Clean ''/b/li'' = ''/b/li''"
  "Clean ''/b/m.xz'' = ''/b/m.xz''"
  "Itoa 8080 = ''8080''"
  by (simp_all add: Join_def Clean_def clean_elem_def Dir_of_def Let_def Itoa.simps)

lemma sample_setup:
  "Install_setup sample_kern sample_install sample_host = (Ok sample_run, sample_staged)"
  by (simp add: Install_setup_def setup_staged_def sample_kern_def sample_install_def
        sample_host_def sample_run_def sample_staged_def sample_artifacts_def sample_paths
        ioutil_TempDir_def os_Mkdir_def ioutil_WriteFile_def os_Symlink_def filepath_Abs_def
        os_Open_def os_OpenFile_def overwrite_def exec_Run_def run_gzip_def net_Listen_def
        absSymlink_def setupMetalImage_def newQemuBuilder_def setup_pxe_def HasSuffix_def
        IsAbs_def Let_def follow.simps)

lemma sample_paths2:
  "Join [''/usr/share/syslinux'', ''pxelinux.0''] = ''/usr/share/syslinux/pxelinux.0''"
  "Join [''/usr/share/syslinux'', ''ldlinux.c32''] = ''/usr/share/syslinux/ldlinux.c32''"
  by (simp_all add: Join_def Clean_def clean_elem_def Let_def)

lemma sample_runPXE_kargs: "runPXE_kargs sample_live_run False sample_staged = sample_kargs"
  by (simp add: runPXE_kargs_def renderBaseKargs_def renderInstallKargs_def baseKargs_def
        liveKargs_def consoleKernelArgument_def sample_live_run_def sample_run_def
        sample_staged_def sample_host_def sample_install_def sample_kargs_def Let_def)

lemma sample_complete:
  "completePxeSetup sample_kargs sample_live_run sample_staged
     = (Ok sample_booted, sample_configured)"
  by (simp add: completePxeSetup_def sample_live_run_def sample_run_def sample_staged_def
        sample_host_def sample_booted_def sample_configured_def sample_paths sample_paths2
        os_Mkdir_def ioutil_WriteFile_def exec_Run_def pxeconfig_def Let_def follow.simps)

lemma sample_launch: "run sample_booted sample_configured = (Ok \<lparr>launched = sample_qemu\<rparr>, sample_final)"
  by (simp add: run_def sample_booted_def sample_live_run_def sample_run_def
        sample_configured_def sample_staged_def sample_host_def sample_install_def
        sample_qemu_def sample_final_def QemuBuilder_Append_def QemuBuilder_Exec_def Let_def)

lemma sample_runPXE:
  "runPXE sample_kern False sample_install sample_host = (Ok sample_machine, sample_final)"
proof -
  have t1: "sample_run\<lparr>builder := setBuilderLiveMemory (builder sample_run)\<rparr> = sample_live_run"
    by (simp add: sample_live_run_def sample_run_def setBuilderLiveMemory_def)
  show ?thesis
    unfolding runPXE_def
    by (simp add: sample_setup t1 sample_runPXE_kargs sample_complete sample_launch
          sample_machine_def destroy_def Let_def)
qed

subsection \<open>Witnesses on the sample run\<close>

theorem missing_artifact_errors_witness:
  "PXE [] ''{}'' (sample_install_with (sample_artifacts\<lparr>Metal := None\<rparr>)) sample_host =
     (Fail (Errorf ''Build 31 must have a `metal` artifact''),
      sample_install_with (sample_artifacts\<lparr>Metal := None\<rparr>), sample_host) \<and>
   InstallViaISOEmbed [] ''{}'' ''{}'' (sample_install_with (sample_artifacts\<lparr>Metal := None\<rparr>))
       sample_host =
     (Fail (Errorf ''Build 31 must have a `metal` artifact''),
      sample_install_with (sample_artifacts\<lparr>Metal := None\<rparr>), sample_host) \<and>
   fst (PXE [] ''{}'' ((sample_install_with (sample_artifacts\<lparr>Kernel := None\<rparr>))
                        \<lparr>LegacyInstaller := True\<rparr>) sample_host) =
     Fail (Errorf ''build 31 has no legacy installer kernel'') \<and>
   snd (snd (PXE [] ''{}'' ((sample_install_with (sample_artifacts\<lparr>Kernel := None\<rparr>))
                        \<lparr>LegacyInstaller := True\<rparr>) sample_host)) = sample_host \<and>
   fst (PXE [] ''{}'' (sample_install_with (sample_artifacts\<lparr>LiveKernel := None\<rparr>))
          sample_host) =
     Fail (Errorf ''build fcos has no live installer kernel'') \<and>
   snd (snd (PXE [] ''{}'' (sample_install_with (sample_artifacts\<lparr>LiveKernel := None\<rparr>))
          sample_host)) = sample_host \<and>
   InstallViaISOEmbed [] ''{}'' ''{}'' (sample_install_with (sample_artifacts\<lparr>LiveIso := None\<rparr>))
       sample_host =
     (Fail (Errorf ''Build fcos must have a live ISO''),
      sample_install_with (sample_artifacts\<lparr>LiveIso := None\<rparr>), sample_host)"
  using
    missing_artifact_errors [of "sample_install_with (sample_artifacts\<lparr>Metal := None\<rparr>)"
      "[]" "''{}''" sample_host "''{}''" "''{}''" "\<lparr>Path = ''m.raw''\<rparr>"]
    missing_artifact_errors [of "(sample_install_with (sample_artifacts\<lparr>Kernel := None\<rparr>))
      \<lparr>LegacyInstaller := True\<rparr>" "[]" "''{}''" sample_host "''{}''" "''{}''" "\<lparr>Path = ''m.raw''\<rparr>"]
    missing_artifact_errors [of "sample_install_with (sample_artifacts\<lparr>LiveKernel := None\<rparr>)"
      "[]" "''{}''" sample_host "''{}''" "''{}''" "\<lparr>Path = ''m.raw''\<rparr>"]
    missing_artifact_errors [of "sample_install_with (sample_artifacts\<lparr>LiveIso := None\<rparr>)"
      "[]" "''{}''" sample_host "''{}''" "''{}''" "\<lparr>Path = ''m.raw''\<rparr>"]
  by (simp add: sample_install_with_def sample_install_def sample_artifacts_def)

subsection \<open>The PXE configuration file (C9)\<close>

lemma fs_andThen:
  assumes "fs (snd r) = F"
    and "\<And>x v. fs v = F \<Longrightarrow> fs (snd (k x v)) = F"
  shows "fs (snd (andThen r k)) = F"
  using assms by (cases r; cases "fst r") (auto simp: andThen_def)

lemma fs_exec_Run [simp]: "fs (snd (exec_Run args input w)) = fs w"
  by (simp add: exec_Run_def)

lemma fs_cp_images [simp]: "fs (snd (cp_images td imgs w)) = fs w"
  by (induction imgs arbitrary: w) (auto simp: Let_def intro!: fs_andThen)

lemma follow_free: "f p = None \<Longrightarrow> follow n f p = Some p"
  by (simp add: follow.simps)

lemma WriteFile_free:
  assumes "fs w p = None" and "\<not> fault w (Sys_WriteFile p)"
  shows "ioutil_WriteFile p d w = (Ok (), w\<lparr>fs := (fs w)(p \<mapsto> File d)\<rparr>)"
  using assms by (simp add: ioutil_WriteFile_def follow_free)

lemma Mkdir_fault: "os_Mkdir p w = (r, w') \<Longrightarrow> fault w' = fault w"
  by (auto simp: os_Mkdir_def split: if_splits)

lemma setup_pxe_synthesized:
  assumes "setup_pxe w = (Ok p, w')"
  shows "(boottype p = ''pxe'' \<and> pxeimagepath p = []) \<longleftrightarrow> RpmArch w = ''s390x''"
  using assms by (auto simp: setup_pxe_def Let_def split: if_splits)

text \<open>
  C9. In the \<open>pxe\<close> case \<open>completePxeSetup\<close> makes the directory \<open>pxelinux.cfg\<close> and
  writes the file \<open>default\<close> in it. Where that write goes through (the name is free and
  the write does not fail), the file holds exactly the kernel arguments joined by
  spaces on s390x, and on every other architecture the PXELINUX stanza with the same
  joined string after \<open>APPEND initrd=...\<close>. Among the runs \<open>setup\<close> returns, s390x is
  the one \<open>pxe\<close> plan without prebuilt images, the one whose image is synthesized.
\<close>

theorem pxe_config_payload:
  assumes "boottype (pxe t) = ''pxe''"
    and "os_Mkdir (Join [tftpdir t, ''pxelinux.cfg'']) w = (Ok (), w1)"
    and "fs w1 (Join [Join [tftpdir t, ''pxelinux.cfg''], ''default'']) = None"
    and "\<not> fault w (Sys_WriteFile (Join [Join [tftpdir t, ''pxelinux.cfg''], ''default'']))"
  shows "fs (snd (completePxeSetup ka t w))
              (Join [Join [tftpdir t, ''pxelinux.cfg''], ''default''])
           = Some (File (if RpmArch w = ''s390x'' then strings_Join ka '' ''
                         else NL @ TAB @ TAB @ ''DEFAULT pxeboot'' @
                              NL @ TAB @ TAB @ ''TIMEOUT 20'' @
                              NL @ TAB @ TAB @ ''PROMPT 0'' @
                              NL @ TAB @ TAB @ ''LABEL pxeboot'' @
                              NL @ TAB @ TAB @ TAB @ ''KERNEL '' @ kernel (kern t) @
                              NL @ TAB @ TAB @ TAB @ ''APPEND initrd='' @ initramfs (kern t)
                                 @ '' '' @ strings_Join ka '' '' @
                              NL @ TAB @ TAB))
         \<and> (Install_setup k i w0 = (Ok t, w) \<longrightarrow>
              (pxeimagepath (pxe t) = []) = (RpmArch w = ''s390x''))"
proof
  let ?dir = "Join [tftpdir t, ''pxelinux.cfg'']"
  let ?file = "Join [?dir, ''default'']"
  let ?c = "pxeconfig (kern t) (strings_Join ka '' '') (RpmArch w1)"
  have a: "RpmArch w1 = RpmArch w" using assms(2) by (rule arch_stepD(1))
  have "fault w1 = fault w" using assms(2) by (rule Mkdir_fault)
  with assms(4) have nf: "\<not> fault w1 (Sys_WriteFile ?file)" by simp
  have wr: "ioutil_WriteFile ?file ?c w1 = (Ok (), w1\<lparr>fs := (fs w1)(?file \<mapsto> File ?c)\<rparr>)"
    using assms(3) nf by (rule WriteFile_free)
  have "fs (snd (completePxeSetup ka t w)) = (fs w1)(?file \<mapsto> File ?c)"
    unfolding completePxeSetup_def Let_def using assms(1,2)
    by (auto simp: wr intro!: fs_andThen)
  then show "fs (snd (completePxeSetup ka t w)) ?file
           = Some (File (if RpmArch w = ''s390x'' then strings_Join ka '' ''
                         else NL @ TAB @ TAB @ ''DEFAULT pxeboot'' @
                              NL @ TAB @ TAB @ ''TIMEOUT 20'' @
                              NL @ TAB @ TAB @ ''PROMPT 0'' @
                              NL @ TAB @ TAB @ ''LABEL pxeboot'' @
                              NL @ TAB @ TAB @ TAB @ ''KERNEL '' @ kernel (kern t) @
                              NL @ TAB @ TAB @ TAB @ ''APPEND initrd='' @ initramfs (kern t)
                                 @ '' '' @ strings_Join ka '' '' @
                              NL @ TAB @ TAB))"
    by (simp add: a pxeconfig_def pxelinux_config_def Let_def)
next
  show "Install_setup k i w0 = (Ok t, w) \<longrightarrow>
          (pxeimagepath (pxe t) = []) = (RpmArch w = ''s390x'')"
  proof
    assume s: "Install_setup k i w0 = (Ok t, w)"
    from Install_setup_OkD [OF s] obtain w4 where
      "RpmArch w4 = RpmArch w0" "setup_pxe w4 = (Ok (pxe t), w4)" by blast
    moreover have "RpmArch w = RpmArch w0" using s by (rule arch_Install_setup_Ok)
    ultimately show "(pxeimagepath (pxe t) = []) = (RpmArch w = ''s390x'')"
      using setup_pxe_synthesized [of w4 "pxe t" w4] assms(1) by simp
  qed
qed

theorem pxe_config_payload_witness:
  "fs (snd (completePxeSetup sample_kargs sample_live_run sample_staged))
      ''/tmp/kola-testiso1/tftp/pxelinux.cfg/default''
     = Some (File (NL @ TAB @ TAB @ ''DEFAULT pxeboot'' @
                   NL @ TAB @ TAB @ ''TIMEOUT 20'' @
                   NL @ TAB @ TAB @ ''PROMPT 0'' @
                   NL @ TAB @ TAB @ ''LABEL pxeboot'' @
                   NL @ TAB @ TAB @ TAB @ ''KERNEL lk'' @
                   NL @ TAB @ TAB @ TAB @ ''APPEND initrd=li rd.neednet=1 ip=dhcp console=ttyS0''
                     @ '' ignition.firstboot ignition.platform.id=metal coreos.inst=yes''
                     @ '' coreos.inst.install_dev=vda''
                     @ '' coreos.inst.image_url=http://192.168.76.2:8080/m.raw.gz''
                     @ '' coreos.inst.ignition_url=http://192.168.76.2:8080/config.ign'' @
                   NL @ TAB @ TAB)) \<and>
   fs (snd (completePxeSetup [''ip=dhcp'', ''console=ttysclp0'']
              (sample_run\<lparr>pxe := (pxe sample_run)\<lparr>pxeimagepath := []\<rparr>\<rparr>)
              (sample_staged\<lparr>RpmArch := ''s390x''\<rparr>)))
      ''/tmp/kola-testiso1/tftp/pxelinux.cfg/default''
     = Some (File ''ip=dhcp console=ttysclp0'') \<and>
   (pxeimagepath (pxe sample_run) = []) = (RpmArch sample_staged = ''s390x'')"
proof -
  let ?w1 = "sample_staged\<lparr>fs := (fs sample_staged)
               (''/tmp/kola-testiso1/tftp/pxelinux.cfg'' \<mapsto> Dir)\<rparr>"
  let ?s = "sample_run\<lparr>pxe := (pxe sample_run)\<lparr>pxeimagepath := []\<rparr>\<rparr>"
  let ?w = "sample_staged\<lparr>RpmArch := ''s390x''\<rparr>"
  let ?w2 = "?w\<lparr>fs := (fs ?w)(''/tmp/kola-testiso1/tftp/pxelinux.cfg'' \<mapsto> Dir)\<rparr>"
  have p: "tftpdir sample_live_run = ''/tmp/kola-testiso1/tftp''"
      "tftpdir ?s = ''/tmp/kola-testiso1/tftp''"
      "boottype (pxe sample_live_run) = ''pxe''" "boottype (pxe ?s) = ''pxe''"
      "kern sample_live_run = sample_kern"
    by (simp_all add: sample_live_run_def sample_run_def)
  have m: "os_Mkdir ''/tmp/kola-testiso1/tftp/pxelinux.cfg'' sample_staged = (Ok (), ?w1)"
      "os_Mkdir ''/tmp/kola-testiso1/tftp/pxelinux.cfg'' ?w = (Ok (), ?w2)"
    by (simp_all add: os_Mkdir_def sample_staged_def sample_host_def)
  have f: "fs ?w1 ''/tmp/kola-testiso1/tftp/pxelinux.cfg/default'' = None"
      "fs ?w2 ''/tmp/kola-testiso1/tftp/pxelinux.cfg/default'' = None"
      "\<not> fault sample_staged (Sys_WriteFile ''/tmp/kola-testiso1/tftp/pxelinux.cfg/default'')"
      "\<not> fault ?w (Sys_WriteFile ''/tmp/kola-testiso1/tftp/pxelinux.cfg/default'')"
    by (simp_all add: sample_staged_def sample_host_def)
  have a: "RpmArch sample_staged = ''x86_64''" "RpmArch ?w = ''s390x''"
    by (simp_all add: sample_staged_def sample_host_def)
  from
    pxe_config_payload [of sample_live_run sample_staged ?w1 sample_kargs
      sample_kern sample_install sample_host]
    pxe_config_payload [of ?s ?w ?w2 "[''ip=dhcp'', ''console=ttysclp0'']"
      sample_kern sample_install sample_host]
    pxe_config_payload [of sample_run sample_staged ?w1 sample_kargs
      sample_kern sample_install sample_host]
    p m f a sample_setup
  show ?thesis
    by (simp add: sample_paths sample_kargs_def sample_kern_def sample_run_def)
qed

subsection \<open>Staging the metal image (C4, C5)\<close>

lemma HasSuffix_append [simp]: "HasSuffix (m @ s) s"
  by (simp add: HasSuffix_def)

lemma filepath_Abs_world: "filepath_Abs p w = (r, w') \<Longrightarrow> w' = w"
  by (auto simp: filepath_Abs_def split: if_splits)

lemma os_Open_world: "os_Open p w = (r, w') \<Longrightarrow> w' = w"
  by (auto simp: os_Open_def split: if_splits option.splits node.splits)

lemma os_Symlink_Ok:
  "os_Symlink target p w = (Ok u, w') \<Longrightarrow>
     fs w p = None \<and> w' = w\<lparr>fs := (fs w)(p \<mapsto> Link target)\<rparr>"
  by (auto simp: os_Symlink_def split: if_splits)

lemma exec_Run_Ok:
  "exec_Run args input w = (Ok u, w') \<Longrightarrow>
     w' = w\<lparr>procs := procs w @ [\<lparr>argv = args, stdin = input\<rparr>]\<rparr>"
  by (auto simp: exec_Run_def split: if_splits)

lemma os_OpenFile_Ok:
  "os_OpenFile p w = (Ok q, w') \<Longrightarrow>
     procs w' = procs w \<and> gzip1 w' = gzip1 w \<and> follow 40 (fs w) p = Some q \<and>
     (fs w q = None \<and> w' = w\<lparr>fs := (fs w)(q \<mapsto> File [])\<rparr> \<or>
      (\<exists>old. fs w q = Some (File old) \<and> w' = w))"
  by (auto simp: os_OpenFile_def split: if_splits option.splits node.splits)

lemma setupMetalImage_symlink:
  assumes "\<not> HasSuffix m ''.raw''" and "setupMetalImage b m d w = (Ok name, w')"
  shows "name = m \<and>
         (\<exists>src. filepath_Abs (Join [b, m]) w = (Ok src, w) \<and> fs w (Join [d, m]) = None \<and>
                w' = w\<lparr>fs := (fs w)(Join [d, m] \<mapsto> Link src)\<rparr>)"
proof -
  from assms have
    "andThen (absSymlink (Join [b, m]) (Join [d, m]) w) (\<lambda>u w1. (Ok m, w1)) = (Ok name, w')"
    by (simp add: setupMetalImage_def)
  then obtain u where l: "absSymlink (Join [b, m]) (Join [d, m]) w = (Ok u, w')"
    and n: "name = m"
    by (auto elim!: andThen_OkE)
  from l obtain src w1 where a: "filepath_Abs (Join [b, m]) w = (Ok src, w1)"
    and s: "os_Symlink src (Join [d, m]) w1 = (Ok u, w')"
    unfolding absSymlink_def by (rule andThen_OkE)
  from a have "w1 = w" by (rule filepath_Abs_world)
  with a s os_Symlink_Ok [of src "Join [d, m]" w u w'] n show ?thesis by simp
qed

lemma setupMetalImage_gzip:
  assumes "HasSuffix m ''.raw''" and "setupMetalImage b m d w = (Ok name, w')"
  shows "name = m @ ''.gz'' \<and>
         (\<exists>src dest w1.
            os_Open (Join [b, m]) w = (Ok src, w) \<and>
            os_OpenFile (Join [d, m @ ''.gz'']) w = (Ok dest, w1) \<and>
            w' = w1\<lparr>procs := procs w @ [\<lparr>argv = [''gzip'', ''-1''], stdin = None\<rparr>],
                    fs := (fs w1)(dest \<mapsto>
                      File (overwrite (gzip1 w src)
                              (case fs w1 dest of Some (File old) \<Rightarrow> old | _ \<Rightarrow> [])))\<rparr>)"
proof -
  from assms have
    "andThen (os_Open (Join [b, m]) w) (\<lambda>srcf w0.
       andThen (os_OpenFile (Join [d, m @ ''.gz'']) w0) (\<lambda>destf w1.
         andThen (Wrapf_on ''running gzip'' (run_gzip srcf destf w1)) (\<lambda>u w2.
           (Ok (m @ ''.gz''), w2)))) = (Ok name, w')"
    by (simp add: setupMetalImage_def Let_def)
  then obtain src w0 where o: "os_Open (Join [b, m]) w = (Ok src, w0)"
    and r1: "andThen (os_OpenFile (Join [d, m @ ''.gz'']) w0) (\<lambda>destf w1.
         andThen (Wrapf_on ''running gzip'' (run_gzip src destf w1)) (\<lambda>u w2.
           (Ok (m @ ''.gz''), w2))) = (Ok name, w')"
    by (rule andThen_OkE)
  from o have w0: "w0 = w" by (rule os_Open_world)
  from r1 obtain dest w1 where f: "os_OpenFile (Join [d, m @ ''.gz'']) w0 = (Ok dest, w1)"
    and r2: "andThen (Wrapf_on ''running gzip'' (run_gzip src dest w1)) (\<lambda>u w2.
           (Ok (m @ ''.gz''), w2)) = (Ok name, w')"
    by (rule andThen_OkE)
  from r2 obtain u where g: "run_gzip src dest w1 = (Ok u, w')" and n: "name = m @ ''.gz''"
    by (auto elim!: andThen_OkE)
  from g obtain u' w2 where e: "exec_Run [''gzip'', ''-1''] None w1 = (Ok u', w2)"
    and w': "w' = w2\<lparr>fs := (fs w2)(dest \<mapsto>
                      File (overwrite (gzip1 w2 src)
                              (case fs w2 dest of Some (File old) \<Rightarrow> old | _ \<Rightarrow> [])))\<rparr>"
    unfolding run_gzip_def by (auto elim!: andThen_OkE)
  from e have w2: "w2 = w1\<lparr>procs := procs w1 @ [\<lparr>argv = [''gzip'', ''-1''], stdin = None\<rparr>]\<rparr>"
    by (rule exec_Run_Ok)
  from f w0 os_OpenFile_Ok [of "Join [d, m @ ''.gz'']" w dest w1]
  have p: "procs w1 = procs w" "gzip1 w1 = gzip1 w" by simp_all
  from o w0 f n w' w2 p show ?thesis by simp
qed

lemma setupMetalImage_failure:
  assumes "HasSuffix m ''.raw''"
    and "fst (os_Open (Join [b, m]) w) = Fail e \<or>
         fst (os_OpenFile (Join [d, m @ ''.gz'']) w) = Fail e \<or>
         fault w (Sys_Run [''gzip'', ''-1''])"
  shows "\<exists>e'. fst (setupMetalImage b m d w) = Fail e'"
proof (cases "os_Open (Join [b, m]) w")
  case (Pair r0 w0)
  then have w0: "w0 = w" by (rule os_Open_world)
  have np: "r0 \<noteq> Panic p" for p
    using Pair by (auto simp: os_Open_def split: if_splits option.splits node.splits)
  show ?thesis
  proof (cases r0)
    case (Fail e0)
    with Pair assms(1) show ?thesis by (simp add: setupMetalImage_def Let_def)
  next
    case (Panic p)
    with np [of p] show ?thesis by simp
  next
    case (Ok src)
    show ?thesis
    proof (cases "os_OpenFile (Join [d, m @ ''.gz'']) w")
      case (Pair r1 w1)
      have nq: "r1 \<noteq> Panic p" for p
        using Pair by (auto simp: os_OpenFile_def split: if_splits option.splits node.splits)
      show ?thesis
      proof (cases r1)
        case (Fail e1)
        with Pair Ok \<open>os_Open (Join [b, m]) w = (r0, w0)\<close> w0 assms(1) show ?thesis
          by (simp add: setupMetalImage_def Let_def)
      next
        case (Panic p)
        with nq [of p] show ?thesis by simp
      next
        case o: (Ok dest)
        from o Pair have "fault w1 = fault w"
          by (auto simp: os_OpenFile_def split: if_splits option.splits node.splits)
        with assms(2) Ok o Pair \<open>os_Open (Join [b, m]) w = (r0, w0)\<close> w0
        have "fault w1 (Sys_Run [''gzip'', ''-1''])" by simp
        with Pair Ok o \<open>os_Open (Join [b, m]) w = (r0, w0)\<close> w0 assms(1) show ?thesis
          by (simp add: setupMetalImage_def Let_def run_gzip_def exec_Run_def)
      qed
    qed
  qed
qed

lemma setupMetalImage_no_Panic: "fst (setupMetalImage b m d w) \<noteq> Panic p"
proof -
  have a: "fst (os_Open q v) \<noteq> Panic p" for q v
    by (auto simp: os_Open_def split: if_splits option.splits node.splits)
  have b: "fst (os_OpenFile q v) \<noteq> Panic p" for q v
    by (auto simp: os_OpenFile_def split: if_splits option.splits node.splits)
  have c: "fst (filepath_Abs q v) \<noteq> Panic p" for q v
    by (simp add: filepath_Abs_def)
  have d: "fst (os_Symlink t q v) \<noteq> Panic p" for t q v
    by (simp add: os_Symlink_def)
  have e: "fst (Wrapf_on msg r) = Panic p \<longleftrightarrow> fst r = Panic p" for msg and r :: "unit outcome \<times> world"
    by (cases r; cases "fst r") auto
  show ?thesis
    unfolding setupMetalImage_def Let_def absSymlink_def run_gzip_def
    using a b c d
    by (auto elim!: andThen_PanicE simp: e split: if_splits)
qed

text \<open>
  C5. A name that does not end in \<open>.raw\<close> is staged as a symbolic link: when the call
  returns a name, the name is the one given, nothing stood at \<open>destdir/metalimg\<close>, and
  the only change to the world is the link there to the absolute path of
  \<open>builddir/metalimg\<close> (no process runs, no bytes are copied). A name that ends in
  \<open>.raw\<close> is compressed: when the call returns a name, it is the name with \<open>.gz\<close>
  appended, the source was opened, the destination \<open>destdir/metalimg.gz\<close> was opened
  (created if absent, not truncated), one \<open>gzip -1\<close> ran, and its output was written
  into the destination from offset 0. When opening the source, opening the destination
  or running gzip fails, the call returns an error; it never panics, so every return
  without a name is an error.
\<close>

theorem setupMetalImage_cases:
  "(\<not> HasSuffix m ''.raw'' \<and> setupMetalImage b m d w = (Ok name, w') \<longrightarrow>
      name = m \<and>
      (\<exists>src. filepath_Abs (Join [b, m]) w = (Ok src, w) \<and> fs w (Join [d, m]) = None \<and>
             w' = w\<lparr>fs := (fs w)(Join [d, m] \<mapsto> Link src)\<rparr>)) \<and>
   (HasSuffix m ''.raw'' \<and> setupMetalImage b m d w = (Ok name, w') \<longrightarrow>
      name = m @ ''.gz'' \<and>
      (\<exists>src dest w1.
         os_Open (Join [b, m]) w = (Ok src, w) \<and>
         os_OpenFile (Join [d, m @ ''.gz'']) w = (Ok dest, w1) \<and>
         w' = w1\<lparr>procs := procs w @ [\<lparr>argv = [''gzip'', ''-1''], stdin = None\<rparr>],
                 fs := (fs w1)(dest \<mapsto>
                   File (overwrite (gzip1 w src)
                           (case fs w1 dest of Some (File old) \<Rightarrow> old | _ \<Rightarrow> [])))\<rparr>)) \<and>
   (HasSuffix m ''.raw'' \<and>
    (fst (os_Open (Join [b, m]) w) = Fail e \<or>
     fst (os_OpenFile (Join [d, m @ ''.gz'']) w) = Fail e \<or>
     fault w (Sys_Run [''gzip'', ''-1''])) \<longrightarrow>
      (\<exists>e'. fst (setupMetalImage b m d w) = Fail e')) \<and>
   fst (setupMetalImage b m d w) \<noteq> Panic p"
  using setupMetalImage_symlink [of m b d w name w'] setupMetalImage_gzip [of m b d w name w']
    setupMetalImage_failure [of m b w e d] setupMetalImage_no_Panic [of b m d w p]
  by blast

lemma sample_paths3:
  "Join [''/d'', ''m.raw.gz''] = ''/d/m.raw.gz''"
  "Join [''/d'', ''m.xz''] = ''/d/m.xz''"
  by (simp_all add: Join_def Clean_def clean_elem_def Let_def)

lemma sample_stage_raw:
  "setupMetalImage ''/b'' ''m.raw'' ''/d'' sample_host =
     (Ok ''m.raw.gz'',
      sample_host\<lparr>fs := (fs sample_host)(''/d/m.raw.gz'' \<mapsto> File ''zDATA''),
                  procs := [\<lparr>argv = [''gzip'', ''-1''], stdin = None\<rparr>]\<rparr>)"
  by (simp add: setupMetalImage_def HasSuffix_def sample_paths sample_paths3 os_Open_def
        os_OpenFile_def run_gzip_def exec_Run_def overwrite_def sample_host_def Let_def
        follow.simps)

lemma sample_stage_xz:
  "setupMetalImage ''/b'' ''m.xz'' ''/d'' sample_host =
     (Ok ''m.xz'', sample_host\<lparr>fs := (fs sample_host)(''/d/m.xz'' \<mapsto> Link ''/b/m.xz'')\<rparr>)"
  by (simp add: setupMetalImage_def HasSuffix_def sample_paths sample_paths3 absSymlink_def
        filepath_Abs_def IsAbs_def os_Symlink_def sample_host_def Let_def)

theorem setupMetalImage_cases_witness:
  "setupMetalImage ''/b'' ''m.xz'' ''/d'' sample_host =
     (Ok ''m.xz'', sample_host\<lparr>fs := (fs sample_host)(''/d/m.xz'' \<mapsto> Link ''/b/m.xz'')\<rparr>) \<and>
   \<not> HasSuffix ''m.xz'' ''.raw'' \<and>
   filepath_Abs (Join [''/b'', ''m.xz'']) sample_host = (Ok ''/b/m.xz'', sample_host) \<and>
   HasSuffix ''m.raw'' ''.raw'' \<and>
   setupMetalImage ''/b'' ''m.raw'' ''/d'' sample_host =
     (Ok ''m.raw.gz'',
      sample_host\<lparr>fs := (fs sample_host)(''/d/m.raw.gz'' \<mapsto> File ''zDATA''),
                  procs := [\<lparr>argv = [''gzip'', ''-1''], stdin = None\<rparr>]\<rparr>) \<and>
   os_Open (Join [''/b'', ''m.raw'']) sample_host = (Ok ''DATA'', sample_host) \<and>
   (\<exists>e'. fst (setupMetalImage ''/b'' ''m.raw'' ''/d''
                 (sample_host\<lparr>fault := (\<lambda>c. c = Sys_Run [''gzip'', ''-1''])\<rparr>)) = Fail e')"
proof -
  let ?wx = "sample_host\<lparr>fs := (fs sample_host)(''/d/m.xz'' \<mapsto> Link ''/b/m.xz'')\<rparr>"
  let ?wr = "sample_host\<lparr>fs := (fs sample_host)(''/d/m.raw.gz'' \<mapsto> File ''zDATA''),
                  procs := [\<lparr>argv = [''gzip'', ''-1''], stdin = None\<rparr>]\<rparr>"
  let ?wf = "sample_host\<lparr>fault := (\<lambda>c. c = Sys_Run [''gzip'', ''-1''])\<rparr>"
  have h: "\<not> HasSuffix ''m.xz'' ''.raw''" "HasSuffix ''m.raw'' ''.raw''"
    by (simp_all add: HasSuffix_def)
  have f: "fault ?wf (Sys_Run [''gzip'', ''-1''])" by simp
  from h f sample_stage_xz sample_stage_raw
    setupMetalImage_cases [of "''m.xz''" "''/b''" "''/d''" sample_host "''m.xz''" ?wx]
    setupMetalImage_cases [of "''m.raw''" "''/b''" "''/d''" sample_host "''m.raw.gz''" ?wr]
    setupMetalImage_cases [of "''m.raw''" "''/b''" "''/d''" ?wf]
  show ?thesis
    by (simp add: sample_paths filepath_Abs_def IsAbs_def os_Open_def follow.simps
          sample_host_def)
qed

text \<open>
  C4, as amended (the two cases of the claim are the other way round). A name ending in
  \<open>.raw\<close> is the one that is compressed: the name returned ends in \<open>.gz\<close>, and where
  the destination was free the file staged under that name decompresses to the bytes
  of the source (for any \<open>gunzip\<close> that inverts the host's \<open>gzip -1\<close>). Any other
  name is staged by reference: the name returned is the one given, and the node staged
  under it is a symbolic link to the absolute path of the source.
\<close>

theorem setupMetalImage_roundtrip:
  assumes "\<And>x. gunzip (gzip1 w x) = x"
  shows
  "(HasSuffix m ''.raw'' \<and> fs w (Join [d, m @ ''.gz'']) = None \<and>
    setupMetalImage b m d w = (Ok name, w') \<longrightarrow>
      name = m @ ''.gz'' \<and> HasSuffix name ''.gz'' \<and>
      (\<exists>src z. os_Open (Join [b, m]) w = (Ok src, w) \<and>
               fs w' (Join [d, name]) = Some (File z) \<and> gunzip z = src)) \<and>
   (\<not> HasSuffix m ''.raw'' \<and> setupMetalImage b m d w = (Ok name, w') \<longrightarrow>
      name = m \<and>
      (\<exists>src. filepath_Abs (Join [b, m]) w = (Ok src, w) \<and>
             fs w' (Join [d, name]) = Some (Link src)))"
proof (intro conjI impI)
  assume a: "HasSuffix m ''.raw'' \<and> fs w (Join [d, m @ ''.gz'']) = None \<and>
             setupMetalImage b m d w = (Ok name, w')"
  from a setupMetalImage_gzip [of m b d w name w'] obtain src dest w1 where
    n: "name = m @ ''.gz''"
    and o: "os_Open (Join [b, m]) w = (Ok src, w)"
    and f: "os_OpenFile (Join [d, m @ ''.gz'']) w = (Ok dest, w1)"
    and w': "w' = w1\<lparr>procs := procs w @ [\<lparr>argv = [''gzip'', ''-1''], stdin = None\<rparr>],
                 fs := (fs w1)(dest \<mapsto>
                   File (overwrite (gzip1 w src)
                           (case fs w1 dest of Some (File old) \<Rightarrow> old | _ \<Rightarrow> [])))\<rparr>"
    by blast
  from a have free: "fs w (Join [d, m @ ''.gz'']) = None" by simp
  from f free have d: "dest = Join [d, m @ ''.gz'']"
      and w1: "w1 = w\<lparr>fs := (fs w)(Join [d, m @ ''.gz''] \<mapsto> File [])\<rparr>"
    by (auto simp: os_OpenFile_def follow_free split: if_splits)
  from w' d w1 n have
    "fs w' (Join [d, name]) = Some (File (gzip1 w src))"
    by (simp add: overwrite_def)
  with n o assms show "name = m @ ''.gz''" and "HasSuffix name ''.gz''"
    and "\<exists>src z. os_Open (Join [b, m]) w = (Ok src, w) \<and>
               fs w' (Join [d, name]) = Some (File z) \<and> gunzip z = src"
    by simp_all
next
  assume a: "\<not> HasSuffix m ''.raw'' \<and> setupMetalImage b m d w = (Ok name, w')"
  from a setupMetalImage_symlink [of m b d w name w']
  show "name = m" and "\<exists>src. filepath_Abs (Join [b, m]) w = (Ok src, w) \<and>
             fs w' (Join [d, name]) = Some (Link src)"
    by auto
qed

theorem setupMetalImage_roundtrip_witness:
  "(\<forall>x. tl (gzip1 sample_host x) = x) \<and>
   HasSuffix ''m.raw'' ''.raw'' \<and> fs sample_host (Join [''/d'', ''m.raw'' @ ''.gz'']) = None \<and>
   fst (setupMetalImage ''/b'' ''m.raw'' ''/d'' sample_host) = Ok ''m.raw.gz'' \<and>
   (\<exists>src z. os_Open (Join [''/b'', ''m.raw'']) sample_host = (Ok src, sample_host) \<and>
      fs (snd (setupMetalImage ''/b'' ''m.raw'' ''/d'' sample_host)) (Join [''/d'', ''m.raw.gz''])
        = Some (File z) \<and> tl z = src) \<and>
   \<not> HasSuffix ''m.xz'' ''.raw'' \<and>
   fst (setupMetalImage ''/b'' ''m.xz'' ''/d'' sample_host) = Ok ''m.xz'' \<and>
   (\<exists>src. filepath_Abs (Join [''/b'', ''m.xz'']) sample_host = (Ok src, sample_host) \<and>
      fs (snd (setupMetalImage ''/b'' ''m.xz'' ''/d'' sample_host)) (Join [''/d'', ''m.xz''])
        = Some (Link src))"
proof -
  let ?wx = "sample_host\<lparr>fs := (fs sample_host)(''/d/m.xz'' \<mapsto> Link ''/b/m.xz'')\<rparr>"
  let ?wr = "sample_host\<lparr>fs := (fs sample_host)(''/d/m.raw.gz'' \<mapsto> File ''zDATA''),
                  procs := [\<lparr>argv = [''gzip'', ''-1''], stdin = None\<rparr>]\<rparr>"
  have g: "tl (gzip1 sample_host x) = x" for x by (simp add: sample_host_def)
  have h: "\<not> HasSuffix ''m.xz'' ''.raw''" "HasSuffix ''m.raw'' ''.raw''"
    by (simp_all add: HasSuffix_def)
  have n: "fs sample_host (Join [''/d'', ''m.raw'' @ ''.gz'']) = None"
    by (simp add: sample_paths3 sample_host_def)
  from
    setupMetalImage_roundtrip [of tl sample_host "''m.raw''" "''/d''" "''/b''" "''m.raw.gz''" ?wr,
      OF g]
    setupMetalImage_roundtrip [of tl sample_host "''m.xz''" "''/d''" "''/b''" "''m.xz''" ?wx,
      OF g]
    g h n sample_stage_raw sample_stage_xz
  show ?thesis by simp
qed

theorem setupMetalImage_raw_counterexample:
  "HasSuffix ''m.raw'' ''.raw'' \<and>
   fst (setupMetalImage ''/b'' ''m.raw'' ''/d'' sample_host) = Ok ''m.raw.gz'' \<and>
   fs sample_host ''/b/m.raw'' = Some (File ''DATA'') \<and>
   fs (snd (setupMetalImage ''/b'' ''m.raw'' ''/d'' sample_host)) ''/d/m.raw.gz''
     = Some (File ''zDATA'') \<and>
   fs (snd (setupMetalImage ''/b'' ''m.raw'' ''/d'' sample_host)) ''/d/m.raw'' = None \<and>
   \<not> HasSuffix ''m.xz'' ''.raw'' \<and>
   fst (setupMetalImage ''/b'' ''m.xz'' ''/d'' sample_host) = Ok ''m.xz'' \<and>
   \<not> HasSuffix ''m.xz'' ''.gz'' \<and>
   fs (snd (setupMetalImage ''/b'' ''m.xz'' ''/d'' sample_host)) ''/d/m.xz''
     = Some (Link ''/b/m.xz'')"
  by (simp add: sample_stage_raw sample_stage_xz HasSuffix_def) (simp add: sample_host_def)

subsection \<open>Injected kernel arguments in the ISO install (C2)\<close>

lemma sample_paths_iso:
  "Join [''/tmp'', ''mantle-metal1''] = ''/tmp/mantle-metal1''"
  "Join [''/tmp/mantle-metal1'', ''target.ign''] = ''/tmp/mantle-metal1/target.ign''"
  "Join [''/tmp/mantle-metal1'', ''m.raw.gz''] = ''/tmp/mantle-metal1/m.raw.gz''"
  "Join [''/tmp/mantle-metal1'', ''test.iso''] = ''/tmp/mantle-metal1/test.iso''"
  "Join [''/b'', ''l.iso''] = ''/b/l.iso''"
  by (simp_all add: Join_def Clean_def clean_elem_def Let_def)

lemma sample_iso_staged:
  "fst (InstallViaISOEmbed_staged
          (sample_install\<lparr>kargs := [''console=ttyS1''], ignition := minimal_config, liveIgnition := minimal_config\<rparr>)
          \<lparr>Path = ''m.raw''\<rparr> \<lparr>Path = ''l.iso''\<rparr> ''/tmp/mantle-metal1''
          (sample_host\<lparr>fs := (fs sample_host)(''/tmp/mantle-metal1'' \<mapsto> Dir)\<rparr>))
     = Ok \<lparr>tempdir_m = ''/tmp/mantle-metal1'',
           QemuInst = \<lparr>launched = \<lparr>Firmware_b = ''bios'', Memory = 4096, InheritConsole = False,
                                     Disks = [''12G''], Argv = [],
                                     InstallIso = Some ''/tmp/mantle-metal1/test.iso''\<rparr>\<rparr>\<rparr>
   \<and> fs (snd (InstallViaISOEmbed_staged
          (sample_install\<lparr>kargs := [''console=ttyS1''], ignition := minimal_config, liveIgnition := minimal_config\<rparr>)
          \<lparr>Path = ''m.raw''\<rparr> \<lparr>Path = ''l.iso''\<rparr> ''/tmp/mantle-metal1''
          (sample_host\<lparr>fs := (fs sample_host)(''/tmp/mantle-metal1'' \<mapsto> Dir)\<rparr>)))
        ''/tmp/mantle-metal1'' = Some Dir
   \<and> served (snd (InstallViaISOEmbed_staged
          (sample_install\<lparr>kargs := [''console=ttyS1''], ignition := minimal_config, liveIgnition := minimal_config\<rparr>)
          \<lparr>Path = ''m.raw''\<rparr> \<lparr>Path = ''l.iso''\<rparr> ''/tmp/mantle-metal1''
          (sample_host\<lparr>fs := (fs sample_host)(''/tmp/mantle-metal1'' \<mapsto> Dir)\<rparr>)))
        = [(8080, ''/tmp/mantle-metal1'')]"
  by (simp add: InstallViaISOEmbed_staged_def sample_install_def sample_host_def
        sample_paths sample_paths_iso ioutil_WriteFile_def setupMetalImage_def HasSuffix_def
        os_Open_def os_OpenFile_def run_gzip_def exec_Run_def overwrite_def v3_Parse_def
        net_Listen_def StdinPipe_def newQemuBuilder_def setBuilderLiveMemory_def
        QemuBuilder_Append_def QemuBuilder_Exec_def Let_def follow.simps)

text \<open>
  C2, evaluated where the code departs from it. The guard of \<open>InstallViaISOEmbed\<close>
  reads the field \<open>inst.kargs\<close>, which the call fills from its parameter only after the
  guard. With a fresh request (empty field), one injected argument and configurations
  that Ignition accepts, the call creates its temporary directory, binds the listener
  and returns a machine; with the field already set and no injected argument it
  returns the error.
\<close>

theorem InstallViaISOEmbed_injected_kargs_accepted:
  "kargs sample_install = [] \<and> ignition_accepts sample_host minimal_config \<and>
   is_Ok (fst (InstallViaISOEmbed [''console=ttyS1''] minimal_config minimal_config sample_install sample_host)) \<and>
   fs (snd (snd (InstallViaISOEmbed [''console=ttyS1''] minimal_config minimal_config sample_install sample_host)))
      ''/tmp/mantle-metal1'' = Some Dir \<and>
   served (snd (snd (InstallViaISOEmbed [''console=ttyS1''] minimal_config minimal_config sample_install
                       sample_host)))
     = [(8080, ''/tmp/mantle-metal1'')] \<and>
   InstallViaISOEmbed [] minimal_config minimal_config (sample_install\<lparr>kargs := [''console=ttyS1'']\<rparr>) sample_host
     = (Fail (Errorf (''injecting kargs is not supported yet, see ''
                      @ ''https://github.com/coreos/coreos-installer/issues/164'')),
        sample_install\<lparr>kargs := [''console=ttyS1'']\<rparr>, sample_host)"
proof -
  let ?i = "sample_install\<lparr>kargs := [''console=ttyS1''], ignition := minimal_config, liveIgnition := minimal_config\<rparr>"
  let ?w = "sample_host\<lparr>fs := (fs sample_host)(''/tmp/mantle-metal1'' \<mapsto> Dir)\<rparr>"
  let ?r = "InstallViaISOEmbed_staged ?i \<lparr>Path = ''m.raw''\<rparr> \<lparr>Path = ''l.iso''\<rparr>
              ''/tmp/mantle-metal1'' ?w"
  have t: "ioutil_TempDir ''mantle-metal'' sample_host = (Ok ''/tmp/mantle-metal1'', ?w)"
    by (simp add: ioutil_TempDir_def sample_host_def sample_paths_iso Let_def)
  have a: "Metal (BuildArtifacts (CosaBuild sample_install)) = Some \<lparr>Path = ''m.raw''\<rparr>"
      "LiveIso (BuildArtifacts (CosaBuild sample_install)) = Some \<lparr>Path = ''l.iso''\<rparr>"
      "kargs sample_install = []"
    by (simp_all add: sample_install_def sample_artifacts_def)
  obtain m w' where r: "?r = (Ok m, w')"
    using sample_iso_staged by (cases ?r) auto
  with sample_iso_staged have w': "fs w' ''/tmp/mantle-metal1'' = Some Dir"
      "served w' = [(8080, ''/tmp/mantle-metal1'')]"
    by simp_all
  have "InstallViaISOEmbed [''console=ttyS1''] minimal_config minimal_config sample_install sample_host
          = (Ok m, ?i, w')"
    unfolding InstallViaISOEmbed_def Let_def by (simp add: a t r)
  moreover have
    "InstallViaISOEmbed [] minimal_config minimal_config (sample_install\<lparr>kargs := [''console=ttyS1'']\<rparr>) sample_host
     = (Fail (Errorf (''injecting kargs is not supported yet, see ''
                      @ ''https://github.com/coreos/coreos-installer/issues/164'')),
        sample_install\<lparr>kargs := [''console=ttyS1'']\<rparr>, sample_host)"
    unfolding InstallViaISOEmbed_def Let_def by (simp add: a)
  moreover have "ignition_accepts sample_host minimal_config" by (simp add: sample_host_def)
  ultimately show ?thesis using a(3) w' by simp
qed

text \<open>The same call with the live configuration \<open>{}\<close>, which Ignition rejects.\<close>

lemma sample_iso_rejected_config:
  "fst (InstallViaISOEmbed [''console=ttyS1''] ''{}'' minimal_config sample_install sample_host)
     = Fail (Wrapf (OsError (Sys_IgnParse ''{}'')) ''parsing provided live config'') \<and>
   fs (snd (snd (InstallViaISOEmbed [''console=ttyS1''] ''{}'' minimal_config sample_install
                   sample_host))) ''/tmp/mantle-metal1'' = None \<and>
   served (snd (snd (InstallViaISOEmbed [''console=ttyS1''] ''{}'' minimal_config sample_install
                       sample_host))) = []"
  by (simp add: InstallViaISOEmbed_def InstallViaISOEmbed_staged_def sample_install_def
        sample_artifacts_def sample_host_def minimal_config_def DQ_def
        sample_paths sample_paths_iso ioutil_TempDir_def ioutil_WriteFile_def
        setupMetalImage_def HasSuffix_def os_Open_def os_OpenFile_def run_gzip_def
        exec_Run_def overwrite_def v3_Parse_def os_RemoveAll_def under_def Let_def
        follow.simps)

subsection \<open>Ownership of the temporary directory (C1)\<close>

text \<open>
  C1, evaluated where the code departs from it. On the sample host the live network
  install succeeds. \<open>runPXE\<close> clears the run's \<open>tempdir\<close> field and then builds the
  machine from that field, so the machine's \<open>tempdir\<close> is empty: the directory that
  \<open>setup\<close> created is still there when the call returns, the machine does not name it,
  and \<open>Destroy\<close> leaves the world as it is.
\<close>

theorem runPXE_machine_owns_nothing:
  "Install_setup sample_kern sample_install sample_host = (Ok sample_run, sample_staged) \<and>
   runPXE sample_kern False sample_install sample_host = (Ok sample_machine, sample_final) \<and>
   tempdir sample_run = ''/tmp/kola-testiso1'' \<and>
   tempdir_m sample_machine = [] \<and>
   fs sample_final ''/tmp/kola-testiso1'' = Some Dir \<and>
   Destroy sample_machine sample_final = sample_final \<and>
   fs (Destroy sample_machine sample_final) ''/tmp/kola-testiso1'' = Some Dir"
  by (simp add: sample_setup sample_runPXE Destroy_def)
     (simp add: sample_machine_def sample_run_def sample_final_def sample_configured_def
        sample_staged_def sample_host_def)

subsection \<open>What does hold of the ownership claim\<close>

lemma Clean_nonempty: "Clean p \<noteq> []"
  by (simp add: Clean_def Let_def)

lemma TempDir_Ok:
  assumes "ioutil_TempDir prefix w = (Ok td, w1)" and "prefix \<noteq> []"
  shows "td \<noteq> []" and "fs w1 td = Some Dir"
proof -
  from assms(2) have "Join [TMPDIR w, prefix @ tmprand w] \<noteq> []"
    by (simp add: Join_def Clean_nonempty)
  with assms(1) show "td \<noteq> []"
    by (auto simp: ioutil_TempDir_def Let_def split: if_splits)
  from assms(1) show "fs w1 td = Some Dir"
    by (auto simp: ioutil_TempDir_def Let_def split: if_splits)
qed

lemma TempDir_not_Ok: "ioutil_TempDir prefix w = (r, w1) \<Longrightarrow> \<not> is_Ok r \<Longrightarrow> w1 = w"
  by (auto simp: ioutil_TempDir_def Let_def split: if_splits)

lemma RemoveAll_gone [simp]: "fs (os_RemoveAll p w) p = None"
  by (simp add: os_RemoveAll_def under_def)

text \<open>A directory is never replaced by what the installer writes.\<close>

lemma dir_andThen:
  assumes "fs (snd r) p = Some Dir"
    and "\<And>x v. fs v p = Some Dir \<Longrightarrow> fs (snd (k x v)) p = Some Dir"
  shows "fs (snd (andThen r k)) p = Some Dir"
  using assms by (cases r; cases "fst r") (auto simp: andThen_def)

lemma dir_WriteFile:
  "fs w p = Some Dir \<Longrightarrow> fs (snd (ioutil_WriteFile q d w)) p = Some Dir"
  by (auto simp: ioutil_WriteFile_def split: option.splits)

lemma dir_OpenFile:
  "fs w p = Some Dir \<Longrightarrow> fs (snd (os_OpenFile q w)) p = Some Dir"
  by (auto simp: os_OpenFile_def split: option.splits node.splits)

lemma dir_Symlink:
  "fs w p = Some Dir \<Longrightarrow> fs (snd (os_Symlink t q w)) p = Some Dir"
  by (auto simp: os_Symlink_def)

lemma dir_Open: "fs (snd (os_Open q w)) = fs w"
  by (auto simp: os_Open_def split: option.splits node.splits)

lemma dir_Abs: "fs (snd (filepath_Abs q w)) = fs w"
  by (simp add: filepath_Abs_def)

lemma OpenFile_is_file:
  "os_OpenFile q w = (Ok dest, w1) \<Longrightarrow> \<exists>d. fs w1 dest = Some (File d)"
  by (auto simp: os_OpenFile_def split: if_splits option.splits node.splits)

lemma dir_run_gzip:
  assumes "fs w p = Some Dir" and "dest \<noteq> p"
  shows "fs (snd (run_gzip src dest w)) p = Some Dir"
  using assms by (auto simp: run_gzip_def exec_Run_def)

lemma dir_setupMetalImage:
  assumes "fs w p = Some Dir"
  shows "fs (snd (setupMetalImage b m d w)) p = Some Dir"
proof (cases "HasSuffix m ''.raw''")
  case False
  then show ?thesis
    unfolding setupMetalImage_def absSymlink_def Let_def using assms
    by (auto intro!: dir_andThen dir_Symlink simp: dir_Abs)
next
  case True
  have g: "fs (snd (andThen (os_OpenFile q v)
             (\<lambda>destf w1. andThen (Wrapf_on ''running gzip'' (run_gzip src destf w1))
                (\<lambda>u w2. (Ok (m @ ''.gz''), w2))))) p = Some Dir"
    if v: "fs v p = Some Dir" for q v src
  proof (cases "os_OpenFile q v")
    case (Pair r1 w1)
    have k: "fs w1 p = Some Dir" using dir_OpenFile [OF v, of q] Pair by simp
    show ?thesis
    proof (cases r1)
      case (Ok dest)
      with Pair OpenFile_is_file [of q v dest w1] k have "dest \<noteq> p" by auto
      with k Ok Pair show ?thesis
        by (auto intro!: dir_andThen dir_run_gzip)
    qed (use Pair k in simp_all)
  qed
  from True show ?thesis
    unfolding setupMetalImage_def Let_def using assms
    by (auto intro!: dir_andThen g simp: dir_Open)
qed

lemma dir_ISOEmbed_staged:
  assumes "fs w td = Some Dir"
  shows "fs (snd (InstallViaISOEmbed_staged i1 metal liveiso td' w)) td = Some Dir"
  unfolding InstallViaISOEmbed_staged_def Let_def using assms
  by (auto intro!: dir_andThen dir_WriteFile dir_setupMetalImage
           simp: v3_Parse_def net_Listen_def exec_Run_def StdinPipe_def QemuBuilder_Exec_def)

lemma ISOEmbed_staged_Ok:
  assumes "InstallViaISOEmbed_staged i1 metal liveiso td w = (Ok m, w')"
  shows "tempdir_m m = td"
  using assms unfolding InstallViaISOEmbed_staged_def Let_def
  by (elim andThen_OkE) auto

lemma dir_Mkdir:
  "fs w p = Some Dir \<Longrightarrow> fs (snd (os_Mkdir q w)) p = Some Dir"
  by (auto simp: os_Mkdir_def)

lemma dir_absSymlink:
  "fs w p = Some Dir \<Longrightarrow> fs (snd (absSymlink s d w)) p = Some Dir"
  by (auto simp: absSymlink_def dir_Abs intro!: dir_andThen dir_Symlink)

lemma dir_symlink_names:
  "fs w p = Some Dir \<Longrightarrow> fs (snd (symlink_names bd td names w)) p = Some Dir"
  by (induction names arbitrary: w) (auto intro!: dir_andThen dir_absSymlink)

lemma dir_setup_staged:
  assumes "fs w p = Some Dir"
  shows "fs (snd (setup_staged k i b td w)) p = Some Dir"
  unfolding setup_staged_def Let_def using assms
  by (auto intro!: dir_andThen dir_Mkdir dir_WriteFile dir_absSymlink dir_setupMetalImage
           simp: net_Listen_def split: option.splits)

lemma dir_completePxeSetup:
  assumes "fs w p = Some Dir"
  shows "fs (snd (completePxeSetup ka t w)) p = Some Dir"
  unfolding completePxeSetup_def Let_def using assms
  by (auto intro!: dir_andThen dir_Mkdir dir_WriteFile simp del: cp_images.simps)

lemma dir_run: "fs (snd (run t w)) = fs w"
  by (simp add: run_def QemuBuilder_Exec_def Let_def)

lemma Install_setup_outcome:
  assumes "Install_setup k i w = (r, w')"
  shows "(\<not> is_Ok r \<longrightarrow>
            w' = w \<or> (\<exists>td w1. ioutil_TempDir ''kola-testiso'' w = (Ok td, w1) \<and>
                               fs w' td = None)) \<and>
         (\<forall>t. r = Ok t \<longrightarrow>
            tempdir t \<noteq> [] \<and> fs w' (tempdir t) = Some Dir \<and>
            (\<exists>w1. ioutil_TempDir ''kola-testiso'' w = (Ok (tempdir t), w1)))"
proof (cases "kernel k = [] \<or> initramfs k = []")
  case True
  with assms show ?thesis by (auto simp: Install_setup_def split: if_splits)
next
  case False
  let ?b = "newQemuBuilder (Firmware i) (Console i) w"
  obtain r0 w1 where t: "ioutil_TempDir ''kola-testiso'' w = (r0, w1)"
    by (cases "ioutil_TempDir ''kola-testiso'' w")
  show ?thesis
  proof (cases r0)
    case (Ok td)
    from TempDir_Ok [OF t [unfolded Ok]] have td: "td \<noteq> []" "fs w1 td = Some Dir" by simp_all
    obtain r1 w2 where s: "setup_staged k i ?b td w1 = (r1, w2)"
      by (cases "setup_staged k i ?b td w1")
    from dir_setup_staged [OF td(2), of k i ?b td] s have d: "fs w2 td = Some Dir" by simp
    show ?thesis
    proof (cases r1)
      case o: (Ok t1)
      from setup_staged_OkD [OF s [unfolded o]] have "tempdir t1 = td" by blast
      with assms False t Ok s o td d show ?thesis
        by (auto simp: Install_setup_def Let_def)
    qed (use assms False t Ok s in \<open>auto simp: Install_setup_def Let_def\<close>)
  qed (use assms False t TempDir_not_Ok [OF t] in \<open>auto simp: Install_setup_def Let_def\<close>)
qed

text \<open>
  Flow A. A network install that fails leaves the world as it was or has removed the
  temporary directory it created. One that succeeds returns a machine with an empty
  \<open>tempdir\<close>, leaves the directory in place, and \<open>Destroy\<close> does nothing.
\<close>

lemma runPXE_outcome:
  assumes "runPXE k l i w = (r, w')"
  shows "(\<not> is_Ok r \<longrightarrow>
            w' = w \<or> (\<exists>td w1. ioutil_TempDir ''kola-testiso'' w = (Ok td, w1) \<and>
                               fs w' td = None)) \<and>
         (\<forall>m. r = Ok m \<longrightarrow>
            tempdir_m m = [] \<and> Destroy m w' = w' \<and>
            (\<exists>td w1. ioutil_TempDir ''kola-testiso'' w = (Ok td, w1) \<and>
                      fs w' td = Some Dir))"
proof -
  obtain r0 w1 where s: "Install_setup k i w = (r0, w1)" by (cases "Install_setup k i w")
  note o = Install_setup_outcome [OF s]
  show ?thesis
  proof (cases r0)
    case (Ok t0)
    let ?t1 = "if \<not> l then t0\<lparr>builder := setBuilderLiveMemory (builder t0)\<rparr> else t0"
    from o Ok obtain w0 where td: "tempdir t0 \<noteq> []" "fs w1 (tempdir t0) = Some Dir"
        "ioutil_TempDir ''kola-testiso'' w = (Ok (tempdir t0), w0)"
      by auto
    have t1: "tempdir ?t1 = tempdir t0" by simp
    obtain r2 w2 where c: "completePxeSetup (runPXE_kargs ?t1 l w1) ?t1 w1 = (r2, w2)"
      by (cases "completePxeSetup (runPXE_kargs ?t1 l w1) ?t1 w1")
    from dir_completePxeSetup [OF td(2), of "runPXE_kargs ?t1 l w1" ?t1] c
    have d2: "fs w2 (tempdir t0) = Some Dir" by simp
    show ?thesis
    proof (cases r2)
      case o2: (Ok t2)
      from completePxeSetup_Ok_bootfile [OF c [unfolded o2]]
      have "t2 = ?t1\<lparr>pxe := (pxe ?t1)\<lparr>bootfile := bootfile (pxe t2)\<rparr>\<rparr>" by blast
      then have "tempdir t2 = tempdir (?t1\<lparr>pxe := (pxe ?t1)\<lparr>bootfile := bootfile (pxe t2)\<rparr>\<rparr>)"
        by (rule arg_cong)
      then have t2: "tempdir t2 = tempdir t0" by simp
      obtain r3 w3 where q: "run t2 w2 = (r3, w3)" by (cases "run t2 w2")
      from dir_run [of t2 w2] q have d3: "fs w3 = fs w2" by simp
      from assms s Ok c o2 q t2 td d2 d3 show ?thesis
        by (cases r3) (auto simp: runPXE_def Let_def destroy_def Destroy_def)
    qed (use assms s Ok c t1 td in \<open>auto simp: runPXE_def Let_def destroy_def\<close>)
  qed (use assms s o in \<open>auto simp: runPXE_def\<close>)
qed

text \<open>
  Flow B. An ISO install that fails leaves the world as it was or has removed the
  temporary directory it created. One that succeeds returns a machine whose \<open>tempdir\<close>
  is that directory; the directory is there, and \<open>Destroy\<close> removes it.
\<close>

lemma InstallViaISOEmbed_outcome:
  assumes "InstallViaISOEmbed ka lg tg i w = (r, i', w')"
  shows "(\<not> is_Ok r \<longrightarrow>
            w' = w \<or> (\<exists>td w1. ioutil_TempDir ''mantle-metal'' w = (Ok td, w1) \<and>
                               fs w' td = None)) \<and>
         (\<forall>m. r = Ok m \<longrightarrow>
            tempdir_m m \<noteq> [] \<and>
            (\<exists>w1. ioutil_TempDir ''mantle-metal'' w = (Ok (tempdir_m m), w1)) \<and>
            fs w' (tempdir_m m) = Some Dir \<and>
            fs (Destroy m w') (tempdir_m m) = None)"
proof (cases "Metal (BuildArtifacts (CosaBuild i)) = None \<or>
              LiveIso (BuildArtifacts (CosaBuild i)) = None \<or> kargs i \<noteq> []")
  case True
  with assms show ?thesis
    by (auto simp: InstallViaISOEmbed_def Let_def split: option.splits)
next
  case False
  then obtain metal liveiso where a: "Metal (BuildArtifacts (CosaBuild i)) = Some metal"
      "LiveIso (BuildArtifacts (CosaBuild i)) = Some liveiso" "kargs i = []"
    by auto
  let ?i1 = "i\<lparr>kargs := ka, ignition := tg, liveIgnition := lg\<rparr>"
  obtain r0 w1 where t: "ioutil_TempDir ''mantle-metal'' w = (r0, w1)"
    by (cases "ioutil_TempDir ''mantle-metal'' w")
  show ?thesis
  proof (cases r0)
    case (Ok td)
    from TempDir_Ok [OF t [unfolded Ok]] have td: "td \<noteq> []" "fs w1 td = Some Dir" by simp_all
    obtain r1 w2 where s: "InstallViaISOEmbed_staged ?i1 metal liveiso td w1 = (r1, w2)"
      by (cases "InstallViaISOEmbed_staged ?i1 metal liveiso td w1")
    from dir_ISOEmbed_staged [OF td(2), of ?i1 metal liveiso td] s
    have d: "fs w2 td = Some Dir" by simp
    show ?thesis
    proof (cases r1)
      case o: (Ok m)
      from ISOEmbed_staged_Ok [OF s [unfolded o]] have "tempdir_m m = td" .
      with assms a t Ok s o td d show ?thesis
        by (auto simp: InstallViaISOEmbed_def Let_def Destroy_def)
    qed (use assms a t Ok s in \<open>auto simp: InstallViaISOEmbed_def Let_def\<close>)
  qed (use assms a t TempDir_not_Ok [OF t] in \<open>auto simp: InstallViaISOEmbed_def Let_def\<close>)
qed

subsection \<open>The boot protocol (C6), continued\<close>

lemma fault_WriteFile [simp]: "fault (snd (ioutil_WriteFile p d w)) = fault w"
  by (simp add: ioutil_WriteFile_def split: option.splits)

lemma completePxeSetup_pxe:
  assumes "boottype (pxe t) = ''pxe''"
  shows "fst (completePxeSetup ka t w) =
     (let dir = Join [tftpdir t, ''pxelinux.cfg''];
          mk = [''/usr/share/s390-tools/netboot/mk-s390image'',
                Join [builddir t, kernel (kern t)], ''-r'',
                Join [builddir t, initramfs (kern t)], ''-p'', Join [dir, ''default''],
                Join [tftpdir t, ''pxelinux.0'']];
          cp0 = [''/usr/lib/coreos-assembler/cp-reflink'',
                 Join [''/usr/share/syslinux'', ''pxelinux.0''], tftpdir t];
          cp1 = [''/usr/lib/coreos-assembler/cp-reflink'',
                 Join [''/usr/share/syslinux'', ''ldlinux.c32''], tftpdir t];
          recorded = Ok (t\<lparr>pxe := (pxe t)\<lparr>bootfile := ''/pxelinux.0''\<rparr>\<rparr>)
      in if fault w (Sys_Mkdir dir) then Fail (OsError (Sys_Mkdir dir))
         else if fs w dir = None then
           (if pxeimagepath (pxe t) = [] then
              (if fault w (Sys_Run mk) then Fail (OsError (Sys_Run mk)) else recorded)
            else if fault w (Sys_Run cp0) then Fail (OsError (Sys_Run cp0))
            else if fault w (Sys_Run cp1) then Fail (OsError (Sys_Run cp1))
            else recorded)
         else Fail (OsError (Sys_Mkdir dir)))"
  using assms
  by (simp add: completePxeSetup_def os_Mkdir_def exec_Run_def Let_def)

lemma completePxeSetup_grub:
  assumes "boottype (pxe t) = ''grub''"
  shows "fst (completePxeSetup ka t w) =
     (let mknetdir = [''grub2-mknetdir'', ''--net-directory='' @ tftpdir t]
      in if fault w (Sys_Run mknetdir) then Fail (OsError (Sys_Run mknetdir))
         else Ok (t\<lparr>pxe := (pxe t)\<lparr>bootfile := ''/boot/grub2/powerpc-ieee1275/core.elf''\<rparr>\<rparr>))"
  using assms
  by (simp add: completePxeSetup_def exec_Run_def Let_def)

lemma setup_pxe_plan:
  assumes "setup_pxe w = (Ok p, w')"
  shows "boottype p = (if RpmArch w = ''ppc64le'' then ''grub'' else ''pxe'')"
    and "(pxeimagepath p = []) = (RpmArch w \<noteq> ''x86_64'')"
  using assms by (auto simp: setup_pxe_def Let_def split: if_splits)

lemma Install_setup_plan:
  assumes "Install_setup k i w0 = (Ok t0, w1)"
  shows "boottype (pxe t0) = (if RpmArch w0 = ''ppc64le'' then ''grub'' else ''pxe'')"
    and "(pxeimagepath (pxe t0) = []) = (RpmArch w0 \<noteq> ''x86_64'')"
proof -
  from Install_setup_OkD [OF assms] obtain w4 where
    "RpmArch w4 = RpmArch w0" "setup_pxe w4 = (Ok (pxe t0), w4)" by blast
  with setup_pxe_plan [of w4 "pxe t0" w4]
  show "boottype (pxe t0) = (if RpmArch w0 = ''ppc64le'' then ''grub'' else ''pxe'')"
    and "(pxeimagepath (pxe t0) = []) = (RpmArch w0 \<noteq> ''x86_64'')"
    by simp_all
qed

text \<open>
  C6. \<open>completePxeSetup\<close> panics exactly when the boot protocol of the plan is neither
  \<open>pxe\<close> nor \<open>grub\<close>. A run that \<open>setup\<close> returned has \<open>grub\<close> on ppc64le and \<open>pxe\<close>
  on x86_64 and s390x, so the call does not panic on it (nor on the same run with
  another builder, as \<open>runPXE\<close> passes it). What it returns instead is settled by its
  steps alone. On ppc64le it returns the run with the GRUB \<open>core.elf\<close> recorded as boot
  file unless \<open>grub2-mknetdir\<close> fails. On x86_64 and s390x it returns the run with
  \<open>/pxelinux.0\<close> recorded unless making \<open>pxelinux.cfg\<close> fails (the call itself, or the
  name is taken) or the image step fails: \<open>mk-s390image\<close> on s390x, one of the two
  copies on x86_64. In each failing case it returns the error of that step and no run.
\<close>

theorem completePxeSetup_panics_exactly:
  "((\<exists>m. fst (completePxeSetup ka t w) = Panic m) \<longleftrightarrow>
      boottype (pxe t) \<notin> {''pxe'', ''grub''}) \<and>
   (Install_setup k i w0 = (Ok t0, w1) \<longrightarrow>
      boottype (pxe t0) = (if RpmArch w0 = ''ppc64le'' then ''grub'' else ''pxe'') \<and>
      boottype (pxe t0) \<in> {''pxe'', ''grub''} \<and>
      fst (completePxeSetup ka (t0\<lparr>builder := b\<rparr>) w) \<noteq> Panic m \<and>
      fst (completePxeSetup ka (t0\<lparr>builder := b\<rparr>) w) =
        (let dir = Join [tftpdir t0, ''pxelinux.cfg''];
             mknetdir = [''grub2-mknetdir'', ''--net-directory='' @ tftpdir t0];
             mk = [''/usr/share/s390-tools/netboot/mk-s390image'',
                   Join [builddir t0, kernel (kern t0)], ''-r'',
                   Join [builddir t0, initramfs (kern t0)], ''-p'', Join [dir, ''default''],
                   Join [tftpdir t0, ''pxelinux.0'']];
             cp0 = [''/usr/lib/coreos-assembler/cp-reflink'',
                    Join [''/usr/share/syslinux'', ''pxelinux.0''], tftpdir t0];
             cp1 = [''/usr/lib/coreos-assembler/cp-reflink'',
                    Join [''/usr/share/syslinux'', ''ldlinux.c32''], tftpdir t0];
             recorded = (\<lambda>f. Ok (t0\<lparr>builder := b, pxe := (pxe t0)\<lparr>bootfile := f\<rparr>\<rparr>))
         in if RpmArch w0 = ''ppc64le'' then
              (if fault w (Sys_Run mknetdir) then Fail (OsError (Sys_Run mknetdir))
               else recorded ''/boot/grub2/powerpc-ieee1275/core.elf'')
            else if fault w (Sys_Mkdir dir) then Fail (OsError (Sys_Mkdir dir))
            else if fs w dir = None then
              (if RpmArch w0 = ''s390x'' then
                 (if fault w (Sys_Run mk) then Fail (OsError (Sys_Run mk))
                  else recorded ''/pxelinux.0'')
               else if fault w (Sys_Run cp0) then Fail (OsError (Sys_Run cp0))
               else if fault w (Sys_Run cp1) then Fail (OsError (Sys_Run cp1))
               else recorded ''/pxelinux.0'')
            else Fail (OsError (Sys_Mkdir dir))))"
proof (intro conjI impI)
  show "(\<exists>m. fst (completePxeSetup ka t w) = Panic m) \<longleftrightarrow>
          boottype (pxe t) \<notin> {''pxe'', ''grub''}"
    using completePxeSetup_no_Panic [of t ka w] completePxeSetup_Panic [of t ka w]
    by (cases "boottype (pxe t) \<in> {''pxe'', ''grub''}") auto
next
  assume s: "Install_setup k i w0 = (Ok t0, w1)"
  note plan = Install_setup_plan [OF s]
  from Install_setup_Ok_arch [OF s]
  have a: "RpmArch w0 \<in> {''x86_64'', ''ppc64le'', ''s390x''}"
    and p: "boottype (pxe t0) \<in> {''pxe'', ''grub''}" .
  show "boottype (pxe t0) = (if RpmArch w0 = ''ppc64le'' then ''grub'' else ''pxe'')"
    by (rule plan(1))
  show "boottype (pxe t0) \<in> {''pxe'', ''grub''}" by (rule p)
  from p have "boottype (pxe (t0\<lparr>builder := b\<rparr>)) \<in> {''pxe'', ''grub''}" by simp
  then show "fst (completePxeSetup ka (t0\<lparr>builder := b\<rparr>) w) \<noteq> Panic m"
    by (rule completePxeSetup_no_Panic)
  show "fst (completePxeSetup ka (t0\<lparr>builder := b\<rparr>) w) =
        (let dir = Join [tftpdir t0, ''pxelinux.cfg''];
             mknetdir = [''grub2-mknetdir'', ''--net-directory='' @ tftpdir t0];
             mk = [''/usr/share/s390-tools/netboot/mk-s390image'',
                   Join [builddir t0, kernel (kern t0)], ''-r'',
                   Join [builddir t0, initramfs (kern t0)], ''-p'', Join [dir, ''default''],
                   Join [tftpdir t0, ''pxelinux.0'']];
             cp0 = [''/usr/lib/coreos-assembler/cp-reflink'',
                    Join [''/usr/share/syslinux'', ''pxelinux.0''], tftpdir t0];
             cp1 = [''/usr/lib/coreos-assembler/cp-reflink'',
                    Join [''/usr/share/syslinux'', ''ldlinux.c32''], tftpdir t0];
             recorded = (\<lambda>f. Ok (t0\<lparr>builder := b, pxe := (pxe t0)\<lparr>bootfile := f\<rparr>\<rparr>))
         in if RpmArch w0 = ''ppc64le'' then
              (if fault w (Sys_Run mknetdir) then Fail (OsError (Sys_Run mknetdir))
               else recorded ''/boot/grub2/powerpc-ieee1275/core.elf'')
            else if fault w (Sys_Mkdir dir) then Fail (OsError (Sys_Mkdir dir))
            else if fs w dir = None then
              (if RpmArch w0 = ''s390x'' then
                 (if fault w (Sys_Run mk) then Fail (OsError (Sys_Run mk))
                  else recorded ''/pxelinux.0'')
               else if fault w (Sys_Run cp0) then Fail (OsError (Sys_Run cp0))
               else if fault w (Sys_Run cp1) then Fail (OsError (Sys_Run cp1))
               else recorded ''/pxelinux.0'')
            else Fail (OsError (Sys_Mkdir dir)))"
  proof (cases "RpmArch w0 = ''ppc64le''")
    case True
    with plan(1) have "boottype (pxe (t0\<lparr>builder := b\<rparr>)) = ''grub''" by simp
    from completePxeSetup_grub [OF this, of ka w] True show ?thesis
      by (simp add: Let_def)
  next
    case False
    with plan(1) have g: "boottype (pxe (t0\<lparr>builder := b\<rparr>)) = ''pxe''" by simp
    from False a plan(2) have "(pxeimagepath (pxe t0) = []) = (RpmArch w0 = ''s390x'')"
      by auto
    with completePxeSetup_pxe [OF g, of ka w] False show ?thesis
      by (simp add: Let_def)
  qed
qed

lemma sample_setup_ppc64le:
  "Install_setup sample_kern sample_install (sample_host\<lparr>RpmArch := ''ppc64le''\<rparr>)
     = (Ok sample_run_ppc64le, sample_staged\<lparr>RpmArch := ''ppc64le''\<rparr>)"
  by (simp add: Install_setup_def setup_staged_def sample_kern_def sample_install_def
        sample_host_def sample_run_def sample_run_ppc64le_def sample_staged_def
        sample_artifacts_def sample_paths
        ioutil_TempDir_def os_Mkdir_def ioutil_WriteFile_def os_Symlink_def filepath_Abs_def
        os_Open_def os_OpenFile_def overwrite_def exec_Run_def run_gzip_def net_Listen_def
        absSymlink_def setupMetalImage_def newQemuBuilder_def setup_pxe_def HasSuffix_def
        IsAbs_def Let_def follow.simps)

lemma sample_setup_s390x:
  "Install_setup sample_kern sample_install (sample_host\<lparr>RpmArch := ''s390x''\<rparr>)
     = (Ok sample_run_s390x, sample_staged\<lparr>RpmArch := ''s390x''\<rparr>)"
  by (simp add: Install_setup_def setup_staged_def sample_kern_def sample_install_def
        sample_host_def sample_run_def sample_run_s390x_def sample_staged_def
        sample_artifacts_def sample_paths
        ioutil_TempDir_def os_Mkdir_def ioutil_WriteFile_def os_Symlink_def filepath_Abs_def
        os_Open_def os_OpenFile_def overwrite_def exec_Run_def run_gzip_def net_Listen_def
        absSymlink_def setupMetalImage_def newQemuBuilder_def setup_pxe_def HasSuffix_def
        IsAbs_def Let_def follow.simps)

theorem completePxeSetup_panics_exactly_witness:
  "(\<exists>m. fst (completePxeSetup sample_kargs
                 (sample_run\<lparr>pxe := (pxe sample_run)\<lparr>boottype := ''efi''\<rparr>\<rparr>) sample_staged)
          = Panic m) \<and>
   Install_setup sample_kern sample_install sample_host = (Ok sample_run, sample_staged) \<and>
   boottype (pxe sample_run) = ''pxe'' \<and>
   fst (completePxeSetup sample_kargs sample_live_run sample_staged)
     = Ok (sample_live_run\<lparr>pxe := (pxe sample_run)\<lparr>bootfile := ''/pxelinux.0''\<rparr>\<rparr>) \<and>
   Install_setup sample_kern sample_install (sample_host\<lparr>RpmArch := ''ppc64le''\<rparr>)
     = (Ok sample_run_ppc64le, sample_staged\<lparr>RpmArch := ''ppc64le''\<rparr>) \<and>
   boottype (pxe sample_run_ppc64le) = ''grub'' \<and>
   fst (completePxeSetup sample_kargs sample_run_ppc64le (sample_staged\<lparr>RpmArch := ''ppc64le''\<rparr>))
     = Ok (sample_run_ppc64le
             \<lparr>pxe := (pxe sample_run_ppc64le)
                       \<lparr>bootfile := ''/boot/grub2/powerpc-ieee1275/core.elf''\<rparr>\<rparr>) \<and>
   fst (completePxeSetup sample_kargs sample_run_ppc64le
          (sample_staged\<lparr>RpmArch := ''ppc64le'',
                          fault := (\<lambda>c. c = Sys_Run [''grub2-mknetdir'',
                                      ''--net-directory=/tmp/kola-testiso1/tftp''])\<rparr>))
     = Fail (OsError (Sys_Run [''grub2-mknetdir'', ''--net-directory=/tmp/kola-testiso1/tftp''])) \<and>
   Install_setup sample_kern sample_install (sample_host\<lparr>RpmArch := ''s390x''\<rparr>)
     = (Ok sample_run_s390x, sample_staged\<lparr>RpmArch := ''s390x''\<rparr>) \<and>
   fst (completePxeSetup sample_kargs sample_run_s390x (sample_staged\<lparr>RpmArch := ''s390x''\<rparr>))
     = Ok (sample_run_s390x\<lparr>pxe := (pxe sample_run_s390x)\<lparr>bootfile := ''/pxelinux.0''\<rparr>\<rparr>)"
proof -
  let ?e = "sample_run\<lparr>pxe := (pxe sample_run)\<lparr>boottype := ''efi''\<rparr>\<rparr>"
  let ?wp = "sample_staged\<lparr>RpmArch := ''ppc64le''\<rparr>"
  let ?wf = "sample_staged\<lparr>RpmArch := ''ppc64le'',
                          fault := (\<lambda>c. c = Sys_Run [''grub2-mknetdir'',
                                      ''--net-directory=/tmp/kola-testiso1/tftp''])\<rparr>"
  let ?ws = "sample_staged\<lparr>RpmArch := ''s390x''\<rparr>"
  have b: "sample_run\<lparr>builder := builder sample_live_run\<rparr> = sample_live_run"
      "sample_run_ppc64le\<lparr>builder := builder sample_run_ppc64le\<rparr> = sample_run_ppc64le"
      "sample_run_s390x\<lparr>builder := builder sample_run_s390x\<rparr> = sample_run_s390x"
    by (simp_all add: sample_live_run_def)
  have e: "boottype (pxe ?e) \<notin> {''pxe'', ''grub''}" by simp
  have f: "fault sample_staged = (\<lambda>c. False)" "fault ?wp = (\<lambda>c. False)"
      "fault ?ws = (\<lambda>c. False)"
      "fs sample_staged ''/tmp/kola-testiso1/tftp/pxelinux.cfg'' = None"
      "fs ?ws ''/tmp/kola-testiso1/tftp/pxelinux.cfg'' = None"
      "RpmArch sample_host = ''x86_64''"
    by (simp_all add: sample_staged_def sample_host_def)
  have t: "tftpdir sample_run = ''/tmp/kola-testiso1/tftp''"
      "tftpdir sample_run_ppc64le = ''/tmp/kola-testiso1/tftp''"
      "tftpdir sample_run_s390x = ''/tmp/kola-testiso1/tftp''"
      "boottype (pxe sample_run) = ''pxe''" "boottype (pxe sample_run_ppc64le) = ''grub''"
      "builder sample_live_run = (builder sample_run)\<lparr>Memory := 4096\<rparr>"
    by (simp_all add: sample_run_def sample_run_ppc64le_def sample_run_s390x_def
          sample_live_run_def)
  from e have p: "\<exists>m. fst (completePxeSetup sample_kargs ?e sample_staged) = Panic m"
    using completePxeSetup_panics_exactly [of sample_kargs ?e sample_staged] by simp
  from completePxeSetup_panics_exactly [of sample_kargs ?e sample_staged
      sample_kern sample_install sample_host sample_run sample_staged
      "builder sample_live_run" "[]"] sample_setup b f t
  have x: "fst (completePxeSetup sample_kargs sample_live_run sample_staged)
     = Ok (sample_live_run\<lparr>pxe := (pxe sample_run)\<lparr>bootfile := ''/pxelinux.0''\<rparr>\<rparr>)"
    by (simp add: sample_paths Let_def sample_live_run_def)
  from completePxeSetup_panics_exactly [of sample_kargs ?e ?wp
      sample_kern sample_install "sample_host\<lparr>RpmArch := ''ppc64le''\<rparr>" sample_run_ppc64le ?wp
      "builder sample_run_ppc64le" "[]"] sample_setup_ppc64le b f t
  have g: "fst (completePxeSetup sample_kargs sample_run_ppc64le ?wp)
     = Ok (sample_run_ppc64le
             \<lparr>pxe := (pxe sample_run_ppc64le)
                       \<lparr>bootfile := ''/boot/grub2/powerpc-ieee1275/core.elf''\<rparr>\<rparr>)"
    by (simp add: Let_def)
  from completePxeSetup_panics_exactly [of sample_kargs ?e ?wf
      sample_kern sample_install "sample_host\<lparr>RpmArch := ''ppc64le''\<rparr>" sample_run_ppc64le ?wp
      "builder sample_run_ppc64le" "[]"] sample_setup_ppc64le b t
  have h: "fst (completePxeSetup sample_kargs sample_run_ppc64le ?wf)
     = Fail (OsError (Sys_Run [''grub2-mknetdir'', ''--net-directory=/tmp/kola-testiso1/tftp'']))"
    by (simp add: Let_def)
  from completePxeSetup_panics_exactly [of sample_kargs ?e ?ws
      sample_kern sample_install "sample_host\<lparr>RpmArch := ''s390x''\<rparr>" sample_run_s390x ?ws
      "builder sample_run_s390x" "[]"] sample_setup_s390x b f t
  have s: "fst (completePxeSetup sample_kargs sample_run_s390x ?ws)
     = Ok (sample_run_s390x\<lparr>pxe := (pxe sample_run_s390x)\<lparr>bootfile := ''/pxelinux.0''\<rparr>\<rparr>)"
    by (simp add: sample_paths Let_def)
  from p x g h s sample_setup sample_setup_ppc64le sample_setup_s390x t show ?thesis
    by simp
qed

subsection \<open>The order of the kernel arguments (C7), continued\<close>

lemma runPXE_after_setup:
  assumes "Install_setup k i w = (Ok t, w1)"
  shows "runPXE k legacy i w =
     (let t1 = (if \<not> legacy then t\<lparr>builder := setBuilderLiveMemory (builder t)\<rparr> else t)
      in case completePxeSetup (runPXE_kargs t1 legacy w1) t1 w1 of
           (Ok t2, w2) \<Rightarrow>
             (case run t2 w2 of
                (Ok qinst, w3) \<Rightarrow> (Ok \<lparr>tempdir_m = [], QemuInst = qinst\<rparr>, w3)
              | (Fail e, w3) \<Rightarrow> (Fail e, destroy t2 w3)
              | (Panic p, w3) \<Rightarrow> (Panic p, destroy t2 w3))
         | (Fail e, w2) \<Rightarrow> (Fail e, destroy t1 w2)
         | (Panic p, w2) \<Rightarrow> (Panic p, destroy t1 w2))"
proof -
  let ?t1 = "if \<not> legacy then t\<lparr>builder := setBuilderLiveMemory (builder t)\<rparr> else t"
  obtain r2 w2 where c: "completePxeSetup (runPXE_kargs ?t1 legacy w1) ?t1 w1 = (r2, w2)"
    by (cases "completePxeSetup (runPXE_kargs ?t1 legacy w1) ?t1 w1")
  show ?thesis
  proof (cases r2)
    case (Ok t2)
    obtain r3 w3 where q: "run t2 w2 = (r3, w3)" by (cases "run t2 w2")
    show ?thesis
      unfolding runPXE_def Let_def
      by (cases r3) (simp_all add: assms c Ok q destroy_def)
  next
    case (Fail e)
    show ?thesis unfolding runPXE_def Let_def by (simp add: assms c Fail)
  next
    case (Panic p)
    show ?thesis unfolding runPXE_def Let_def by (simp add: assms c Panic)
  qed
qed

text \<open>
  C7. Take a PXE install whose artifacts are there for the mode selected by
  \<open>LegacyInstaller\<close> and whose \<open>setup\<close> returned a run. Then everything \<open>PXE\<close> does
  after \<open>setup\<close> is \<open>completePxeSetup\<close> on one list of kernel arguments, followed by
  the launch. The list is, in this order: the base group with the console of the
  architecture; the live group exactly when \<open>LegacyInstaller\<close> is not set; the install
  group, whose image URL is the base URL of the content server (the plan's address and
  the listener's port) and the name that staging the metal image returned; and
  \<open>coreos.inst.insecure=1\<close> exactly when the request has \<open>Insecure\<close> set.
\<close>

theorem PXE_kargs_order:
  assumes "Metal (BuildArtifacts (CosaBuild i)) = Some metal"
    and "(if LegacyInstaller i then Kernel (BuildArtifacts (CosaBuild i))
          else LiveKernel (BuildArtifacts (CosaBuild i))) = Some kf"
    and "(if LegacyInstaller i then Initramfs (BuildArtifacts (CosaBuild i))
          else LiveInitramfs (BuildArtifacts (CosaBuild i))) = Some rf"
    and "Install_setup \<lparr>kernel = Path kf, initramfs = Path rf\<rparr>
           (i\<lparr>kargs := ka, ignition := ig\<rparr>) w = (Ok t, w1)"
  shows "\<exists>tty port v3 v4.
           consoleKernelArgument (RpmArch w) = Some tty \<and>
           net_Listen (tftpdir t) v4 = (Ok port, w1) \<and>
           baseurl t = ''http://'' @ tftpipaddr (pxe t) @ '':'' @ Itoa port \<and>
           setupMetalImage (Dir_of (CosaBuildDir i)) (Path metal) (tftpdir t) v3
             = (Ok (metalname t), v4) \<and>
           PXE ka ig i w =
             (let legacy = LegacyInstaller i;
                  i1 = i\<lparr>kargs := ka, ignition := ig\<rparr>;
                  composed =
                    [''rd.neednet=1'', ''ip=dhcp'', ''console='' @ tty]
                    @ (if legacy then []
                       else [''ignition.firstboot'', ''ignition.platform.id=metal''])
                    @ [''coreos.inst=yes'', ''coreos.inst.install_dev=vda'',
                       ''coreos.inst.image_url='' @ baseurl t @ ''/'' @ metalname t,
                       ''coreos.inst.ignition_url='' @ baseurl t @ ''/config.ign'']
                    @ (if Insecure i then [''coreos.inst.insecure=1''] else []);
                  t1 = (if \<not> legacy then t\<lparr>builder := setBuilderLiveMemory (builder t)\<rparr>
                        else t);
                  msg = (if legacy then ''legacy installer'' else ''testing live installer'')
              in case completePxeSetup composed t1 w1 of
                   (Ok t2, w2) \<Rightarrow>
                     (case run t2 w2 of
                        (Ok qinst, w3) \<Rightarrow> (Ok \<lparr>tempdir_m = [], QemuInst = qinst\<rparr>, i1, w3)
                      | (Fail e, w3) \<Rightarrow> (Fail (Wrapf e msg), i1, destroy t2 w3)
                      | (Panic p, w3) \<Rightarrow> (Panic p, i1, destroy t2 w3))
                 | (Fail e, w2) \<Rightarrow> (Fail (Wrapf e msg), i1, destroy t1 w2)
                 | (Panic p, w2) \<Rightarrow> (Panic p, i1, destroy t1 w2))"
proof -
  let ?i1 = "i\<lparr>kargs := ka, ignition := ig\<rparr>"
  let ?k = "\<lparr>kernel = Path kf, initramfs = Path rf\<rparr>"
  let ?legacy = "LegacyInstaller i"
  let ?t1 = "if \<not> ?legacy then t\<lparr>builder := setBuilderLiveMemory (builder t)\<rparr> else t"
  let ?msg = "if ?legacy then ''legacy installer'' else ''testing live installer''"
  from runPXE_kargs_setup [OF assms(4), of "builder ?t1" ?legacy]
  obtain tty port metal' v3 v4 where
    c: "consoleKernelArgument (RpmArch w1) = Some tty"
    and n: "net_Listen (tftpdir t) v4 = (Ok port, w1)"
    and b: "baseurl t = ''http://'' @ tftpipaddr (pxe t) @ '':'' @ Itoa port"
    and m: "Metal (BuildArtifacts (CosaBuild ?i1)) = Some metal'"
    and s: "setupMetalImage (Dir_of (CosaBuildDir ?i1)) (Path metal') (tftpdir t) v3
              = (Ok (metalname t), v4)"
    and l: "runPXE_kargs (t\<lparr>builder := builder ?t1\<rparr>) ?legacy w1 =
             [''rd.neednet=1'', ''ip=dhcp'', ''console='' @ tty]
             @ (if ?legacy then [] else [''ignition.firstboot'', ''ignition.platform.id=metal''])
             @ [''coreos.inst=yes'', ''coreos.inst.install_dev=vda'',
                ''coreos.inst.image_url='' @ baseurl t @ ''/'' @ metalname t,
                ''coreos.inst.ignition_url='' @ baseurl t @ ''/config.ign'']
             @ (if Insecure ?i1 then [''coreos.inst.insecure=1''] else [])"
    by blast
  let ?L = "[''rd.neednet=1'', ''ip=dhcp'', ''console='' @ tty]
             @ (if ?legacy then [] else [''ignition.firstboot'', ''ignition.platform.id=metal''])
             @ [''coreos.inst=yes'', ''coreos.inst.install_dev=vda'',
                ''coreos.inst.image_url='' @ baseurl t @ ''/'' @ metalname t,
                ''coreos.inst.ignition_url='' @ baseurl t @ ''/config.ign'']
             @ (if Insecure i then [''coreos.inst.insecure=1''] else [])"
  from l have l': "runPXE_kargs ?t1 ?legacy w1 = ?L"
    by (cases "LegacyInstaller i") simp_all
  have a: "RpmArch w1 = RpmArch w" using assms(4) by (rule arch_Install_setup_Ok)
  from m assms(1) have mm: "metal' = metal" by simp
  from s mm have s': "setupMetalImage (Dir_of (CosaBuildDir i)) (Path metal) (tftpdir t) v3
              = (Ok (metalname t), v4)" by simp
  from c a have c': "consoleKernelArgument (RpmArch w) = Some tty" by simp
  have p: "PXE ka ig i w =
             (case Wrapf_on ?msg (runPXE ?k ?legacy ?i1 w) of (r, w') \<Rightarrow> (r, ?i1, w'))"
    using assms(1,2,3) by (cases "LegacyInstaller i") (simp_all add: PXE_def Let_def)
  note r = runPXE_after_setup [OF assms(4), of ?legacy, unfolded Let_def l']
  obtain r2 w2 where cp: "completePxeSetup ?L ?t1 w1 = (r2, w2)"
    by (cases "completePxeSetup ?L ?t1 w1")
  have e: "PXE ka ig i w =
          (case completePxeSetup ?L ?t1 w1 of
                   (Ok t2, w2) \<Rightarrow>
                     (case run t2 w2 of
                        (Ok qinst, w3) \<Rightarrow> (Ok \<lparr>tempdir_m = [], QemuInst = qinst\<rparr>, ?i1, w3)
                      | (Fail e, w3) \<Rightarrow> (Fail (Wrapf e ?msg), ?i1, destroy t2 w3)
                      | (Panic p, w3) \<Rightarrow> (Panic p, ?i1, destroy t2 w3))
                 | (Fail e, w2) \<Rightarrow> (Fail (Wrapf e ?msg), ?i1, destroy ?t1 w2)
                 | (Panic p, w2) \<Rightarrow> (Panic p, ?i1, destroy ?t1 w2))"
  proof (cases r2)
    case (Ok t2)
    obtain r3 w3 where q: "run t2 w2 = (r3, w3)" by (cases "run t2 w2")
    show ?thesis unfolding p r cp Ok by (cases r3) (simp_all add: q)
  next
    case (Fail e)
    show ?thesis unfolding p r cp Fail by simp
  next
    case (Panic p')
    show ?thesis unfolding p r cp Panic by simp
  qed
  show ?thesis
    apply (rule exI [of _ tty], rule exI [of _ port], rule exI [of _ v3], rule exI [of _ v4])
    apply (intro conjI)
        apply (rule c')
       apply (rule n)
      apply (rule b)
     apply (rule s')
    unfolding Let_def
    apply (rule e)
    done
qed

lemma sample_paths_legacy:
  "Join [''/tmp/kola-testiso1/tftp'', ''k''] = ''/tmp/kola-testiso1/tftp/k''"
  "Join [''/tmp/kola-testiso1/tftp'', ''i''] = ''/tmp/kola-testiso1/tftp/i''"
  "Join [''/b'', ''k''] = ''/b/k''"
  "Join [''/b'', ''i''] = ''/b/i''"
  "Clean ''/b/k'' = ''/b/k''"
  "Clean ''/b/i'' = ''/b/i''"
  by (simp_all add: Join_def Clean_def clean_elem_def Let_def)

lemma sample_setup_legacy:
  "Install_setup sample_legacy_kern sample_legacy_install sample_host
     = (Ok sample_legacy_run, sample_legacy_staged)"
  by (simp add: Install_setup_def setup_staged_def sample_legacy_kern_def
        sample_legacy_install_def sample_install_def sample_kern_def
        sample_host_def sample_run_def sample_legacy_run_def sample_legacy_staged_def
        sample_artifacts_def sample_paths sample_paths_legacy
        ioutil_TempDir_def os_Mkdir_def ioutil_WriteFile_def os_Symlink_def filepath_Abs_def
        os_Open_def os_OpenFile_def overwrite_def exec_Run_def run_gzip_def net_Listen_def
        absSymlink_def setupMetalImage_def newQemuBuilder_def setup_pxe_def HasSuffix_def
        IsAbs_def Let_def follow.simps)

lemma sample_legacy_complete:
  "completePxeSetup sample_legacy_kargs sample_legacy_run sample_legacy_staged
     = (Ok (sample_legacy_run\<lparr>pxe := (pxe sample_run)\<lparr>bootfile := ''/pxelinux.0''\<rparr>\<rparr>),
        sample_legacy_configured)"
  by (simp add: completePxeSetup_def sample_legacy_run_def sample_run_def
        sample_legacy_staged_def sample_legacy_kern_def
        sample_host_def sample_legacy_configured_def sample_paths sample_paths2
        os_Mkdir_def ioutil_WriteFile_def exec_Run_def pxeconfig_def Let_def follow.simps)

lemma sample_legacy_launch:
  "is_Ok (fst (run (sample_legacy_run\<lparr>pxe := (pxe sample_run)\<lparr>bootfile := ''/pxelinux.0''\<rparr>\<rparr>)
                 sample_legacy_configured)) \<and>
   fs (snd (run (sample_legacy_run\<lparr>pxe := (pxe sample_run)\<lparr>bootfile := ''/pxelinux.0''\<rparr>\<rparr>)
                 sample_legacy_configured)) = fs sample_legacy_configured"
  by (simp add: run_def QemuBuilder_Exec_def Let_def sample_legacy_configured_def
        sample_legacy_staged_def sample_host_def)

theorem PXE_kargs_order_witness:
  "PXE [] ''{}'' sample_install sample_host = (Ok sample_machine, sample_install, sample_final) \<and>
   fs sample_final ''/tmp/kola-testiso1/tftp/pxelinux.cfg/default''
     = Some (File (pxelinux_config sample_kern
         (''rd.neednet=1 ip=dhcp console=ttyS0 ignition.firstboot ignition.platform.id=metal''
          @ '' coreos.inst=yes coreos.inst.install_dev=vda''
          @ '' coreos.inst.image_url=http://192.168.76.2:8080/m.raw.gz''
          @ '' coreos.inst.ignition_url=http://192.168.76.2:8080/config.ign''))) \<and>
   LegacyInstaller sample_legacy_install \<and> Insecure sample_legacy_install \<and>
   is_Ok (fst (PXE [] ''{}'' sample_legacy_install sample_host)) \<and>
   fs (snd (snd (PXE [] ''{}'' sample_legacy_install sample_host)))
      ''/tmp/kola-testiso1/tftp/pxelinux.cfg/default''
     = Some (File (pxelinux_config sample_legacy_kern
         (''rd.neednet=1 ip=dhcp console=ttyS0''
          @ '' coreos.inst=yes coreos.inst.install_dev=vda''
          @ '' coreos.inst.image_url=http://192.168.76.2:8080/m.raw.gz''
          @ '' coreos.inst.ignition_url=http://192.168.76.2:8080/config.ign''
          @ '' coreos.inst.insecure=1'')))"
proof -
  have i: "sample_install\<lparr>kargs := [], ignition := ''{}''\<rparr> = sample_install"
      "sample_legacy_install\<lparr>kargs := [], ignition := ''{}''\<rparr> = sample_legacy_install"
    by (simp_all add: sample_legacy_install_def sample_install_def)
  have a: "Metal (BuildArtifacts (CosaBuild sample_install)) = Some \<lparr>Path = ''m.raw''\<rparr>"
      "Metal (BuildArtifacts (CosaBuild sample_legacy_install)) = Some \<lparr>Path = ''m.raw''\<rparr>"
      "(if LegacyInstaller sample_install
        then Kernel (BuildArtifacts (CosaBuild sample_install))
        else LiveKernel (BuildArtifacts (CosaBuild sample_install))) = Some \<lparr>Path = ''lk''\<rparr>"
      "(if LegacyInstaller sample_install
        then Initramfs (BuildArtifacts (CosaBuild sample_install))
        else LiveInitramfs (BuildArtifacts (CosaBuild sample_install))) = Some \<lparr>Path = ''li''\<rparr>"
      "(if LegacyInstaller sample_legacy_install
        then Kernel (BuildArtifacts (CosaBuild sample_legacy_install))
        else LiveKernel (BuildArtifacts (CosaBuild sample_legacy_install)))
         = Some \<lparr>Path = ''k''\<rparr>"
      "(if LegacyInstaller sample_legacy_install
        then Initramfs (BuildArtifacts (CosaBuild sample_legacy_install))
        else LiveInitramfs (BuildArtifacts (CosaBuild sample_legacy_install)))
         = Some \<lparr>Path = ''i''\<rparr>"
    by (simp_all add: sample_legacy_install_def sample_install_def sample_artifacts_def)
  have f: "LegacyInstaller sample_legacy_install" "Insecure sample_legacy_install"
      "\<not> LegacyInstaller sample_install" "\<not> Insecure sample_install"
    by (simp_all add: sample_legacy_install_def sample_install_def)
  have s1: "Install_setup \<lparr>kernel = Path \<lparr>Path = ''lk''\<rparr>, initramfs = Path \<lparr>Path = ''li''\<rparr>\<rparr>
              (sample_install\<lparr>kargs := [], ignition := ''{}''\<rparr>) sample_host
              = (Ok sample_run, sample_staged)"
    using sample_setup by (simp add: i sample_kern_def)
  have s2: "Install_setup \<lparr>kernel = Path \<lparr>Path = ''k''\<rparr>, initramfs = Path \<lparr>Path = ''i''\<rparr>\<rparr>
              (sample_legacy_install\<lparr>kargs := [], ignition := ''{}''\<rparr>) sample_host
              = (Ok sample_legacy_run, sample_legacy_staged)"
    using sample_setup_legacy by (simp add: i sample_legacy_kern_def)
  have r: "baseurl sample_run = ''http://192.168.76.2:8080''" "metalname sample_run = ''m.raw.gz''"
      "baseurl sample_legacy_run = ''http://192.168.76.2:8080''"
      "metalname sample_legacy_run = ''m.raw.gz''"
      "sample_run\<lparr>builder := setBuilderLiveMemory (builder sample_run)\<rparr> = sample_live_run"
    by (simp_all add: sample_run_def sample_legacy_run_def sample_live_run_def
          setBuilderLiveMemory_def)
  have c: "consoleKernelArgument (RpmArch sample_host) = Some tty \<longleftrightarrow> tty = ''ttyS0''" for tty
    by (auto simp: sample_host_def consoleKernelArgument_def)
  from PXE_kargs_order [OF a(1) a(3) a(4) s1]
  have live: "PXE [] ''{}'' sample_install sample_host
                = (Ok sample_machine, sample_install, sample_final)"
    by (auto simp: c f i r Let_def sample_kargs_def [symmetric] sample_complete sample_launch
          sample_machine_def)
  from PXE_kargs_order [OF a(2) a(5) a(6) s2]
  have legacy: "PXE [] ''{}'' sample_legacy_install sample_host
                = (case run (sample_legacy_run\<lparr>pxe := (pxe sample_run)
                                \<lparr>bootfile := ''/pxelinux.0''\<rparr>\<rparr>) sample_legacy_configured of
                     (Ok qinst, w3) \<Rightarrow>
                       (Ok \<lparr>tempdir_m = [], QemuInst = qinst\<rparr>, sample_legacy_install, w3)
                   | (Fail e, w3) \<Rightarrow>
                       (Fail (Wrapf e ''legacy installer''), sample_legacy_install,
                        destroy (sample_legacy_run\<lparr>pxe := (pxe sample_run)
                                   \<lparr>bootfile := ''/pxelinux.0''\<rparr>\<rparr>) w3)
                   | (Panic p, w3) \<Rightarrow>
                       (Panic p, sample_legacy_install,
                        destroy (sample_legacy_run\<lparr>pxe := (pxe sample_run)
                                   \<lparr>bootfile := ''/pxelinux.0''\<rparr>\<rparr>) w3))"
    by (auto simp: c f i r Let_def sample_legacy_kargs_def [symmetric] sample_legacy_complete)
  obtain q w3 where l: "run (sample_legacy_run\<lparr>pxe := (pxe sample_run)
                                \<lparr>bootfile := ''/pxelinux.0''\<rparr>\<rparr>) sample_legacy_configured
                         = (Ok q, w3)" and w3: "fs w3 = fs sample_legacy_configured"
    using sample_legacy_launch
    by (cases "run (sample_legacy_run\<lparr>pxe := (pxe sample_run)
                 \<lparr>bootfile := ''/pxelinux.0''\<rparr>\<rparr>) sample_legacy_configured")
       (auto simp: is_Ok_iff)
  have x: "fs sample_final ''/tmp/kola-testiso1/tftp/pxelinux.cfg/default''
     = Some (File (pxelinux_config sample_kern (strings_Join sample_kargs '' '')))"
    by (simp add: sample_final_def sample_configured_def)
  have y: "fs sample_legacy_configured ''/tmp/kola-testiso1/tftp/pxelinux.cfg/default''
     = Some (File (pxelinux_config sample_legacy_kern (strings_Join sample_legacy_kargs '' '')))"
    by (simp add: sample_legacy_configured_def)
  from live legacy l w3 x y f show ?thesis
    by (simp add: sample_kargs_def sample_legacy_kargs_def)
qed

end
